theory Spec2Isabelle
  imports Main "HOL-Library.Word"
begin

unbundle bit_operations_syntax

section \<open>Host values and constants\<close>

text \<open>
  A \<open>VALUE\<close> is a 64-bit machine word. The special constants and tag bits below are
  the ones of the host VM's headers on a 64-bit build; the code generator itself asserts
  \<open>Qfalse == 0\<close> and \<open>Qfalse < Qnil\<close>.
\<close>

type_synonym VALUE = "64 word"

definition Qfalse :: VALUE where "Qfalse = 0"
definition Qnil :: VALUE where "Qnil = 8"
definition Qtrue :: VALUE where "Qtrue = 20"
definition Qundef :: VALUE where "Qundef = 52"

definition RUBY_FIXNUM_FLAG :: VALUE where "RUBY_FIXNUM_FLAG = 1"
definition RUBY_IMMEDIATE_MASK :: VALUE where "RUBY_IMMEDIATE_MASK = 7"
definition RUBY_T_MASK :: VALUE where "RUBY_T_MASK = 31"
definition RUBY_FLONUM_MASK :: VALUE where "RUBY_FLONUM_MASK = 3"
definition RUBY_FLONUM_FLAG :: VALUE where "RUBY_FLONUM_FLAG = 2"
definition RUBY_SYMBOL_FLAG :: VALUE where "RUBY_SYMBOL_FLAG = 12"

definition FIXNUM_P :: "VALUE \<Rightarrow> bool" where
  "FIXNUM_P v = (v AND RUBY_FIXNUM_FLAG \<noteq> 0)"
definition FLONUM_P :: "VALUE \<Rightarrow> bool" where
  "FLONUM_P v = (v AND RUBY_FLONUM_MASK = RUBY_FLONUM_FLAG)"
definition STATIC_SYM_P :: "VALUE \<Rightarrow> bool" where
  "STATIC_SYM_P v = (v AND 255 = RUBY_SYMBOL_FLAG)"

text \<open>The values of \<open>enum ruby_value_type\<close> that the generator names; an enum is 32 bits wide.\<close>

definition T_STRING :: "32 word" where "T_STRING = 5"
definition T_ARRAY :: "32 word" where "T_ARRAY = 7"
definition T_HASH :: "32 word" where "T_HASH = 8"

text \<open>The object header \<open>struct RBasic\<close>: the flags word, then the class.\<close>

definition offsetof_RBasic_flags :: int where "offsetof_RBasic_flags = 0"
definition offsetof_RBasic_klass :: int where "offsetof_RBasic_klass = 8"

definition SIZEOF_VALUE :: int where "SIZEOF_VALUE = 8"

section \<open>Machine code as data\<close>

datatype x86reg = RAX | RCX | RDX | RBX | RSI | RDI | R8 | R9 | R12 | R13

text \<open>
  Modelled from the spec: the small fixed register convention (the macros \<open>REG_CFP\<close>,
  \<open>REG_EC\<close>, \<open>REG_SP\<close>, \<open>REG0\<close>, \<open>REG1\<close> and \<open>C_ARG_REGS\<close> of the code
  generator's header, which is not among the sources). The prologue saves \<open>REG_CFP\<close>,
  \<open>REG_EC\<close> and \<open>REG_SP\<close> as callee-saved registers and the return value of a call is
  found in \<open>REG0\<close>, which is \<open>RAX\<close>. The results below only use that the five registers
  are pairwise distinct.
\<close>

definition REG_CFP :: x86reg where "REG_CFP = R13"
definition REG_EC :: x86reg where "REG_EC = R12"
definition REG_SP :: x86reg where "REG_SP = RBX"
definition REG0 :: x86reg where "REG0 = RAX"
definition REG1 :: x86reg where "REG1 = RCX"
definition C_ARG_REGS :: "x86reg list" where "C_ARG_REGS = [RDI, RSI, RDX, RCX, R8, R9]"

text \<open>The two code arenas: the inline block \<open>cb\<close> and the outlined block \<open>ocb\<close>.\<close>

datatype cbsel = CB | OCB

text \<open>A pointer into a code arena (\<open>cb_get_ptr(cb, pos)\<close>).\<close>

datatype code_ptr = CodePtr cbsel nat

text \<open>
  Pointer constants that the generator embeds in the code: a bytecode address
  (\<open>iseq_encoded + idx\<close>, kept as the index), a code address, the address of a profiling
  counter, or a heap object.
\<close>

datatype const_ptr = PtrPC nat | PtrCode code_ptr | PtrCounter string | PtrObject VALUE

datatype x86opnd =
    OReg nat x86reg
  | OMem nat x86reg int
  | OImm VALUE
  | OPtr const_ptr

definition reg_opnd :: "x86reg \<Rightarrow> x86opnd" where "reg_opnd r = OReg 64 r"
definition reg32_opnd :: "x86reg \<Rightarrow> x86opnd" where "reg32_opnd r = OReg 32 r"
definition reg8_opnd :: "x86reg \<Rightarrow> x86opnd" where "reg8_opnd r = OReg 8 r"
definition mem_opnd :: "nat \<Rightarrow> x86reg \<Rightarrow> int \<Rightarrow> x86opnd" where "mem_opnd bits r d = OMem bits r d"
definition imm_opnd :: "VALUE \<Rightarrow> x86opnd" where "imm_opnd v = OImm v"
definition const_ptr_opnd :: "const_ptr \<Rightarrow> x86opnd" where "const_ptr_opnd p = OPtr p"

datatype cmov_cc = CC_L | CC_LE | CC_GE | CC_G | CC_E | CC_NZ

datatype jcc_kinds = JCC_JNE | JCC_JNZ | JCC_JZ | JCC_JE | JCC_JBE | JCC_JNA

section \<open>The type lattice and the context\<close>

datatype yjit_type_enum =
    ETYPE_UNKNOWN | ETYPE_NIL | ETYPE_TRUE | ETYPE_FALSE | ETYPE_FIXNUM | ETYPE_FLONUM
  | ETYPE_ARRAY | ETYPE_HASH | ETYPE_SYMBOL | ETYPE_STRING

text \<open>
  The code generator reads three members of a value type: \<open>is_heap\<close>, \<open>is_imm\<close> and
  \<open>type\<close> (here \<open>vtype\<close>).
\<close>

record val_type_t =
  is_heap :: bool
  is_imm :: bool
  vtype :: yjit_type_enum

text \<open>
  Modelled from the spec: the nodes of the value-type lattice (the \<open>TYPE_*\<close> constants of
  the core header, which is not among the sources): \<open>Unknown\<close>; \<open>Immediate\<close> and
  \<open>Heap\<close>; under \<open>Immediate\<close> the types \<open>Nil\<close>, \<open>True\<close>, \<open>False\<close>, \<open>Fixnum\<close>,
  \<open>Flonum\<close>, \<open>StaticSymbol\<close>; under \<open>Heap\<close> the types \<open>Array\<close>, \<open>Hash\<close>, \<open>String\<close>.
\<close>

definition TYPE_UNKNOWN :: val_type_t where
  "TYPE_UNKNOWN = \<lparr>is_heap = False, is_imm = False, vtype = ETYPE_UNKNOWN\<rparr>"
definition TYPE_HEAP :: val_type_t where
  "TYPE_HEAP = \<lparr>is_heap = True, is_imm = False, vtype = ETYPE_UNKNOWN\<rparr>"
definition TYPE_IMM :: val_type_t where
  "TYPE_IMM = \<lparr>is_heap = False, is_imm = True, vtype = ETYPE_UNKNOWN\<rparr>"
definition TYPE_NIL :: val_type_t where
  "TYPE_NIL = \<lparr>is_heap = False, is_imm = True, vtype = ETYPE_NIL\<rparr>"
definition TYPE_TRUE :: val_type_t where
  "TYPE_TRUE = \<lparr>is_heap = False, is_imm = True, vtype = ETYPE_TRUE\<rparr>"
definition TYPE_FALSE :: val_type_t where
  "TYPE_FALSE = \<lparr>is_heap = False, is_imm = True, vtype = ETYPE_FALSE\<rparr>"
definition TYPE_FIXNUM :: val_type_t where
  "TYPE_FIXNUM = \<lparr>is_heap = False, is_imm = True, vtype = ETYPE_FIXNUM\<rparr>"
definition TYPE_FLONUM :: val_type_t where
  "TYPE_FLONUM = \<lparr>is_heap = False, is_imm = True, vtype = ETYPE_FLONUM\<rparr>"
definition TYPE_STATIC_SYMBOL :: val_type_t where
  "TYPE_STATIC_SYMBOL = \<lparr>is_heap = False, is_imm = True, vtype = ETYPE_SYMBOL\<rparr>"
definition TYPE_ARRAY :: val_type_t where
  "TYPE_ARRAY = \<lparr>is_heap = True, is_imm = False, vtype = ETYPE_ARRAY\<rparr>"
definition TYPE_HASH :: val_type_t where
  "TYPE_HASH = \<lparr>is_heap = True, is_imm = False, vtype = ETYPE_HASH\<rparr>"
definition TYPE_STRING :: val_type_t where
  "TYPE_STRING = \<lparr>is_heap = True, is_imm = False, vtype = ETYPE_STRING\<rparr>"

datatype temp_mapping_t = MAP_STACK | MAP_SELF | MAP_LOCAL nat

record temp_type_mapping_t =
  mapping :: temp_mapping_t
  mtype :: val_type_t

datatype insn_opnd_t = OPND_SELF | OPND_STACK int

definition MAX_TEMP_TYPES :: nat where "MAX_TEMP_TYPES = 8"
definition MAX_LOCAL_TYPES :: nat where "MAX_LOCAL_TYPES = 8"

text \<open>
  Modelled from the spec: the context (the structure \<open>ctx_t\<close> of the core header, which is
  not among the sources): the stack height, the types and mappings of the tracked topmost
  stack entries, the types of the tracked locals, the type of self, the signed offset
  \<open>sp_offset\<close> and the 8-bit \<open>chain_depth\<close>. The tracked entries are kept in lists
  indexed from the bottom of the stack.
\<close>

record ctx_t =
  stack_size :: int
  sp_offset :: int
  chain_depth :: "8 word"
  local_types :: "val_type_t list"
  temp_types :: "val_type_t list"
  self_type :: val_type_t
  temp_mapping :: "temp_mapping_t list"

definition DEFAULT_CTX :: ctx_t where
  "DEFAULT_CTX = \<lparr>stack_size = 0, sp_offset = 0, chain_depth = 0,
     local_types = replicate MAX_LOCAL_TYPES TYPE_UNKNOWN,
     temp_types = replicate MAX_TEMP_TYPES TYPE_UNKNOWN,
     self_type = TYPE_UNKNOWN,
     temp_mapping = replicate MAX_TEMP_TYPES MAP_STACK\<rparr>"

text \<open>A tracked slot index: inside the tracked range and inside the list.\<close>

definition tracked :: "'a list \<Rightarrow> int \<Rightarrow> nat \<Rightarrow> bool" where
  "tracked xs i bound = (0 \<le> i \<and> nat i < bound \<and> nat i < length xs)"

text \<open>
  Modelled from the spec: \<open>sp_opnd(byte_delta)\<close>, an SP-relative address that accounts for
  the not yet materialised \<open>sp_offset\<close> (function \<open>ctx_sp_opnd\<close> of the core, which is
  not among the sources).
\<close>

definition ctx_sp_opnd :: "ctx_t \<Rightarrow> int \<Rightarrow> x86opnd" where
  "ctx_sp_opnd ctx offset_bytes =
     mem_opnd 64 REG_SP (sp_offset ctx * SIZEOF_VALUE + offset_bytes)"

text \<open>
  Modelled from the spec: \<open>stack_opnd(n)\<close>, the addressable form of the nth topmost entry
  (function \<open>ctx_stack_opnd\<close> of the core, which is not among the sources). SP points just
  above the topmost value.
\<close>

definition ctx_stack_opnd :: "ctx_t \<Rightarrow> int \<Rightarrow> x86opnd" where
  "ctx_stack_opnd ctx idx = mem_opnd 64 REG_SP ((sp_offset ctx - 1 - idx) * SIZEOF_VALUE)"

text \<open>
  Modelled from the spec: \<open>stack_push\<close> with a given type and mapping writes a new top
  slot, increments the height and \<open>sp_offset\<close> and returns the operand of the new top
  (function \<open>ctx_stack_push_mapping\<close> of the core, which is not among the sources).
\<close>

definition ctx_stack_push_mapping :: "ctx_t \<Rightarrow> temp_type_mapping_t \<Rightarrow> x86opnd \<times> ctx_t" where
  "ctx_stack_push_mapping ctx m =
     (let ctx1 = (if tracked (temp_types ctx) (stack_size ctx) MAX_TEMP_TYPES
                     \<and> tracked (temp_mapping ctx) (stack_size ctx) MAX_TEMP_TYPES
                  then ctx\<lparr>temp_mapping := (temp_mapping ctx)[nat (stack_size ctx) := mapping m],
                           temp_types := (temp_types ctx)[nat (stack_size ctx) := mtype m]\<rparr>
                  else ctx);
          ctx2 = ctx1\<lparr>stack_size := stack_size ctx1 + 1, sp_offset := sp_offset ctx1 + 1\<rparr>
      in (mem_opnd 64 REG_SP ((sp_offset ctx2 - 1) * SIZEOF_VALUE), ctx2))"

text \<open>
  Modelled from the spec: \<open>stack_push(ty)\<close> writes a new top slot with type \<open>ty\<close> and
  mapping \<open>Stack\<close> (function \<open>ctx_stack_push\<close> of the core, which is not among the
  sources).
\<close>

definition ctx_stack_push :: "ctx_t \<Rightarrow> val_type_t \<Rightarrow> x86opnd \<times> ctx_t" where
  "ctx_stack_push ctx ty = ctx_stack_push_mapping ctx \<lparr>mapping = MAP_STACK, mtype = ty\<rparr>"

text \<open>
  Modelled from the spec: \<open>stack_pop(n)\<close> decreases the stack height and forgets the
  mappings of the popped entries; it returns the operand of the old top (function
  \<open>ctx_stack_pop\<close> of the core, which is not among the sources).
\<close>

definition forget_slot :: "ctx_t \<Rightarrow> int \<Rightarrow> ctx_t" where
  "forget_slot ctx idx =
     (if tracked (temp_types ctx) idx MAX_TEMP_TYPES \<and> tracked (temp_mapping ctx) idx MAX_TEMP_TYPES
      then ctx\<lparr>temp_types := (temp_types ctx)[nat idx := TYPE_UNKNOWN],
               temp_mapping := (temp_mapping ctx)[nat idx := MAP_STACK]\<rparr>
      else ctx)"

definition ctx_stack_pop :: "ctx_t \<Rightarrow> nat \<Rightarrow> x86opnd \<times> ctx_t" where
  "ctx_stack_pop ctx n =
     (let top = mem_opnd 64 REG_SP ((sp_offset ctx - 1) * SIZEOF_VALUE);
          ctx1 = fold (\<lambda>i c. forget_slot c (stack_size ctx - int i - 1)) [0..<n] ctx
      in (top, ctx1\<lparr>stack_size := stack_size ctx - int n, sp_offset := sp_offset ctx - int n\<rparr>))"

text \<open>
  Modelled from the spec: \<open>get_opnd_type(slot)\<close>; a slot mapped to self or to a local has
  the type of what it aliases, and a slot outside the tracked range is \<open>Unknown\<close>
  (function \<open>ctx_get_opnd_type\<close> of the core, which is not among the sources).
\<close>

definition ctx_get_opnd_type :: "ctx_t \<Rightarrow> insn_opnd_t \<Rightarrow> val_type_t" where
  "ctx_get_opnd_type ctx opnd =
     (case opnd of
        OPND_SELF \<Rightarrow> self_type ctx
      | OPND_STACK idx \<Rightarrow>
          (let stack_idx = stack_size ctx - 1 - idx in
           if \<not> (tracked (temp_types ctx) stack_idx MAX_TEMP_TYPES
                  \<and> tracked (temp_mapping ctx) stack_idx MAX_TEMP_TYPES)
           then TYPE_UNKNOWN
           else (case temp_mapping ctx ! nat stack_idx of
                   MAP_SELF \<Rightarrow> self_type ctx
                 | MAP_STACK \<Rightarrow> temp_types ctx ! nat stack_idx
                 | MAP_LOCAL l \<Rightarrow>
                     (if l < MAX_LOCAL_TYPES \<and> l < length (local_types ctx)
                      then local_types ctx ! l else TYPE_UNKNOWN))))"

text \<open>
  Modelled from the spec: \<open>get_opnd_mapping(slot)\<close>, the type of the slot together with
  its mapping (function \<open>ctx_get_opnd_mapping\<close> of the core, which is not among the
  sources).
\<close>

definition ctx_get_opnd_mapping :: "ctx_t \<Rightarrow> insn_opnd_t \<Rightarrow> temp_type_mapping_t" where
  "ctx_get_opnd_mapping ctx opnd =
     (case opnd of
        OPND_SELF \<Rightarrow> \<lparr>mapping = MAP_SELF, mtype = ctx_get_opnd_type ctx opnd\<rparr>
      | OPND_STACK idx \<Rightarrow>
          (let stack_idx = stack_size ctx - 1 - idx in
           if tracked (temp_mapping ctx) stack_idx MAX_TEMP_TYPES
           then \<lparr>mapping = temp_mapping ctx ! nat stack_idx, mtype = ctx_get_opnd_type ctx opnd\<rparr>
           else \<lparr>mapping = MAP_STACK, mtype = TYPE_UNKNOWN\<rparr>))"

text \<open>
  Modelled from the spec: \<open>upgrade_opnd_type(slot, t)\<close> narrows the type of the slot and
  propagates through \<open>Local\<close> and \<open>Self\<close> aliases (function \<open>ctx_upgrade_opnd_type\<close> of
  the core, which is not among the sources).
\<close>

definition ctx_upgrade_opnd_type :: "ctx_t \<Rightarrow> insn_opnd_t \<Rightarrow> val_type_t \<Rightarrow> ctx_t" where
  "ctx_upgrade_opnd_type ctx opnd ty =
     (case opnd of
        OPND_SELF \<Rightarrow> ctx\<lparr>self_type := ty\<rparr>
      | OPND_STACK idx \<Rightarrow>
          (let stack_idx = stack_size ctx - 1 - idx in
           if \<not> (tracked (temp_types ctx) stack_idx MAX_TEMP_TYPES
                  \<and> tracked (temp_mapping ctx) stack_idx MAX_TEMP_TYPES)
           then ctx
           else (case temp_mapping ctx ! nat stack_idx of
                   MAP_SELF \<Rightarrow> ctx\<lparr>self_type := ty\<rparr>
                 | MAP_STACK \<Rightarrow> ctx\<lparr>temp_types := (temp_types ctx)[nat stack_idx := ty]\<rparr>
                 | MAP_LOCAL l \<Rightarrow>
                     (if l < MAX_LOCAL_TYPES \<and> l < length (local_types ctx)
                      then ctx\<lparr>local_types := (local_types ctx)[l := ty]\<rparr> else ctx))))"

section \<open>Instructions, code arenas and the generator's state\<close>

datatype codegen_status_t = YJIT_END_BLOCK | YJIT_KEEP_COMPILING | YJIT_CANT_COMPILE

datatype shape_t = SHAPE_NEXT0 | SHAPE_NEXT1 | SHAPE_DEFAULT

text \<open>
  The branch generators are function pointers in the source; here they are named by a tag
  and applied by \<open>apply_branchgen\<close> below.
\<close>

datatype branchgen_fn = GEN_JNZ_TO_TARGET0 | GEN_JZ_TO_TARGET0 | GEN_JBE_TO_TARGET0

datatype ruby_vminsn_type =
    BIN_nop | BIN_dup | BIN_dupn | BIN_swap | BIN_setn | BIN_topn | BIN_pop | BIN_adjuststack
  | BIN_putnil | BIN_putobject | BIN_putstring | BIN_putself | BIN_getlocal | BIN_setlocal
  | BIN_checktype | BIN_opt_lt | BIN_opt_le | BIN_opt_ge | BIN_opt_gt | BIN_opt_eq
  | BIN_opt_aref | BIN_opt_and | BIN_opt_or | BIN_opt_minus | BIN_opt_plus
  | BIN_opt_getinlinecache | BIN_opt_send_without_block | BIN_send | BIN_invokesuper
  | BIN_getinstancevariable | BIN_setinstancevariable | BIN_branchif | BIN_jump
  | BIN_leave | BIN_other nat

record rb_iseq_t =
  iseq_encoded :: "VALUE list"

text \<open>A block is identified by its bytecode object and the index of its first instruction.\<close>

record blockid_t =
  bid_iseq :: rb_iseq_t
  bid_idx :: "32 word"

text \<open>
  Modelled from the spec: a branch, the outgoing edge that \<open>gen_branch\<close> of the core (not
  among the sources) allocates: up to two targets, each a \<open>(bytecode, index)\<close> with a
  target context, and the generator that emits the jump for a pair of target addresses.
\<close>

record branch_t =
  br_src_ctx :: ctx_t
  br_target0 :: blockid_t
  br_ctx0 :: ctx_t
  br_target1 :: "blockid_t option"
  br_ctx1 :: "ctx_t option"
  br_gen_fn :: branchgen_fn

datatype x86insn =
    I_mov x86opnd x86opnd
  | I_lea x86opnd x86opnd
  | I_add x86opnd x86opnd
  | I_sub x86opnd x86opnd
  | I_and x86opnd x86opnd
  | I_or x86opnd x86opnd
  | I_xor x86opnd x86opnd
  | I_not x86opnd
  | I_test x86opnd x86opnd
  | I_cmp x86opnd x86opnd
  | I_cmov cmov_cc x86opnd x86opnd
  | I_jmp_ptr code_ptr
  | I_jz_ptr code_ptr
  | I_jnz_ptr code_ptr
  | I_jo_ptr code_ptr
  | I_jbe_ptr code_ptr
  | I_je_ptr code_ptr
  | I_sar x86opnd x86opnd
  | I_jmp_rm x86opnd
  | I_jnz_label nat
  | I_jbe_label nat
  | I_call_ptr x86reg string
  | I_push x86opnd
  | I_pop x86opnd
  | I_ret
  | I_lock_prefix
  | I_branch_stub nat nat
  | I_direct_jump ctx_t blockid_t

text \<open>
  A code arena. The assembler (instruction encodings) is outside the sources, so a position
  counts emitted instructions instead of bytes: \<open>write_pos\<close> is the index of the next
  instruction to write. Writing at a position below the end overwrites the instruction
  there, as patching does; writing at the end appends.
\<close>

record codeblock_t =
  insns :: "x86insn list"
  write_pos :: nat
  mem_size :: nat
  label_addrs :: "nat list"
  label_refs :: "(nat \<times> nat) list"

definition cb_write :: "codeblock_t \<Rightarrow> x86insn \<Rightarrow> codeblock_t" where
  "cb_write c i =
     c\<lparr>insns := (if write_pos c < length (insns c) then (insns c)[write_pos c := i]
                 else insns c @ [i]),
       write_pos := write_pos c + 1\<rparr>"

definition cb_set_pos :: "codeblock_t \<Rightarrow> nat \<Rightarrow> codeblock_t" where
  "cb_set_pos c pos = c\<lparr>write_pos := pos\<rparr>"

text \<open>
  Modelled from the spec: labels (\<open>new_label\<close>, \<open>write_label\<close>, \<open>link_labels\<close> of the
  assembler, which is not among the sources) may be forward-referenced; a jump to a label
  is recorded as a reference, and linking patches the recorded jumps with the address of
  their label and forgets labels and references.
\<close>

definition cb_new_label :: "codeblock_t \<Rightarrow> nat \<times> codeblock_t" where
  "cb_new_label c = (length (label_addrs c), c\<lparr>label_addrs := label_addrs c @ [0]\<rparr>)"

definition cb_write_label :: "codeblock_t \<Rightarrow> nat \<Rightarrow> codeblock_t" where
  "cb_write_label c l = c\<lparr>label_addrs := (label_addrs c)[l := write_pos c]\<rparr>"

definition cb_label_ref :: "codeblock_t \<Rightarrow> x86insn \<Rightarrow> nat \<Rightarrow> codeblock_t" where
  "cb_label_ref c i l = (cb_write c i)\<lparr>label_refs := label_refs c @ [(write_pos c, l)]\<rparr>"

definition link_insn :: "cbsel \<Rightarrow> nat list \<Rightarrow> x86insn \<Rightarrow> x86insn" where
  "link_insn sel addrs i =
     (case i of
        I_jnz_label l \<Rightarrow> (if l < length addrs then I_jnz_ptr (CodePtr sel (addrs ! l)) else i)
      | I_jbe_label l \<Rightarrow> (if l < length addrs then I_jbe_ptr (CodePtr sel (addrs ! l)) else i)
      | _ \<Rightarrow> i)"

definition link_ref :: "cbsel \<Rightarrow> nat list \<Rightarrow> nat \<times> nat \<Rightarrow> x86insn list \<Rightarrow> x86insn list" where
  "link_ref sel addrs r is =
     (if fst r < length is then is[fst r := link_insn sel addrs (is ! fst r)] else is)"

definition cb_link_labels :: "cbsel \<Rightarrow> codeblock_t \<Rightarrow> codeblock_t" where
  "cb_link_labels sel c =
     c\<lparr>insns := fold (link_ref sel (label_addrs c)) (label_refs c) (insns c),
       label_addrs := [], label_refs := []\<rparr>"

record codepage_patch =
  inline_patch_pos :: nat
  outlined_target_pos :: nat

datatype redefined_flag =
    INTEGER_REDEFINED_OP_FLAG | STRING_REDEFINED_OP_FLAG | ARRAY_REDEFINED_OP_FLAG
  | HASH_REDEFINED_OP_FLAG

datatype ruby_basic_operators =
    BOP_PLUS | BOP_MINUS | BOP_LT | BOP_LE | BOP_GT | BOP_GE | BOP_EQ | BOP_AND | BOP_OR
  | BOP_AREF | BOP_FREEZE | BOP_UMINUS

text \<open>The visibility and the kind of a method entry, and the entry itself.\<close>

datatype rb_method_visibility_t =
    METHOD_VISI_UNDEF | METHOD_VISI_PUBLIC | METHOD_VISI_PRIVATE | METHOD_VISI_PROTECTED

datatype rb_method_type_t =
    VM_METHOD_TYPE_ISEQ | VM_METHOD_TYPE_CFUNC | VM_METHOD_TYPE_ATTRSET | VM_METHOD_TYPE_IVAR
  | VM_METHOD_TYPE_BMETHOD | VM_METHOD_TYPE_ZSUPER | VM_METHOD_TYPE_UNDEF
  | VM_METHOD_TYPE_NOTIMPLEMENTED | VM_METHOD_TYPE_OPTIMIZED | VM_METHOD_TYPE_MISSING
  | VM_METHOD_TYPE_REFINED

text \<open>
  A callable method entry. An alias entry holds the entry it stands for, so following
  aliases is structural.
\<close>

datatype cme_t =
    Cme rb_method_visibility_t rb_method_type_t VALUE VALUE VALUE
  | CmeAlias rb_method_visibility_t VALUE VALUE cme_t

text \<open>Visibility, defined class and called id of an entry; the attribute id of a getter.\<close>

fun METHOD_ENTRY_VISI :: "cme_t \<Rightarrow> rb_method_visibility_t" where
  "METHOD_ENTRY_VISI (Cme v t dc cid aid) = v"
| "METHOD_ENTRY_VISI (CmeAlias v dc cid orig) = v"

fun cme_defined_class :: "cme_t \<Rightarrow> VALUE" where
  "cme_defined_class (Cme v t dc cid aid) = dc"
| "cme_defined_class (CmeAlias v dc cid orig) = dc"

fun cme_called_id :: "cme_t \<Rightarrow> VALUE" where
  "cme_called_id (Cme v t dc cid aid) = cid"
| "cme_called_id (CmeAlias v dc cid orig) = cid"

text \<open>
  Modelled from the spec: an assumption, the tagged record that a block registers with the
  assumption registry (the registry itself belongs to the interface file, which is not among
  the sources).
\<close>

datatype assumption =
    BasicOpNotRedefined redefined_flag ruby_basic_operators
  | MethodLookupStable VALUE cme_t

text \<open>The block version under compilation (\<open>jit->block\<close>).\<close>

record block_t =
  blockid :: blockid_t
  entry_ctx :: ctx_t
  start_pos :: nat
  end_pos :: nat
  end_idx :: "32 word"
  gc_object_offsets :: "nat list"
  assumptions :: "assumption list"

text \<open>
  The process-wide state of the code generator: the two arenas, the patch list for global
  invalidation, the frozen watermark, and the branches created so far, together with the
  block that is being compiled and the block versions that the bytecode objects list as
  live.
\<close>

record yjit_state =
  cb :: codeblock_t
  ocb :: codeblock_t
  global_inval_patches :: "codepage_patch list"
  yjit_codepage_frozen_bytes :: nat
  branches :: "branch_t list"
  blk :: block_t
  iseq_versions :: "block_t list"

datatype ec_field = EC_cfp | EC_interrupt_flag | EC_interrupt_mask

datatype cfp_field =
    CFP_pc | CFP_sp | CFP_iseq | CFP_self | CFP_ep | CFP_block_code | CFP_bp | CFP_jit_return

text \<open>
  What the generator takes from its build and from the host VM: the build flags
  \<open>RUBY_DEBUG\<close> and \<open>YJIT_STATS\<close>, the option \<open>gen_stats\<close>, the redefinition flags of
  the basic operators, the length of each instruction, the decoding of an opcode at a
  bytecode index, the layout of the execution context, and the result of the debug check
  \<open>verify_ctx\<close> against the live values.
\<close>

record host =
  rb_yjit_enabled_p :: bool
  RUBY_DEBUG :: bool
  YJIT_STATS_predefined :: bool
  gen_stats :: bool
  bop_redefined :: "redefined_flag \<Rightarrow> ruby_basic_operators \<Rightarrow> bool"
  insn_len :: "ruby_vminsn_type \<Rightarrow> nat"
  yjit_opcode_at_pc :: "rb_iseq_t \<Rightarrow> nat \<Rightarrow> ruby_vminsn_type"
  offsetof_ec :: "ec_field \<Rightarrow> int"
  verify_ctx_ok :: "nat \<Rightarrow> ctx_t \<Rightarrow> bool"

text \<open>\<open>YJIT_STATS\<close> is forced on in a debug build and otherwise keeps its predefined value.\<close>

definition YJIT_STATS :: "host \<Rightarrow> bool" where
  "YJIT_STATS h = (RUBY_DEBUG h \<or> YJIT_STATS_predefined h)"

text \<open>
  Modelled from the spec: the control frame has the fields \<open>pc\<close>, \<open>sp\<close>, \<open>iseq\<close>,
  \<open>self\<close>, \<open>ep\<close>, \<open>block_code\<close>, \<open>__bp__\<close>, \<open>jit_return\<close> in a binary-stable
  layout (the structure is declared in the host's headers, which are not among the
  sources); each field is one 8-byte word.
\<close>

fun offsetof_cfp :: "cfp_field \<Rightarrow> int" where
  "offsetof_cfp CFP_pc = 0"
| "offsetof_cfp CFP_sp = 8"
| "offsetof_cfp CFP_iseq = 16"
| "offsetof_cfp CFP_self = 24"
| "offsetof_cfp CFP_ep = 32"
| "offsetof_cfp CFP_block_code = 40"
| "offsetof_cfp CFP_bp = 48"
| "offsetof_cfp CFP_jit_return = 56"

definition sizeof_rb_control_frame_t :: int where
  "sizeof_rb_control_frame_t = 64"

definition cfp_member_opnd :: "cfp_field \<Rightarrow> x86opnd" where
  "cfp_member_opnd f = mem_opnd 64 REG_CFP (offsetof_cfp f)"

fun ec_field_bits :: "ec_field \<Rightarrow> nat" where
  "ec_field_bits EC_cfp = 64"
| "ec_field_bits EC_interrupt_flag = 32"
| "ec_field_bits EC_interrupt_mask = 32"

definition ec_member_opnd :: "host \<Rightarrow> ec_field \<Rightarrow> x86opnd" where
  "ec_member_opnd h f = mem_opnd (ec_field_bits f) REG_EC (offsetof_ec h f)"

text \<open>
  Failures that abort the process: a failed assertion, \<open>rb_bug\<close>, and a read outside the
  bytecode.
\<close>

datatype error = AssertionFailed | RbBug | OutOfBounds

text \<open>
  The execution context the stub handler passes in: the PC of the running frame, if it
  points into the bytecode being compiled.
\<close>

record rb_execution_context_t =
  cfp_pc :: "nat option"

record jitstate_t =
  iseq :: rb_iseq_t
  insn_idx :: "32 word"
  opcode :: ruby_vminsn_type
  pc :: nat
  ec :: rb_execution_context_t
  record_boundary_patch_point :: bool

type_synonym gen_result = "error + (codegen_status_t \<times> jitstate_t \<times> ctx_t \<times> yjit_state)"

type_synonym codegen_fn = "jitstate_t \<Rightarrow> ctx_t \<Rightarrow> yjit_state \<Rightarrow> gen_result"

subsection \<open>Emitting into an arena\<close>

definition get_cb :: "cbsel \<Rightarrow> yjit_state \<Rightarrow> codeblock_t" where
  "get_cb sel st = (case sel of CB \<Rightarrow> cb st | OCB \<Rightarrow> ocb st)"

definition put_cb :: "cbsel \<Rightarrow> codeblock_t \<Rightarrow> yjit_state \<Rightarrow> yjit_state" where
  "put_cb sel c st = (case sel of CB \<Rightarrow> st\<lparr>cb := c\<rparr> | OCB \<Rightarrow> st\<lparr>ocb := c\<rparr>)"

definition emit :: "cbsel \<Rightarrow> x86insn \<Rightarrow> yjit_state \<Rightarrow> yjit_state" where
  "emit sel i st = put_cb sel (cb_write (get_cb sel st) i) st"

definition emits :: "cbsel \<Rightarrow> x86insn list \<Rightarrow> yjit_state \<Rightarrow> yjit_state" where
  "emits sel is st = fold (emit sel) is st"

definition cb_get_ptr :: "cbsel \<Rightarrow> nat \<Rightarrow> code_ptr" where
  "cb_get_ptr sel pos = CodePtr sel pos"

text \<open>Jumps to a label of the inline arena.\<close>

definition jnz_label :: "nat \<Rightarrow> yjit_state \<Rightarrow> yjit_state" where
  "jnz_label l st = st\<lparr>cb := cb_label_ref (cb st) (I_jnz_label l) l\<rparr>"

definition jbe_label :: "nat \<Rightarrow> yjit_state \<Rightarrow> yjit_state" where
  "jbe_label l st = st\<lparr>cb := cb_label_ref (cb st) (I_jbe_label l) l\<rparr>"

section \<open>The code generator\<close>

definition bind_res :: "error + 'a \<Rightarrow> ('a \<Rightarrow> error + 'b) \<Rightarrow> error + 'b" where
  "bind_res r f = (case r of Inl e \<Rightarrow> Inl e | Inr x \<Rightarrow> f x)"

text \<open>Get the current instruction's opcode, and the index of the next instruction.\<close>

definition jit_get_opcode :: "jitstate_t \<Rightarrow> ruby_vminsn_type" where
  "jit_get_opcode jit = opcode jit"

definition jit_next_insn_idx :: "host \<Rightarrow> jitstate_t \<Rightarrow> 32 word" where
  "jit_next_insn_idx h jit = insn_idx jit + of_nat (insn_len h (jit_get_opcode jit))"

text \<open>
  Get an instruction argument by index. The assertion is checked in a debug build; the read
  is \<open>*(jit->pc + arg_idx + 1)\<close>.
\<close>

definition jit_get_arg :: "host \<Rightarrow> jitstate_t \<Rightarrow> nat \<Rightarrow> error + VALUE" where
  "jit_get_arg h jit arg_idx =
     (if RUBY_DEBUG h \<and> \<not> (arg_idx + 1 < insn_len h (jit_get_opcode jit)) then Inl AssertionFailed
      else if pc jit + arg_idx + 1 < length (iseq_encoded (iseq jit))
           then Inr (iseq_encoded (iseq jit) ! (pc jit + arg_idx + 1))
           else Inl OutOfBounds)"

text \<open>Check if we are compiling the instruction at the stub PC.\<close>

definition jit_at_current_insn :: "jitstate_t \<Rightarrow> bool" where
  "jit_at_current_insn jit = (cfp_pc (ec jit) = Some (pc jit))"

text \<open>
  Load a \<open>VALUE\<close> into a register and keep track of the reference if it is on the GC heap.
  The recorded offset is the position of the \<open>mov\<close> that holds the pointer.
\<close>

definition SPECIAL_CONST_P :: "VALUE \<Rightarrow> bool" where
  "SPECIAL_CONST_P v = (v AND RUBY_IMMEDIATE_MASK \<noteq> 0 \<or> v = Qfalse \<or> v = Qnil)"

definition jit_mov_gc_ptr :: "cbsel \<Rightarrow> x86opnd \<Rightarrow> VALUE \<Rightarrow> yjit_state \<Rightarrow> yjit_state" where
  "jit_mov_gc_ptr sel reg ptr st =
     (let st1 = emit sel (I_mov reg (const_ptr_opnd (PtrObject ptr))) st;
          ptr_offset = write_pos (get_cb sel st1) - 1
      in if \<not> SPECIAL_CONST_P ptr
         then st1\<lparr>blk := (blk st1)\<lparr>gc_object_offsets := gc_object_offsets (blk st1) @ [ptr_offset]\<rparr>\<rparr>
         else st1)"

text \<open>Record the current write position for rewriting into a jump into the outlined block.\<close>

definition record_global_inval_patch :: "nat \<Rightarrow> yjit_state \<Rightarrow> yjit_state" where
  "record_global_inval_patch outline_block_target_pos st =
     st\<lparr>global_inval_patches := global_inval_patches st @
          [\<lparr>inline_patch_pos = write_pos (cb st), outlined_target_pos = outline_block_target_pos\<rparr>]\<rparr>"

text \<open>Increment a profiling counter (\<open>GEN_COUNTER_INC\<close>); nothing without \<open>YJIT_STATS\<close>.\<close>

definition gen_counter_inc :: "host \<Rightarrow> cbsel \<Rightarrow> string \<Rightarrow> yjit_state \<Rightarrow> yjit_state" where
  "gen_counter_inc h sel counter st =
     (if \<not> gen_stats h then st
      else emits sel [I_mov (reg_opnd REG1) (const_ptr_opnd (PtrCounter counter)),
                      I_lock_prefix,
                      I_add (mem_opnd 64 REG1 0) (imm_opnd 1)] st)"

definition GEN_COUNTER_INC :: "host \<Rightarrow> cbsel \<Rightarrow> string \<Rightarrow> yjit_state \<Rightarrow> yjit_state" where
  "GEN_COUNTER_INC h sel counter st = (if YJIT_STATS h then gen_counter_inc h sel counter st else st)"

text \<open>Increment a counter then take an existing side exit (\<open>COUNTED_EXIT\<close>).\<close>

definition counted_side_exit :: "host \<Rightarrow> code_ptr \<Rightarrow> string \<Rightarrow> yjit_state \<Rightarrow> code_ptr \<times> yjit_state" where
  "counted_side_exit h existing_side_exit counter st =
     (if \<not> gen_stats h then (existing_side_exit, st)
      else (let start = cb_get_ptr OCB (write_pos (ocb st));
                st1 = gen_counter_inc h OCB counter st;
                st2 = emit OCB (I_jmp_ptr existing_side_exit) st1
            in (start, st2)))"

definition COUNTED_EXIT :: "host \<Rightarrow> code_ptr \<Rightarrow> string \<Rightarrow> yjit_state \<Rightarrow> code_ptr \<times> yjit_state" where
  "COUNTED_EXIT h side_exit counter st =
     (if YJIT_STATS h then counted_side_exit h side_exit counter st else (side_exit, st))"

text \<open>Generate an exit to return to the interpreter.\<close>

definition yjit_gen_exit :: "host \<Rightarrow> nat \<Rightarrow> ctx_t \<Rightarrow> cbsel \<Rightarrow> yjit_state \<Rightarrow> nat \<times> yjit_state" where
  "yjit_gen_exit h exit_pc ctx sel st =
     (let code_pos = write_pos (get_cb sel st);
          st1 = (if sp_offset ctx \<noteq> 0
                 then emits sel [I_lea (reg_opnd REG_SP) (ctx_sp_opnd ctx 0),
                                 I_mov (cfp_member_opnd CFP_sp) (reg_opnd REG_SP)] st
                 else st);
          st2 = emits sel [I_mov (ec_member_opnd h EC_cfp) (reg_opnd REG_CFP),
                           I_mov (reg_opnd RAX) (const_ptr_opnd (PtrPC exit_pc)),
                           I_mov (cfp_member_opnd CFP_pc) (reg_opnd RAX)] st1;
          st3 = (if YJIT_STATS h \<and> gen_stats h
                 then emits sel [I_mov (reg_opnd RDI) (const_ptr_opnd (PtrPC exit_pc)),
                                 I_call_ptr RSI ''rb_yjit_count_side_exit_op''] st2
                 else st2);
          st4 = emits sel [I_pop (reg_opnd REG_SP), I_pop (reg_opnd REG_EC), I_pop (reg_opnd REG_CFP),
                           I_mov (reg_opnd RAX) (imm_opnd Qundef), I_ret] st3
      in (code_pos, st4))"

text \<open>A shorthand for generating an exit in the outline block.\<close>

definition yjit_side_exit :: "host \<Rightarrow> jitstate_t \<Rightarrow> ctx_t \<Rightarrow> yjit_state \<Rightarrow> code_ptr \<times> yjit_state" where
  "yjit_side_exit h jit ctx st =
     (let (pos, st1) = yjit_gen_exit h (pc jit) ctx OCB st in (cb_get_ptr OCB pos, st1))"

text \<open>Generate code to check for interrupts and take a side-exit.\<close>

definition yjit_check_ints :: "host \<Rightarrow> cbsel \<Rightarrow> code_ptr \<Rightarrow> yjit_state \<Rightarrow> yjit_state" where
  "yjit_check_ints h sel side_exit st =
     emits sel [I_mov (reg32_opnd REG0) (ec_member_opnd h EC_interrupt_mask),
                I_not (reg32_opnd REG0),
                I_test (ec_member_opnd h EC_interrupt_flag) (reg32_opnd REG0),
                I_jnz_ptr side_exit] st"

subsection \<open>Branches and guard chains\<close>

text \<open>The three branch generators; shapes other than the default one are asserted away.\<close>

definition gen_jnz_to_target0 ::
  "host \<Rightarrow> cbsel \<Rightarrow> code_ptr \<Rightarrow> code_ptr option \<Rightarrow> shape_t \<Rightarrow> yjit_state \<Rightarrow> error + yjit_state" where
  "gen_jnz_to_target0 h sel target0 target1 shape st =
     (case shape of
        SHAPE_DEFAULT \<Rightarrow> Inr (emit sel (I_jnz_ptr target0) st)
      | _ \<Rightarrow> (if RUBY_DEBUG h then Inl AssertionFailed else Inr st))"

definition gen_jz_to_target0 ::
  "host \<Rightarrow> cbsel \<Rightarrow> code_ptr \<Rightarrow> code_ptr option \<Rightarrow> shape_t \<Rightarrow> yjit_state \<Rightarrow> error + yjit_state" where
  "gen_jz_to_target0 h sel target0 target1 shape st =
     (case shape of
        SHAPE_DEFAULT \<Rightarrow> Inr (emit sel (I_jz_ptr target0) st)
      | _ \<Rightarrow> (if RUBY_DEBUG h then Inl AssertionFailed else Inr st))"

definition gen_jbe_to_target0 ::
  "host \<Rightarrow> cbsel \<Rightarrow> code_ptr \<Rightarrow> code_ptr option \<Rightarrow> shape_t \<Rightarrow> yjit_state \<Rightarrow> error + yjit_state" where
  "gen_jbe_to_target0 h sel target0 target1 shape st =
     (case shape of
        SHAPE_DEFAULT \<Rightarrow> Inr (emit sel (I_jbe_ptr target0) st)
      | _ \<Rightarrow> (if RUBY_DEBUG h then Inl AssertionFailed else Inr st))"

definition apply_branchgen ::
  "branchgen_fn \<Rightarrow> host \<Rightarrow> cbsel \<Rightarrow> code_ptr \<Rightarrow> code_ptr option \<Rightarrow> shape_t \<Rightarrow> yjit_state
     \<Rightarrow> error + yjit_state" where
  "apply_branchgen f =
     (case f of
        GEN_JNZ_TO_TARGET0 \<Rightarrow> gen_jnz_to_target0
      | GEN_JZ_TO_TARGET0 \<Rightarrow> gen_jz_to_target0
      | GEN_JBE_TO_TARGET0 \<Rightarrow> gen_jbe_to_target0)"

text \<open>
  Modelled from the spec: creating a branch allocates a Branch record, writes a stub into
  the outlined arena that on hit calls the stub handler with the branch (and the number of
  the target), and writes the jump into the inline arena with the branch's generator, so
  that the jump's target address is initially the branch stub (function \<open>gen_branch\<close> of
  the core, which is not among the sources).
\<close>

definition gen_branch ::
  "host \<Rightarrow> ctx_t \<Rightarrow> blockid_t \<Rightarrow> ctx_t \<Rightarrow> blockid_t option \<Rightarrow> ctx_t option \<Rightarrow> branchgen_fn
     \<Rightarrow> yjit_state \<Rightarrow> error + yjit_state" where
  "gen_branch h src_ctx target0 ctx0 target1 ctx1 gen_fn st =
     (let branch_id = length (branches st);
          st1 = st\<lparr>branches := branches st @
                  [\<lparr>br_src_ctx = src_ctx, br_target0 = target0, br_ctx0 = ctx0,
                    br_target1 = target1, br_ctx1 = ctx1, br_gen_fn = gen_fn\<rparr>]\<rparr>;
          stub0 = cb_get_ptr OCB (write_pos (ocb st1));
          st2 = emit OCB (I_branch_stub branch_id 0) st1;
          stub1 = (case target1 of None \<Rightarrow> None | Some t \<Rightarrow> Some (cb_get_ptr OCB (write_pos (ocb st2))));
          st3 = (case target1 of None \<Rightarrow> st2 | Some t \<Rightarrow> emit OCB (I_branch_stub branch_id 1) st2)
      in apply_branchgen gen_fn h CB stub0 stub1 SHAPE_DEFAULT st3)"

text \<open>
  Modelled from the spec: direct jump emission to a block version for a context and a
  block id (function \<open>gen_direct_jump\<close> of the core, which is not among the sources); the
  request is kept in the inline arena with its arguments.
\<close>

definition gen_direct_jump :: "ctx_t \<Rightarrow> blockid_t \<Rightarrow> yjit_state \<Rightarrow> yjit_state" where
  "gen_direct_jump ctx target0 st = emit CB (I_direct_jump ctx target0) st"

text \<open>
  Generate a jump to a stub that recompiles the current YARV instruction on failure. When
  the depth limit is exceeded, generate a jump to a side exit.
\<close>

definition jit_chain_guard ::
  "host \<Rightarrow> jcc_kinds \<Rightarrow> jitstate_t \<Rightarrow> ctx_t \<Rightarrow> 8 word \<Rightarrow> code_ptr \<Rightarrow> yjit_state \<Rightarrow> error + yjit_state" where
  "jit_chain_guard h jcc jit ctx depth_limit side_exit st =
     (let target0_gen_fn =
            (case jcc of
               JCC_JNE \<Rightarrow> GEN_JNZ_TO_TARGET0
             | JCC_JNZ \<Rightarrow> GEN_JNZ_TO_TARGET0
             | JCC_JZ \<Rightarrow> GEN_JZ_TO_TARGET0
             | JCC_JE \<Rightarrow> GEN_JZ_TO_TARGET0
             | JCC_JBE \<Rightarrow> GEN_JBE_TO_TARGET0
             | JCC_JNA \<Rightarrow> GEN_JBE_TO_TARGET0)
      in if chain_depth ctx < depth_limit
         then (let deeper = ctx\<lparr>chain_depth := chain_depth ctx + 1\<rparr>
               in gen_branch h ctx \<lparr>bid_iseq = iseq jit, bid_idx = insn_idx jit\<rparr> deeper
                    None None target0_gen_fn st)
         else apply_branchgen target0_gen_fn h CB side_exit None SHAPE_DEFAULT st)"

definition SEND_MAX_DEPTH :: int where "SEND_MAX_DEPTH = 5"

subsection \<open>Per-opcode code generation\<close>

definition gen_nop :: codegen_fn where
  "gen_nop jit ctx st = Inr (YJIT_KEEP_COMPILING, jit, ctx, st)"

text \<open>Duplicate the top n elements of the stack.\<close>

definition gen_dupn :: "host \<Rightarrow> codegen_fn" where
  "gen_dupn h jit ctx st =
     bind_res (jit_get_arg h jit 0) (\<lambda>n.
       if n \<noteq> 2 then Inr (YJIT_CANT_COMPILE, jit, ctx, st)
       else
         (let opnd1 = ctx_stack_opnd ctx 1;
              opnd0 = ctx_stack_opnd ctx 0;
              mapping1 = ctx_get_opnd_mapping ctx (OPND_STACK 1);
              mapping0 = ctx_get_opnd_mapping ctx (OPND_STACK 0);
              (dst1, ctx1) = ctx_stack_push_mapping ctx mapping1;
              st1 = emits CB [I_mov (reg_opnd REG0) opnd1, I_mov dst1 (reg_opnd REG0)] st;
              (dst0, ctx2) = ctx_stack_push_mapping ctx1 mapping0;
              st2 = emits CB [I_mov (reg_opnd REG0) opnd0, I_mov dst0 (reg_opnd REG0)] st1
          in Inr (YJIT_KEEP_COMPILING, jit, ctx2, st2)))"

text \<open>The type test of the opcode \<open>checktype\<close>.\<close>

definition gen_checktype :: "host \<Rightarrow> codegen_fn" where
  "gen_checktype h jit ctx st =
     bind_res (jit_get_arg h jit 0) (\<lambda>arg.
       let type_val = (ucast arg :: 32 word) in
       if type_val = T_STRING \<or> type_val = T_ARRAY \<or> type_val = T_HASH then
         (let val_type = ctx_get_opnd_type ctx (OPND_STACK 0);
              (val, ctx1) = ctx_stack_pop ctx 1
          in if (type_val = T_STRING \<and> vtype val_type = ETYPE_STRING) \<or>
                (type_val = T_ARRAY \<and> vtype val_type = ETYPE_ARRAY) \<or>
                (type_val = T_HASH \<and> vtype val_type = ETYPE_HASH) then
               (let (stack_ret, ctx2) = ctx_stack_push ctx1 TYPE_TRUE
                in Inr (YJIT_KEEP_COMPILING, jit, ctx2,
                        emit CB (I_mov stack_ret (imm_opnd Qtrue)) st))
             else if is_imm val_type \<or> vtype val_type \<noteq> ETYPE_UNKNOWN then
               (let (stack_ret, ctx2) = ctx_stack_push ctx1 TYPE_FALSE
                in Inr (YJIT_KEEP_COMPILING, jit, ctx2,
                        emit CB (I_mov stack_ret (imm_opnd Qfalse)) st))
             else
               (let st1 = emits CB [I_mov (reg_opnd REG0) val,
                                    I_mov (reg_opnd REG1) (imm_opnd Qfalse)] st;
                    (ret, c1) = cb_new_label (cb st1);
                    st2 = st1\<lparr>cb := c1\<rparr>;
                    st3 = (if \<not> is_heap val_type
                           then jbe_label ret
                                  (emit CB (I_cmp (reg_opnd REG0) (imm_opnd Qnil))
                                     (jnz_label ret
                                        (emit CB (I_test (reg_opnd REG0) (imm_opnd RUBY_IMMEDIATE_MASK))
                                           st2)))
                           else st2);
                    st4 = emits CB [I_mov (reg_opnd REG0) (mem_opnd 64 REG0 offsetof_RBasic_flags),
                                    I_and (reg_opnd REG0) (imm_opnd RUBY_T_MASK),
                                    I_cmp (reg_opnd REG0) (imm_opnd (ucast type_val)),
                                    I_mov (reg_opnd REG0) (imm_opnd Qtrue),
                                    I_cmov CC_E (reg_opnd REG1) (reg_opnd REG0)] st3;
                    st5 = st4\<lparr>cb := cb_write_label (cb st4) ret\<rparr>;
                    (stack_ret, ctx2) = ctx_stack_push ctx1 TYPE_IMM;
                    st6 = emit CB (I_mov stack_ret (reg_opnd REG1)) st5;
                    st7 = st6\<lparr>cb := cb_link_labels CB (cb st6)\<rparr>
                in Inr (YJIT_KEEP_COMPILING, jit, ctx2, st7)))
       else Inr (YJIT_CANT_COMPILE, jit, ctx, st))"

text \<open>
  Guard that the two topmost stack entries are fixnums: an unconditional jump to the side
  exit when the context already excludes it, a tag test for each operand whose type is not
  known.
\<close>

definition guard_two_fixnums :: "ctx_t \<Rightarrow> code_ptr \<Rightarrow> yjit_state \<Rightarrow> ctx_t \<times> yjit_state" where
  "guard_two_fixnums ctx side_exit st =
     (let arg1_type = ctx_get_opnd_type ctx (OPND_STACK 0);
          arg0_type = ctx_get_opnd_type ctx (OPND_STACK 1)
      in if is_heap arg0_type \<or> is_heap arg1_type then (ctx, emit CB (I_jmp_ptr side_exit) st)
         else if vtype arg0_type \<noteq> ETYPE_FIXNUM \<and> vtype arg0_type \<noteq> ETYPE_UNKNOWN
              then (ctx, emit CB (I_jmp_ptr side_exit) st)
         else if vtype arg1_type \<noteq> ETYPE_FIXNUM \<and> vtype arg1_type \<noteq> ETYPE_UNKNOWN
              then (ctx, emit CB (I_jmp_ptr side_exit) st)
         else
           (let arg1 = ctx_stack_opnd ctx 0;
                arg0 = ctx_stack_opnd ctx 1;
                st1 = (if vtype arg0_type \<noteq> ETYPE_FIXNUM
                       then emits CB [I_test arg0 (imm_opnd RUBY_FIXNUM_FLAG), I_jz_ptr side_exit] st
                       else st);
                st2 = (if vtype arg1_type \<noteq> ETYPE_FIXNUM
                       then emits CB [I_test arg1 (imm_opnd RUBY_FIXNUM_FLAG), I_jz_ptr side_exit] st1
                       else st1);
                ctx1 = ctx_upgrade_opnd_type ctx (OPND_STACK 0) TYPE_FIXNUM;
                ctx2 = ctx_upgrade_opnd_type ctx1 (OPND_STACK 1) TYPE_FIXNUM
            in (ctx2, st2)))"

text \<open>
  Modelled from the spec: \<open>assume(kind, subject, block)\<close> records the block as a dependent
  of the subject; a \<open>BasicOpNotRedefined(class_flag, op)\<close> assumption is invalidated when
  the host sets the per-class redefinition flag for \<open>op\<close>, so it cannot be registered
  once that flag is set (function \<open>assume_bop_not_redefined\<close> of the interface file,
  which is not among the sources).
\<close>

definition assume_bop_not_redefined ::
  "host \<Rightarrow> redefined_flag \<Rightarrow> ruby_basic_operators \<Rightarrow> yjit_state \<Rightarrow> bool \<times> yjit_state" where
  "assume_bop_not_redefined h flag bop st =
     (if bop_redefined h flag bop then (False, st)
      else (True, st\<lparr>blk := (blk st)\<lparr>assumptions :=
                        assumptions (blk st) @ [BasicOpNotRedefined flag bop]\<rparr>\<rparr>))"

text \<open>The shared body of the fixnum comparisons; \<open>cmov_op\<close> is the conditional move.\<close>

definition gen_fixnum_cmp :: "host \<Rightarrow> (x86opnd \<Rightarrow> x86opnd \<Rightarrow> x86insn) \<Rightarrow> codegen_fn" where
  "gen_fixnum_cmp h cmov_op jit ctx st =
     (let (side_exit, st1) = yjit_side_exit h jit ctx st;
          (ok, st2) = assume_bop_not_redefined h INTEGER_REDEFINED_OP_FLAG BOP_LT st1
      in if \<not> ok then Inr (YJIT_CANT_COMPILE, jit, ctx, st2)
         else
           (let (ctx1, st3) = guard_two_fixnums ctx side_exit st2;
                (arg1, ctx2) = ctx_stack_pop ctx1 1;
                (arg0, ctx3) = ctx_stack_pop ctx2 1;
                st4 = emits CB [I_xor (reg32_opnd REG0) (reg32_opnd REG0),
                                I_mov (reg_opnd REG1) arg0,
                                I_cmp (reg_opnd REG1) arg1,
                                I_mov (reg_opnd REG1) (imm_opnd Qtrue),
                                cmov_op (reg_opnd REG0) (reg_opnd REG1)] st3;
                (dst, ctx4) = ctx_stack_push ctx3 TYPE_UNKNOWN;
                st5 = emit CB (I_mov dst (reg_opnd REG0)) st4
            in Inr (YJIT_KEEP_COMPILING, jit, ctx4, st5)))"

definition gen_opt_lt :: "host \<Rightarrow> codegen_fn" where
  "gen_opt_lt h jit ctx st = gen_fixnum_cmp h (I_cmov CC_L) jit ctx st"

definition gen_opt_le :: "host \<Rightarrow> codegen_fn" where
  "gen_opt_le h jit ctx st = gen_fixnum_cmp h (I_cmov CC_LE) jit ctx st"

definition gen_opt_ge :: "host \<Rightarrow> codegen_fn" where
  "gen_opt_ge h jit ctx st = gen_fixnum_cmp h (I_cmov CC_GE) jit ctx st"

definition gen_opt_gt :: "host \<Rightarrow> codegen_fn" where
  "gen_opt_gt h jit ctx st = gen_fixnum_cmp h (I_cmov CC_G) jit ctx st"

text \<open>Fixnum addition.\<close>

definition gen_opt_plus :: "host \<Rightarrow> codegen_fn" where
  "gen_opt_plus h jit ctx st =
     (let (side_exit, st1) = yjit_side_exit h jit ctx st;
          (ok, st2) = assume_bop_not_redefined h INTEGER_REDEFINED_OP_FLAG BOP_PLUS st1
      in if \<not> ok then Inr (YJIT_CANT_COMPILE, jit, ctx, st2)
         else
           (let (ctx1, st3) = guard_two_fixnums ctx side_exit st2;
                (arg1, ctx2) = ctx_stack_pop ctx1 1;
                (arg0, ctx3) = ctx_stack_pop ctx2 1;
                st4 = emits CB [I_mov (reg_opnd REG0) arg0,
                                I_sub (reg_opnd REG0) (imm_opnd 1),
                                I_add (reg_opnd REG0) arg1,
                                I_jo_ptr side_exit] st3;
                (dst, ctx4) = ctx_stack_push ctx3 TYPE_FIXNUM;
                st5 = emit CB (I_mov dst (reg_opnd REG0)) st4
            in Inr (YJIT_KEEP_COMPILING, jit, ctx4, st5)))"

text \<open>Return from a method.\<close>

definition offset_to_jit_return :: int where
  "offset_to_jit_return = - sizeof_rb_control_frame_t + offsetof_cfp CFP_jit_return"

definition gen_leave :: "host \<Rightarrow> codegen_fn" where
  "gen_leave h jit ctx st =
     (if RUBY_DEBUG h \<and> stack_size ctx \<noteq> 1 then Inl AssertionFailed
      else
        (let (side_exit, st1) = yjit_side_exit h jit ctx st;
             st2 = emit CB (I_mov (reg_opnd REG1) (cfp_member_opnd CFP_ep)) st1;
             (counted, st3) = COUNTED_EXIT h side_exit ''leave_se_interrupt'' st2;
             st4 = yjit_check_ints h CB counted st3;
             (retval, ctx1) = ctx_stack_pop ctx 1;
             st5 = emits CB [I_mov (reg_opnd REG0) retval,
                             I_add (reg_opnd REG_CFP) (imm_opnd (of_int sizeof_rb_control_frame_t)),
                             I_mov (ec_member_opnd h EC_cfp) (reg_opnd REG_CFP),
                             I_mov (reg_opnd REG_SP) (cfp_member_opnd CFP_sp),
                             I_mov (mem_opnd 64 REG_SP 0) (reg_opnd REG0),
                             I_jmp_rm (mem_opnd 64 REG_CFP offset_to_jit_return)] st4
         in Inr (YJIT_END_BLOCK, jit, ctx1, st5)))"

section \<open>The block compilation driver\<close>

text \<open>
  Generate a stubbed unconditional jump to the next bytecode instruction. Blocks that are
  part of a guard chain can use this to share the same successor.
\<close>

definition jit_jump_to_next_insn ::
  "host \<Rightarrow> jitstate_t \<Rightarrow> ctx_t \<Rightarrow> yjit_state \<Rightarrow> jitstate_t \<times> yjit_state" where
  "jit_jump_to_next_insn h jit current_context st =
     (let reset_depth = current_context\<lparr>chain_depth := 0\<rparr>;
          jump_block = \<lparr>bid_iseq = iseq jit, bid_idx = jit_next_insn_idx h jit\<rparr>;
          (jit1, st1) =
            (if record_boundary_patch_point jit
             then (let (exit_pos, s) = yjit_gen_exit h (pc jit + insn_len h (opcode jit)) reset_depth OCB st
                   in (jit\<lparr>record_boundary_patch_point := False\<rparr>, record_global_inval_patch exit_pos s))
             else (jit, st))
      in (jit1, gen_direct_jump reset_depth jump_block st1))"

text \<open>The variables of the driver's loop.\<close>

record loop_state =
  ls_insn_idx :: "32 word"
  ls_jit :: jitstate_t
  ls_ctx :: ctx_t
  ls_st :: yjit_state

text \<open>
  The table from opcodes to code generation functions that \<open>yjit_init_codegen\<close> fills.
  The entries of the generators that are not modelled here are the parameter \<open>rest\<close>.
\<close>

definition gen_fns ::
  "host \<Rightarrow> (ruby_vminsn_type \<Rightarrow> codegen_fn option) \<Rightarrow> ruby_vminsn_type \<Rightarrow> codegen_fn option" where
  "gen_fns h rest =
     rest(BIN_nop \<mapsto> gen_nop,
          BIN_dupn \<mapsto> gen_dupn h,
          BIN_checktype \<mapsto> gen_checktype h,
          BIN_opt_lt \<mapsto> gen_opt_lt h,
          BIN_opt_le \<mapsto> gen_opt_le h,
          BIN_opt_ge \<mapsto> gen_opt_ge h,
          BIN_opt_gt \<mapsto> gen_opt_gt h,
          BIN_opt_plus \<mapsto> gen_opt_plus h,
          BIN_leave \<mapsto> gen_leave h)"

text \<open>
  The start of a turn of the loop of \<open>yjit_gen_block\<close> that compiles the instruction at
  the current index: set the current instruction and, if the previous instruction asked
  for it, generate an exit to this instruction and record the boundary.
\<close>

definition loop_enter_insn :: "host \<Rightarrow> loop_state \<Rightarrow> jitstate_t \<times> yjit_state" where
  "loop_enter_insn h ls =
     (let pc1 = unat (ls_insn_idx ls);
          opcode1 = yjit_opcode_at_pc h (iseq (ls_jit ls)) pc1;
          jit1 = (ls_jit ls)\<lparr>insn_idx := ls_insn_idx ls, pc := pc1, opcode := opcode1\<rparr>
      in if record_boundary_patch_point jit1
         then (let (exit_pos, s) = yjit_gen_exit h (pc jit1) (ls_ctx ls) OCB (ls_st ls)
               in (jit1\<lparr>record_boundary_patch_point := False\<rparr>,
                   record_global_inval_patch exit_pos s))
         else (jit1, ls_st ls))"

text \<open>
  One turn of the loop of \<open>yjit_gen_block\<close>. The result is the new loop state together
  with \<open>True\<close> when the loop is left by a \<open>break\<close>.
\<close>

definition gen_block_step ::
  "host \<Rightarrow> (ruby_vminsn_type \<Rightarrow> codegen_fn option) \<Rightarrow> 32 word \<Rightarrow> loop_state
     \<Rightarrow> error + (bool \<times> loop_state)" where
  "gen_block_step h fns starting_insn_idx ls =
     (let insn_idx1 = ls_insn_idx ls;
          ctx = ls_ctx ls;
          opcode1 = yjit_opcode_at_pc h (iseq (ls_jit ls)) (unat insn_idx1)
      in if opcode1 = BIN_opt_getinlinecache \<and> insn_idx1 > starting_insn_idx
         then (let (jit1, st1) = jit_jump_to_next_insn h (ls_jit ls) ctx (ls_st ls)
               in Inr (True, ls\<lparr>ls_jit := jit1, ls_st := st1\<rparr>))
         else
           (let (jit2, st1) = loop_enter_insn h ls
            in if RUBY_DEBUG h \<and> jit_at_current_insn jit2 \<and> \<not> verify_ctx_ok h (pc jit2) ctx
               then Inl RbBug
               else
                 (case fns opcode1 of
                    None \<Rightarrow>
                      (let (exit_pos, st2) = yjit_gen_exit h (pc jit2) ctx CB st1
                       in Inr (True, ls\<lparr>ls_jit := jit2, ls_st := st2\<rparr>))
                  | Some gen_fn \<Rightarrow>
                      (let st2 = GEN_COUNTER_INC h CB ''exec_instruction'' st1
                       in bind_res (gen_fn jit2 ctx st2) (\<lambda>(status, jit3, ctx3, st3).
                            let ctx4 = ctx3\<lparr>chain_depth := 0\<rparr>
                            in if status = YJIT_CANT_COMPILE
                               then (let (exit_pos, st4) = yjit_gen_exit h (pc jit3) ctx4 CB st3
                                     in Inr (True, \<lparr>ls_insn_idx = insn_idx1, ls_jit = jit3,
                                                    ls_ctx = ctx4, ls_st = st4\<rparr>))
                               else (let insn_idx2 = insn_idx1 + of_nat (insn_len h opcode1)
                                     in Inr (status = YJIT_END_BLOCK,
                                             \<lparr>ls_insn_idx = insn_idx2, ls_jit = jit3,
                                              ls_ctx = ctx4, ls_st = st3\<rparr>)))))))"

text \<open>The loop itself; it has no bound of its own.\<close>

partial_function (option) gen_block_loop ::
  "host \<Rightarrow> (ruby_vminsn_type \<Rightarrow> codegen_fn option) \<Rightarrow> 32 word \<Rightarrow> loop_state
     \<Rightarrow> (error + loop_state) option" where
  "gen_block_loop h fns starting_insn_idx ls =
     (case gen_block_step h fns starting_insn_idx ls of
        Inl e \<Rightarrow> Some (Inl e)
      | Inr r \<Rightarrow> (if fst r then Some (Inr (snd r))
                  else gen_block_loop h fns starting_insn_idx (snd r)))"

text \<open>
  Compile a sequence of bytecode instructions for a given basic block version, the block
  \<open>blk\<close> of the state. The write positions and sizes are \<open>uint32_t\<close>, so the sums of
  the two margin tests wrap at \<open>2 ^ 32\<close>.
\<close>

definition yjit_gen_block ::
  "host \<Rightarrow> (ruby_vminsn_type \<Rightarrow> codegen_fn option) \<Rightarrow> rb_execution_context_t \<Rightarrow> yjit_state
     \<Rightarrow> (error + yjit_state) option" where
  "yjit_gen_block h fns ec0 st =
     (let block = blk st;
          starting_insn_idx = bid_idx (blockid block)
      in if RUBY_DEBUG h \<and> (starting_insn_idx = 0 \<and> stack_size (entry_ctx block) > 0)
         then Some (Inl AssertionFailed)
         else if (write_pos (cb st) + 1024) mod 2 ^ 32 \<ge> mem_size (cb st) then Some (Inl RbBug)
         else if (write_pos (ocb st) + 1024) mod 2 ^ 32 \<ge> mem_size (ocb st) then Some (Inl RbBug)
         else
           (let jit = \<lparr>iseq = bid_iseq (blockid block), insn_idx = 0, opcode = BIN_nop, pc = 0,
                       ec = ec0, record_boundary_patch_point = False\<rparr>;
                st1 = st\<lparr>blk := block\<lparr>start_pos := write_pos (cb st)\<rparr>\<rparr>
            in (case gen_block_loop h fns starting_insn_idx
                       \<lparr>ls_insn_idx = starting_insn_idx, ls_jit = jit,
                        ls_ctx = entry_ctx block, ls_st = st1\<rparr> of
                  None \<Rightarrow> None
                | Some (Inl e) \<Rightarrow> Some (Inl e)
                | Some (Inr ls) \<Rightarrow>
                    (let st2 = ls_st ls;
                         st3 = st2\<lparr>blk := (blk st2)\<lparr>end_pos := write_pos (cb st2),
                                                   end_idx := ls_insn_idx ls\<rparr>\<rparr>
                     in if RUBY_DEBUG h \<and> record_boundary_patch_point (ls_jit ls)
                        then Some (Inl AssertionFailed)
                        else Some (Inr st3)))))"

section \<open>Class guards and method dispatch\<close>

datatype vm_call_flag =
    VM_CALL_ARGS_SPLAT | VM_CALL_ARGS_BLOCKARG | VM_CALL_FCALL | VM_CALL_VCALL
  | VM_CALL_ARGS_SIMPLE | VM_CALL_BLOCKISEQ | VM_CALL_KWARG | VM_CALL_KW_SPLAT
  | VM_CALL_TAILCALL | VM_CALL_SUPER | VM_CALL_ZSUPER | VM_CALL_OPT_SEND

text \<open>The call site: \<open>argc\<close>, the method id and the flag bits, kept as the set of set bits.\<close>

record rb_callinfo =
  vm_ci_argc :: int
  vm_ci_mid :: VALUE
  vm_ci_flag :: "vm_call_flag set"

text \<open>
  What method dispatch takes from the host VM and from the parts of the generator that are
  not modelled here: the live stack, the class of a value, the well-known classes, the
  singleton flag and the attached object of a class, method lookup, deferred compilation,
  and the generators for the bodies of interpreted methods, C functions and attribute
  readers.
\<close>

record send_env =
  jit_peek_at_stack :: "int \<Rightarrow> VALUE"
  CLASS_OF :: "VALUE \<Rightarrow> VALUE"
  rb_cNilClass :: VALUE
  rb_cTrueClass :: VALUE
  rb_cFalseClass :: VALUE
  rb_cInteger :: VALUE
  rb_cSymbol :: VALUE
  rb_cFloat :: VALUE
  FL_SINGLETON_P :: "VALUE \<Rightarrow> bool"
  attached_object :: "VALUE \<Rightarrow> VALUE"
  rb_callable_method_entry :: "VALUE \<Rightarrow> VALUE \<Rightarrow> cme_t option"
  defer_compilation :: "32 word \<Rightarrow> ctx_t \<Rightarrow> yjit_state \<Rightarrow> yjit_state"
  gen_send_iseq :: "rb_callinfo \<Rightarrow> cme_t \<Rightarrow> VALUE option \<Rightarrow> int \<Rightarrow> codegen_fn"
  gen_send_cfunc :: "rb_callinfo \<Rightarrow> cme_t \<Rightarrow> VALUE option \<Rightarrow> int \<Rightarrow> codegen_fn"
  gen_get_ivar :: "int \<Rightarrow> VALUE \<Rightarrow> VALUE \<Rightarrow> insn_opnd_t \<Rightarrow> code_ptr \<Rightarrow> codegen_fn"

text \<open>An assertion, checked in a debug build only.\<close>

definition RUBY_ASSERT :: "host \<Rightarrow> bool \<Rightarrow> (error + 'a) \<Rightarrow> (error + 'a)" where
  "RUBY_ASSERT h c k = (if RUBY_DEBUG h \<and> \<not> c then Inl AssertionFailed else k)"

text \<open>
  One guard of \<open>jit_guard_known_klass\<close> on an immediate class: the comparison, the chained
  jump, and the refinement of the operand's type. It is taken when \<open>need\<close> holds.
\<close>

definition guard_immediate ::
  "host \<Rightarrow> jitstate_t \<Rightarrow> ctx_t \<Rightarrow> insn_opnd_t \<Rightarrow> int \<Rightarrow> code_ptr \<Rightarrow> val_type_t \<Rightarrow> bool
     \<Rightarrow> x86insn list \<Rightarrow> jcc_kinds \<Rightarrow> val_type_t \<Rightarrow> yjit_state \<Rightarrow> error + (bool \<times> ctx_t \<times> yjit_state)" where
  "guard_immediate h jit ctx insn_opnd max_chain_depth side_exit val_type need test_code jcc refined st =
     RUBY_ASSERT h (\<not> is_heap val_type)
       (if need then
          RUBY_ASSERT h (vtype val_type = ETYPE_UNKNOWN)
            (bind_res (jit_chain_guard h jcc jit ctx (of_int max_chain_depth) side_exit
                         (emits CB test_code st))
               (\<lambda>st1. Inr (True, ctx_upgrade_opnd_type ctx insn_opnd refined, st1)))
        else Inr (True, ctx, st))"

text \<open>
  Guard that a stack operand has the same class as \<open>known_klass\<close>. Recompile as contingency
  if possible, or take side exit a last resort.
\<close>

definition jit_guard_known_klass ::
  "host \<Rightarrow> send_env \<Rightarrow> jitstate_t \<Rightarrow> ctx_t \<Rightarrow> VALUE \<Rightarrow> insn_opnd_t \<Rightarrow> VALUE \<Rightarrow> int \<Rightarrow> code_ptr
     \<Rightarrow> yjit_state \<Rightarrow> error + (bool \<times> ctx_t \<times> yjit_state)" where
  "jit_guard_known_klass h env jit ctx known_klass insn_opnd sample_instance max_chain_depth side_exit st =
     (let val_type = ctx_get_opnd_type ctx insn_opnd in
      if known_klass = rb_cNilClass env then
        guard_immediate h jit ctx insn_opnd max_chain_depth side_exit val_type
          (vtype val_type \<noteq> ETYPE_NIL)
          [I_cmp (reg_opnd REG0) (imm_opnd Qnil)] JCC_JNE TYPE_NIL st
      else if known_klass = rb_cTrueClass env then
        guard_immediate h jit ctx insn_opnd max_chain_depth side_exit val_type
          (vtype val_type \<noteq> ETYPE_TRUE)
          [I_cmp (reg_opnd REG0) (imm_opnd Qtrue)] JCC_JNE TYPE_TRUE st
      else if known_klass = rb_cFalseClass env then
        guard_immediate h jit ctx insn_opnd max_chain_depth side_exit val_type
          (vtype val_type \<noteq> ETYPE_FALSE)
          [I_test (reg_opnd REG0) (reg_opnd REG0)] JCC_JNZ TYPE_FALSE st
      else if known_klass = rb_cInteger env \<and> FIXNUM_P sample_instance then
        guard_immediate h jit ctx insn_opnd max_chain_depth side_exit val_type
          (vtype val_type \<noteq> ETYPE_FIXNUM \<or> \<not> is_imm val_type)
          [I_test (reg_opnd REG0) (imm_opnd RUBY_FIXNUM_FLAG)] JCC_JZ TYPE_FIXNUM st
      else if known_klass = rb_cSymbol env \<and> STATIC_SYM_P sample_instance then
        guard_immediate h jit ctx insn_opnd max_chain_depth side_exit val_type
          (vtype val_type \<noteq> ETYPE_SYMBOL \<or> \<not> is_imm val_type)
          [I_cmp (reg8_opnd REG0) (imm_opnd RUBY_SYMBOL_FLAG)] JCC_JNE TYPE_STATIC_SYMBOL st
      else if known_klass = rb_cFloat env \<and> FLONUM_P sample_instance then
        guard_immediate h jit ctx insn_opnd max_chain_depth side_exit val_type
          (vtype val_type \<noteq> ETYPE_FLONUM \<or> \<not> is_imm val_type)
          [I_mov (reg_opnd REG1) (reg_opnd REG0),
           I_and (reg_opnd REG1) (imm_opnd RUBY_FLONUM_MASK),
           I_cmp (reg_opnd REG1) (imm_opnd RUBY_FLONUM_FLAG)] JCC_JNE TYPE_FLONUM st
      else if FL_SINGLETON_P env known_klass \<and> sample_instance = attached_object env known_klass then
        (let st1 = jit_mov_gc_ptr CB (reg_opnd REG1) sample_instance st;
             st2 = emit CB (I_cmp (reg_opnd REG0) (reg_opnd REG1)) st1
         in bind_res (jit_chain_guard h JCC_JNE jit ctx (of_int max_chain_depth) side_exit st2)
              (\<lambda>st3. Inr (True, ctx, st3)))
      else
        RUBY_ASSERT h (\<not> is_imm val_type)
          (bind_res
             (if \<not> is_heap val_type then
                (let st1 = emit CB (I_test (reg_opnd REG0) (imm_opnd RUBY_IMMEDIATE_MASK)) st
                 in bind_res (jit_chain_guard h JCC_JNZ jit ctx (of_int max_chain_depth) side_exit st1)
                      (\<lambda>st2. let st3 = emit CB (I_cmp (reg_opnd REG0) (imm_opnd Qnil)) st2
                             in bind_res (jit_chain_guard h JCC_JBE jit ctx (of_int max_chain_depth)
                                            side_exit st3)
                                  (\<lambda>st4. Inr (ctx_upgrade_opnd_type ctx insn_opnd TYPE_HEAP, st4))))
              else Inr (ctx, st))
             (\<lambda>(ctx1, st5).
                let klass_opnd = mem_opnd 64 REG0 offsetof_RBasic_klass;
                    st6 = jit_mov_gc_ptr CB (reg_opnd REG1) known_klass st5;
                    st7 = emit CB (I_cmp klass_opnd (reg_opnd REG1)) st6
                in bind_res (jit_chain_guard h JCC_JNE jit ctx1 (of_int max_chain_depth) side_exit st7)
                     (\<lambda>st8. Inr (True, ctx1, st8)))))"

text \<open>
  Generate ancestry guard for protected callee. Calls to protected callees only go through
  when \<open>self.is_a?(klass_that_defines_the_callee)\<close>.
\<close>

definition jit_protected_callee_ancestry_guard ::
  "host \<Rightarrow> cbsel \<Rightarrow> cme_t \<Rightarrow> code_ptr \<Rightarrow> yjit_state \<Rightarrow> yjit_state" where
  "jit_protected_callee_ancestry_guard h sel cme side_exit st =
     (let st1 = emit sel (I_mov (reg_opnd (C_ARG_REGS ! 0)) (cfp_member_opnd CFP_self)) st;
          st2 = jit_mov_gc_ptr sel (reg_opnd (C_ARG_REGS ! 1)) (cme_defined_class cme) st1;
          st3 = emits sel [I_call_ptr REG0 ''rb_obj_is_kind_of'',
                           I_test (reg_opnd RAX) (reg_opnd RAX)] st2;
          (counted, st4) = COUNTED_EXIT h side_exit ''send_se_protected_check_failed'' st3
      in emit sel (I_jz_ptr counted) st4)"

text \<open>
  Modelled from the spec: a block that relies on a method lookup registers
  \<open>MethodLookupStable(class, method_entry)\<close> (function \<open>assume_method_lookup_stable\<close> of the
  interface file, which is not among the sources).
\<close>

definition assume_method_lookup_stable :: "VALUE \<Rightarrow> cme_t \<Rightarrow> yjit_state \<Rightarrow> yjit_state" where
  "assume_method_lookup_stable klass cme st =
     st\<lparr>blk := (blk st)\<lparr>assumptions := assumptions (blk st) @ [MethodLookupStable klass cme]\<rparr>\<rparr>"

text \<open>
  The dispatch on the kind of the method entry at the end of \<open>gen_send_general\<close>; an alias
  is resolved and the switch is entered again.
\<close>

fun send_dispatch ::
  "host \<Rightarrow> send_env \<Rightarrow> rb_callinfo \<Rightarrow> VALUE option \<Rightarrow> int \<Rightarrow> x86opnd \<Rightarrow> insn_opnd_t \<Rightarrow> VALUE
     \<Rightarrow> code_ptr \<Rightarrow> cme_t \<Rightarrow> codegen_fn" where
  "send_dispatch h env ci block argc recv recv_opnd comptime_recv side_exit
       (CmeAlias v dc cid orig) jit ctx st =
     send_dispatch h env ci block argc recv recv_opnd comptime_recv side_exit orig jit ctx st"
| "send_dispatch h env ci block argc recv recv_opnd comptime_recv side_exit
       (Cme v t dc cid aid) jit ctx st =
     (case t of
        VM_METHOD_TYPE_ISEQ \<Rightarrow> gen_send_iseq env ci (Cme v t dc cid aid) block argc jit ctx st
      | VM_METHOD_TYPE_CFUNC \<Rightarrow> gen_send_cfunc env ci (Cme v t dc cid aid) block argc jit ctx st
      | VM_METHOD_TYPE_IVAR \<Rightarrow>
          (if argc \<noteq> 0
           then Inr (YJIT_CANT_COMPILE, jit, ctx, GEN_COUNTER_INC h CB ''send_getter_arity'' st)
           else gen_get_ivar env SEND_MAX_DEPTH comptime_recv aid recv_opnd side_exit jit ctx
                  (emit CB (I_mov (reg_opnd REG0) recv) st))
      | VM_METHOD_TYPE_ATTRSET \<Rightarrow>
          Inr (YJIT_CANT_COMPILE, jit, ctx, GEN_COUNTER_INC h CB ''send_ivar_set_method'' st)
      | VM_METHOD_TYPE_BMETHOD \<Rightarrow>
          Inr (YJIT_CANT_COMPILE, jit, ctx, GEN_COUNTER_INC h CB ''send_bmethod'' st)
      | VM_METHOD_TYPE_ZSUPER \<Rightarrow>
          Inr (YJIT_CANT_COMPILE, jit, ctx, GEN_COUNTER_INC h CB ''send_zsuper_method'' st)
      | VM_METHOD_TYPE_UNDEF \<Rightarrow>
          Inr (YJIT_CANT_COMPILE, jit, ctx, GEN_COUNTER_INC h CB ''send_undef_method'' st)
      | VM_METHOD_TYPE_NOTIMPLEMENTED \<Rightarrow>
          Inr (YJIT_CANT_COMPILE, jit, ctx, GEN_COUNTER_INC h CB ''send_not_implemented_method'' st)
      | VM_METHOD_TYPE_OPTIMIZED \<Rightarrow>
          Inr (YJIT_CANT_COMPILE, jit, ctx, GEN_COUNTER_INC h CB ''send_optimized_method'' st)
      | VM_METHOD_TYPE_MISSING \<Rightarrow>
          Inr (YJIT_CANT_COMPILE, jit, ctx, GEN_COUNTER_INC h CB ''send_missing_method'' st)
      | VM_METHOD_TYPE_REFINED \<Rightarrow>
          Inr (YJIT_CANT_COMPILE, jit, ctx, GEN_COUNTER_INC h CB ''send_refined_method'' st))"

text \<open>
  The part of \<open>gen_send_general\<close> after the method lookup: the visibility switch, the
  registration of the lookup and the dispatch on the kind of the entry.
\<close>

definition send_with_cme ::
  "host \<Rightarrow> send_env \<Rightarrow> rb_callinfo \<Rightarrow> VALUE option \<Rightarrow> int \<Rightarrow> x86opnd \<Rightarrow> insn_opnd_t \<Rightarrow> VALUE
     \<Rightarrow> VALUE \<Rightarrow> code_ptr \<Rightarrow> cme_t \<Rightarrow> codegen_fn" where
  "send_with_cme h env ci block argc recv recv_opnd comptime_recv comptime_recv_klass side_exit
       cme jit ctx st =
     (let continue = (\<lambda>st1.
            RUBY_ASSERT h (cme_called_id cme = vm_ci_mid ci)
              (send_dispatch h env ci block argc recv recv_opnd comptime_recv side_exit cme jit ctx
                 (assume_method_lookup_stable comptime_recv_klass cme st1)))
      in case METHOD_ENTRY_VISI cme of
           METHOD_VISI_PUBLIC \<Rightarrow> continue st
         | METHOD_VISI_PRIVATE \<Rightarrow>
             (if VM_CALL_FCALL \<notin> vm_ci_flag ci then Inr (YJIT_CANT_COMPILE, jit, ctx, st)
              else continue st)
         | METHOD_VISI_PROTECTED \<Rightarrow>
             continue (jit_protected_callee_ancestry_guard h CB cme side_exit st)
         | METHOD_VISI_UNDEF \<Rightarrow>
             RUBY_ASSERT h False (continue st))"

text \<open>The shared pipeline of the call opcodes.\<close>

definition gen_send_general :: "host \<Rightarrow> send_env \<Rightarrow> rb_callinfo \<Rightarrow> VALUE option \<Rightarrow> codegen_fn" where
  "gen_send_general h env ci block jit ctx st =
     (let argc = vm_ci_argc ci;
          mid = vm_ci_mid ci
      in if VM_CALL_KW_SPLAT \<in> vm_ci_flag ci
         then Inr (YJIT_CANT_COMPILE, jit, ctx, GEN_COUNTER_INC h CB ''send_kw_splat'' st)
         else if vm_ci_flag ci \<inter> {VM_CALL_KW_SPLAT, VM_CALL_KWARG, VM_CALL_ARGS_SPLAT,
                                    VM_CALL_ARGS_BLOCKARG} \<noteq> {}
         then Inr (YJIT_CANT_COMPILE, jit, ctx, GEN_COUNTER_INC h CB ''send_callsite_not_simple'' st)
         else if \<not> jit_at_current_insn jit
         then Inr (YJIT_END_BLOCK, jit, ctx, defer_compilation env (insn_idx jit) ctx st)
         else
           (let comptime_recv = jit_peek_at_stack env argc;
                comptime_recv_klass = CLASS_OF env comptime_recv;
                (side_exit, st1) = yjit_side_exit h jit ctx st;
                recv = ctx_stack_opnd ctx argc;
                recv_opnd = OPND_STACK argc;
                st2 = emit CB (I_mov (reg_opnd REG0) recv) st1
            in bind_res (jit_guard_known_klass h env jit ctx comptime_recv_klass recv_opnd
                           comptime_recv SEND_MAX_DEPTH side_exit st2)
                 (\<lambda>(ok, ctx1, st3).
                    if \<not> ok then Inr (YJIT_CANT_COMPILE, jit, ctx1, st3)
                    else (case rb_callable_method_entry env comptime_recv_klass mid of
                            None \<Rightarrow> Inr (YJIT_CANT_COMPILE, jit, ctx1, st3)
                          | Some cme \<Rightarrow>
                              send_with_cme h env ci block argc recv recv_opnd comptime_recv
                                comptime_recv_klass side_exit cme jit ctx1 st3))))"


section \<open>Guards at instance variable reads and at array indexing\<close>








section \<open>Invalidation for tracing\<close>

text \<open>One patch: move to the patch position and write a jump to the outlined exit.\<close>

definition apply_patch :: "codepage_patch \<Rightarrow> yjit_state \<Rightarrow> yjit_state" where
  "apply_patch patch st =
     (let st1 = st\<lparr>cb := cb_set_pos (cb st) (inline_patch_pos patch)\<rparr>;
          jump_target = cb_get_ptr OCB (outlined_target_pos patch)
      in emit CB (I_jmp_ptr jump_target) st1)"

text \<open>
  Invalidate all generated code: empty the lists of live block versions, apply the recorded
  patches, restore the write position and freeze the invalidated part of the code page.
  The VM lock and the barrier have no counterpart in a sequential model.
\<close>

definition yjit_tracing_invalidate_all :: "host \<Rightarrow> yjit_state \<Rightarrow> error + yjit_state" where
  "yjit_tracing_invalidate_all h st =
     (if \<not> rb_yjit_enabled_p h then Inr st
      else
        (let st1 = st\<lparr>iseq_versions := []\<rparr>;
             old_pos = write_pos (cb st1);
             st2 = fold apply_patch (global_inval_patches st1) st1;
             st3 = st2\<lparr>cb := cb_set_pos (cb st2) old_pos\<rparr>
         in if \<not> (yjit_codepage_frozen_bytes st3 \<le> old_pos) then Inl AssertionFailed
            else Inr (st3\<lparr>yjit_codepage_frozen_bytes := old_pos\<rparr>)))"

text \<open>The arena invariant: the frozen watermark does not exceed the write position.\<close>

definition arena_inv :: "yjit_state \<Rightarrow> bool" where
  "arena_inv st = (yjit_codepage_frozen_bytes st \<le> write_pos (cb st))"

section \<open>Running the emitted code\<close>

text \<open>
  A machine state for the straight-line code that the generators above emit: the
  registers, the memory as 64-bit cells indexed by address, and the zero and overflow
  flags. The emitted code reads and writes whole aligned cells, except for the two 32-bit
  interrupt words, which are read as the low half of their cell.
\<close>

record machine =
  regs :: "x86reg \<Rightarrow> 64 word"
  memory :: "64 word \<Rightarrow> 64 word"
  ZF :: bool
  OF :: bool

datatype outcome =
    Fallthrough machine
  | JumpTo code_ptr machine
  | JumpInd "64 word" machine
  | Unsupported

fun opnd_bits :: "x86opnd \<Rightarrow> nat" where
  "opnd_bits (OReg b r) = b"
| "opnd_bits (OMem b r d) = b"
| "opnd_bits (OImm v) = 64"
| "opnd_bits (OPtr p) = 64"

fun read_opnd :: "machine \<Rightarrow> x86opnd \<Rightarrow> 64 word option" where
  "read_opnd m (OReg b r) = Some (take_bit b (regs m r))"
| "read_opnd m (OMem b r d) = Some (take_bit b (memory m (regs m r + of_int d)))"
| "read_opnd m (OImm v) = Some v"
| "read_opnd m (OPtr p) = None"

text \<open>A 32-bit register write clears the upper half; narrower writes are not modelled.\<close>

fun write_opnd :: "machine \<Rightarrow> x86opnd \<Rightarrow> 64 word \<Rightarrow> machine option" where
  "write_opnd m (OReg b r) v =
     (if b = 64 \<or> b = 32 then Some (m\<lparr>regs := (regs m)(r := take_bit b v)\<rparr>) else None)"
| "write_opnd m (OMem b r d) v =
     (if b = 64 then Some (m\<lparr>memory := (memory m)(regs m r + of_int d := v)\<rparr>) else None)"
| "write_opnd m (OImm x) v = None"
| "write_opnd m (OPtr p) v = None"

definition binop ::
  "machine \<Rightarrow> x86opnd \<Rightarrow> x86opnd \<Rightarrow> (64 word \<Rightarrow> 64 word \<Rightarrow> 64 word) \<Rightarrow> (int \<Rightarrow> int \<Rightarrow> int) \<Rightarrow> outcome" where
  "binop m d s f g =
     (if opnd_bits d \<noteq> 64 then Unsupported
      else case (read_opnd m d, read_opnd m s) of
             (Some a, Some b) \<Rightarrow>
               (case write_opnd m d (f a b) of
                  Some m1 \<Rightarrow> Fallthrough (m1\<lparr>ZF := (f a b = 0), OF := (g (sint a) (sint b) \<noteq> sint (f a b))\<rparr>)
                | None \<Rightarrow> Unsupported)
           | _ \<Rightarrow> Unsupported)"

fun exec_insn :: "x86insn \<Rightarrow> machine \<Rightarrow> outcome" where
  "exec_insn (I_mov d s) m =
     (case read_opnd m s of
        Some v \<Rightarrow> (case write_opnd m d v of Some m1 \<Rightarrow> Fallthrough m1 | None \<Rightarrow> Unsupported)
      | None \<Rightarrow> Unsupported)"
| "exec_insn (I_add d s) m = binop m d s (+) (+)"
| "exec_insn (I_sub d s) m = binop m d s (-) (-)"
| "exec_insn (I_not d) m =
     (case read_opnd m d of
        Some a \<Rightarrow> (case write_opnd m d (NOT a) of Some m1 \<Rightarrow> Fallthrough m1 | None \<Rightarrow> Unsupported)
      | None \<Rightarrow> Unsupported)"
| "exec_insn (I_test a b) m =
     (case (read_opnd m a, read_opnd m b) of
        (Some x, Some y) \<Rightarrow> Fallthrough (m\<lparr>ZF := (take_bit (opnd_bits a) (x AND y) = 0), OF := False\<rparr>)
      | _ \<Rightarrow> Unsupported)"
| "exec_insn (I_jmp_ptr p) m = JumpTo p m"
| "exec_insn (I_jz_ptr p) m = (if ZF m then JumpTo p m else Fallthrough m)"
| "exec_insn (I_je_ptr p) m = (if ZF m then JumpTo p m else Fallthrough m)"
| "exec_insn (I_jnz_ptr p) m = (if \<not> ZF m then JumpTo p m else Fallthrough m)"
| "exec_insn (I_jo_ptr p) m = (if OF m then JumpTo p m else Fallthrough m)"
| "exec_insn (I_jmp_rm t) m =
     (case read_opnd m t of Some a \<Rightarrow> JumpInd a m | None \<Rightarrow> Unsupported)"
| "exec_insn i m = Unsupported"

fun exec :: "x86insn list \<Rightarrow> machine \<Rightarrow> outcome" where
  "exec [] m = Fallthrough m"
| "exec (i # is) m = (case exec_insn i m of Fallthrough m1 \<Rightarrow> exec is m1 | out \<Rightarrow> out)"

text \<open>The instructions that a generator added to an arena.\<close>

definition emitted :: "cbsel \<Rightarrow> yjit_state \<Rightarrow> yjit_state \<Rightarrow> x86insn list" where
  "emitted sel st st1 = drop (length (insns (get_cb sel st))) (insns (get_cb sel st1))"

text \<open>An arena whose write position is at the end of its code.\<close>

definition at_end :: "codeblock_t \<Rightarrow> bool" where
  "at_end c = (write_pos c = length (insns c))"

text \<open>
  Tagged fixnums of the host VM: the integer \<open>i\<close> is the word \<open>2 * i + 1\<close>, and it fits
  when it has 63 bits.
\<close>

definition FIX2LONG :: "VALUE \<Rightarrow> int" where
  "FIX2LONG v = sint v div 2"

definition LONG2FIX :: "int \<Rightarrow> VALUE" where
  "LONG2FIX i = word_of_int (2 * i + 1)"

definition FIXABLE :: "int \<Rightarrow> bool" where
  "FIXABLE i = (- (2 ^ 62) \<le> i \<and> i < 2 ^ 62)"

text \<open>
  A value agrees with a compile-time type as far as fixnums go: a slot typed \<open>Fixnum\<close>
  holds a fixnum, and a fixnum only sits in a slot that is not typed as a heap object and
  whose type is \<open>Fixnum\<close> or not known.
\<close>

definition fixnum_sound :: "val_type_t \<Rightarrow> VALUE \<Rightarrow> bool" where
  "fixnum_sound t v =
     ((vtype t = ETYPE_FIXNUM \<longrightarrow> FIXNUM_P v) \<and>
      (FIXNUM_P v \<longrightarrow> \<not> is_heap t \<and> (vtype t = ETYPE_FIXNUM \<or> vtype t = ETYPE_UNKNOWN)))"

text \<open>Reading a result: the status and the state of a generator, the end of a run.\<close>

definition result_status :: "gen_result \<Rightarrow> codegen_status_t option" where
  "result_status r = (case r of Inl e \<Rightarrow> None | Inr x \<Rightarrow> Some (fst x))"

definition result_state :: "gen_result \<Rightarrow> yjit_state option" where
  "result_state r = (case r of Inl e \<Rightarrow> None | Inr x \<Rightarrow> Some (snd (snd (snd x))))"

fun jump_target :: "outcome \<Rightarrow> 64 word option" where
  "jump_target (JumpInd t m) = Some t"
| "jump_target (Fallthrough m) = None"
| "jump_target (JumpTo p m) = None"
| "jump_target Unsupported = None"

fun final_machine :: "outcome \<Rightarrow> machine option" where
  "final_machine (JumpInd t m) = Some m"
| "final_machine (Fallthrough m) = Some m"
| "final_machine (JumpTo p m) = Some m"
| "final_machine Unsupported = None"

text \<open>The jump that a chained guard of a given kind emits to a target.\<close>

definition jcc_insn :: "jcc_kinds \<Rightarrow> code_ptr \<Rightarrow> x86insn" where
  "jcc_insn jcc p =
     (case jcc of
        JCC_JNE \<Rightarrow> I_jnz_ptr p
      | JCC_JNZ \<Rightarrow> I_jnz_ptr p
      | JCC_JZ \<Rightarrow> I_jz_ptr p
      | JCC_JE \<Rightarrow> I_jz_ptr p
      | JCC_JBE \<Rightarrow> I_jbe_ptr p
      | JCC_JNA \<Rightarrow> I_jbe_ptr p)"

text \<open>
  The code of an exit to the interpreter at a given PC, as \<open>yjit_gen_exit\<close> writes it.
\<close>

definition exit_code :: "host \<Rightarrow> nat \<Rightarrow> ctx_t \<Rightarrow> x86insn list" where
  "exit_code h exit_pc ctx =
     (if sp_offset ctx \<noteq> 0
      then [I_lea (reg_opnd REG_SP) (ctx_sp_opnd ctx 0),
            I_mov (cfp_member_opnd CFP_sp) (reg_opnd REG_SP)]
      else []) @
     [I_mov (ec_member_opnd h EC_cfp) (reg_opnd REG_CFP),
      I_mov (reg_opnd RAX) (const_ptr_opnd (PtrPC exit_pc)),
      I_mov (cfp_member_opnd CFP_pc) (reg_opnd RAX)] @
     (if YJIT_STATS h \<and> gen_stats h
      then [I_mov (reg_opnd RDI) (const_ptr_opnd (PtrPC exit_pc)),
            I_call_ptr RSI ''rb_yjit_count_side_exit_op'']
      else []) @
     [I_pop (reg_opnd REG_SP), I_pop (reg_opnd REG_EC), I_pop (reg_opnd REG_CFP),
      I_mov (reg_opnd RAX) (imm_opnd Qundef), I_ret]"

text \<open>
  The code that \<open>guard_two_fixnums\<close> writes for two operand types, two operands and a side
  exit.
\<close>

definition two_fixnums_code ::
  "val_type_t \<Rightarrow> val_type_t \<Rightarrow> x86opnd \<Rightarrow> x86opnd \<Rightarrow> code_ptr \<Rightarrow> x86insn list" where
  "two_fixnums_code t0 t1 arg0 arg1 se =
     (if is_heap t0 \<or> is_heap t1
         \<or> (vtype t0 \<noteq> ETYPE_FIXNUM \<and> vtype t0 \<noteq> ETYPE_UNKNOWN)
         \<or> (vtype t1 \<noteq> ETYPE_FIXNUM \<and> vtype t1 \<noteq> ETYPE_UNKNOWN)
      then [I_jmp_ptr se]
      else (if vtype t0 \<noteq> ETYPE_FIXNUM
            then [I_test arg0 (imm_opnd RUBY_FIXNUM_FLAG), I_jz_ptr se] else []) @
           (if vtype t1 \<noteq> ETYPE_FIXNUM
            then [I_test arg1 (imm_opnd RUBY_FIXNUM_FLAG), I_jz_ptr se] else []))"

text \<open>
  The inline code that \<open>gen_leave\<close> writes, for a given target of its interrupt check: 64
  is the size of a control frame and \<open>- 8\<close> is \<open>offset_to_jit_return\<close>.
\<close>

definition leave_code :: "host \<Rightarrow> ctx_t \<Rightarrow> code_ptr \<Rightarrow> x86insn list" where
  "leave_code h ctx target =
     [I_mov (reg_opnd REG1) (cfp_member_opnd CFP_ep),
      I_mov (reg32_opnd REG0) (ec_member_opnd h EC_interrupt_mask),
      I_not (reg32_opnd REG0),
      I_test (ec_member_opnd h EC_interrupt_flag) (reg32_opnd REG0),
      I_jnz_ptr target,
      I_mov (reg_opnd REG0) (mem_opnd 64 REG_SP ((sp_offset ctx - 1) * SIZEOF_VALUE)),
      I_add (reg_opnd REG_CFP) (imm_opnd 64),
      I_mov (ec_member_opnd h EC_cfp) (reg_opnd REG_CFP),
      I_mov (reg_opnd REG_SP) (cfp_member_opnd CFP_sp),
      I_mov (mem_opnd 64 REG_SP 0) (reg_opnd REG0),
      I_jmp_rm (mem_opnd 64 REG_CFP (- 8))]"

text \<open>A register at the end of a run.\<close>

definition final_reg :: "outcome \<Rightarrow> x86reg \<Rightarrow> 64 word option" where
  "final_reg out r = (case final_machine out of None \<Rightarrow> None | Some m \<Rightarrow> Some (regs m r))"

text \<open>
  The target of a conditional jump to a code pointer, and the targets of the conditional
  jumps of a piece of code, in the order of the code.
\<close>

fun jump_of :: "x86insn \<Rightarrow> code_ptr option" where
  "jump_of (I_jz_ptr p) = Some p"
| "jump_of (I_je_ptr p) = Some p"
| "jump_of (I_jnz_ptr p) = Some p"
| "jump_of (I_jbe_ptr p) = Some p"
| "jump_of (I_jo_ptr p) = Some p"
| "jump_of i = None"

definition cond_jump_targets :: "x86insn list \<Rightarrow> code_ptr list" where
  "cond_jump_targets code = List.map_filter jump_of code"







section \<open>Sample inputs\<close>

text \<open>
  A small host: a release build without statistics, no operator redefined, and a bytecode
  whose words decode as follows: 0 is \<open>nop\<close>, 1 is \<open>dupn\<close>, 2 is \<open>leave\<close>, 3 is
  \<open>opt_getinlinecache\<close>, 4 is \<open>checktype\<close>.
\<close>

definition decode0 :: "VALUE \<Rightarrow> ruby_vminsn_type" where
  "decode0 v =
     (if v = 0 then BIN_nop else if v = 1 then BIN_dupn else if v = 2 then BIN_leave
      else if v = 3 then BIN_opt_getinlinecache else if v = 4 then BIN_checktype
      else BIN_other (unat v))"

definition opcode_at0 :: "rb_iseq_t \<Rightarrow> nat \<Rightarrow> ruby_vminsn_type" where
  "opcode_at0 i p = (if p < length (iseq_encoded i) then decode0 (iseq_encoded i ! p) else BIN_other 0)"

definition insn_len0 :: "ruby_vminsn_type \<Rightarrow> nat" where
  "insn_len0 op =
     (if op = BIN_nop \<or> op = BIN_leave then 1 else if op = BIN_opt_getinlinecache then 3 else 2)"

definition offsetof_ec0 :: "ec_field \<Rightarrow> int" where
  "offsetof_ec0 f = (case f of EC_cfp \<Rightarrow> 16 | EC_interrupt_flag \<Rightarrow> 32 | EC_interrupt_mask \<Rightarrow> 36)"

definition host0 :: host where
  "host0 = \<lparr>rb_yjit_enabled_p = True, RUBY_DEBUG = False, YJIT_STATS_predefined = False,
            gen_stats = False, bop_redefined = (\<lambda>f b. False), insn_len = insn_len0,
            yjit_opcode_at_pc = opcode_at0, offsetof_ec = offsetof_ec0,
            verify_ctx_ok = (\<lambda>p c. True)\<rparr>"

text \<open>The same host after \<open>Integer#<=\<close> has been redefined.\<close>

definition host_le :: host where
  "host_le = host0\<lparr>bop_redefined := (\<lambda>f b. f = INTEGER_REDEFINED_OP_FLAG \<and> b = BOP_LE)\<rparr>"

definition empty_cb :: codeblock_t where
  "empty_cb = \<lparr>insns = [], write_pos = 0, mem_size = 65536, label_addrs = [], label_refs = []\<rparr>"

text \<open>Bytecode \<open>dupn 3; leave\<close>, bytecode \<open>nop; opt_getinlinecache\<close> and bytecode \<open>checktype T_STRING\<close>.\<close>

definition iseq_dupn :: rb_iseq_t where
  "iseq_dupn = \<lparr>iseq_encoded = [1, 3, 2]\<rparr>"

definition iseq_cache :: rb_iseq_t where
  "iseq_cache = \<lparr>iseq_encoded = [0, 3, 9, 9, 2]\<rparr>"

definition iseq_checktype :: rb_iseq_t where
  "iseq_checktype = \<lparr>iseq_encoded = [4, 5, 2]\<rparr>"

definition block0 :: "rb_iseq_t \<Rightarrow> block_t" where
  "block0 i = \<lparr>blockid = \<lparr>bid_iseq = i, bid_idx = 0\<rparr>, entry_ctx = DEFAULT_CTX, start_pos = 0,
               end_pos = 0, end_idx = 0, gc_object_offsets = [], assumptions = []\<rparr>"

definition st0 :: "rb_iseq_t \<Rightarrow> yjit_state" where
  "st0 i = \<lparr>cb = empty_cb, ocb = empty_cb, global_inval_patches = [],
            yjit_codepage_frozen_bytes = 0, branches = [], blk = block0 i, iseq_versions = []\<rparr>"

definition jit0 :: "rb_iseq_t \<Rightarrow> jitstate_t" where
  "jit0 i = \<lparr>iseq = i, insn_idx = 0, opcode = BIN_nop, pc = 0, ec = \<lparr>cfp_pc = None\<rparr>,
             record_boundary_patch_point = False\<rparr>"

text \<open>A context with two untyped stack entries, and one with a single entry.\<close>

definition ctx_two :: ctx_t where
  "ctx_two = DEFAULT_CTX\<lparr>stack_size := 2, sp_offset := 2\<rparr>"

definition ctx_one :: ctx_t where
  "ctx_one = DEFAULT_CTX\<lparr>stack_size := 1, sp_offset := 1\<rparr>"

definition ls0 :: "rb_iseq_t \<Rightarrow> loop_state" where
  "ls0 i = \<lparr>ls_insn_idx = 0, ls_jit = jit0 i, ls_ctx = DEFAULT_CTX, ls_st = st0 i\<rparr>"

text \<open>
  A machine whose running frame is at address 1000 and whose caller's frame is at 1064:
  the \<open>jit_return\<close> word of the running frame holds 111 and that of the caller's frame 222;
  the caller's \<open>sp\<close> is 3000; the value on top of the stack, at 2000, is 77.
\<close>

definition m0 :: machine where
  "m0 = \<lparr>regs = (\<lambda>r. 0)(R13 := 1000, R12 := 5000, RBX := 2000),
         memory = (\<lambda>a. 0)(1056 := 111, 1120 := 222, 1072 := 3000, 2000 := 77),
         ZF = False, OF = False\<rparr>"

text \<open>A machine with the fixnums 3 and 4 in the two topmost stack entries.\<close>

definition m_add :: machine where
  "m_add = \<lparr>regs = (\<lambda>r. 0)(RBX := 2000),
            memory = (\<lambda>a. 0)(2000 := 7, 2008 := 9),
            ZF = False, OF = False\<rparr>"

text \<open>
  A host for method dispatch: the receiver is \<open>nil\<close>, whose class \<open>NilClass\<close> is the object
  100; the method 9 of that class is the given entry, and the bodies of the methods are left
  out.
\<close>

definition env0 :: "cme_t \<Rightarrow> send_env" where
  "env0 cme =
     \<lparr>jit_peek_at_stack = (\<lambda>n. Qnil), CLASS_OF = (\<lambda>v. 100),
      rb_cNilClass = 100, rb_cTrueClass = 108, rb_cFalseClass = 116, rb_cInteger = 124,
      rb_cSymbol = 132, rb_cFloat = 140,
      FL_SINGLETON_P = (\<lambda>k. False), attached_object = (\<lambda>k. 0),
      rb_callable_method_entry = (\<lambda>k m. if k = 100 \<and> m = 9 then Some cme else None),
      defer_compilation = (\<lambda>i c s. s),
      gen_send_iseq = (\<lambda>ci cme b argc jit ctx st. Inr (YJIT_END_BLOCK, jit, ctx, st)),
      gen_send_cfunc = (\<lambda>ci cme b argc jit ctx st. Inr (YJIT_END_BLOCK, jit, ctx, st)),
      gen_get_ivar = (\<lambda>d r n opnd e jit ctx st. Inr (YJIT_END_BLOCK, jit, ctx, st))\<rparr>"

text \<open>A private method of \<open>NilClass\<close> with an interpreted body.\<close>

definition cme_private :: cme_t where
  "cme_private = Cme METHOD_VISI_PRIVATE VM_METHOD_TYPE_ISEQ 100 9 0"

definition ci0 :: rb_callinfo where
  "ci0 = \<lparr>vm_ci_argc = 0, vm_ci_mid = 9, vm_ci_flag = {}\<rparr>"

text \<open>A context whose single stack entry is known to be \<open>nil\<close>, and one whose entry is a string.\<close>

definition ctx_nil :: ctx_t where
  "ctx_nil = ctx_one\<lparr>temp_types := (temp_types ctx_one)[0 := TYPE_NIL]\<rparr>"

definition ctx_str :: ctx_t where
  "ctx_str = ctx_one\<lparr>temp_types := (temp_types ctx_one)[0 := TYPE_STRING]\<rparr>"

text \<open>The generator's state at the instruction under the stub, at index 0.\<close>

definition jit_cur :: "rb_iseq_t \<Rightarrow> jitstate_t" where
  "jit_cur i = (jit0 i)\<lparr>ec := \<lparr>cfp_pc = Some 0\<rparr>\<rparr>"

text \<open>
  A state with three instructions of inline code and one recorded patch point, at
  position 1, and the same state after the invalidation for tracing.
\<close>

definition st_patch :: yjit_state where
  "st_patch = (st0 iseq_dupn)
     \<lparr>cb := empty_cb\<lparr>insns := [I_ret, I_ret, I_ret], write_pos := 3\<rparr>,
      global_inval_patches := [\<lparr>inline_patch_pos = 1, outlined_target_pos = 0\<rparr>]\<rparr>"

definition st_patched :: yjit_state where
  "st_patched = st_patch
     \<lparr>cb := empty_cb\<lparr>insns := [I_ret, I_jmp_ptr (CodePtr OCB 0), I_ret], write_pos := 3\<rparr>,
      yjit_codepage_frozen_bytes := 3\<rparr>"

text \<open>
  The run of the code that \<open>gen_leave\<close> writes for one stack entry, on the machine
  \<open>m0\<close>.
\<close>

definition leave_run0 :: outcome where
  "leave_run0 =
     (case result_state (gen_leave host0 (jit0 iseq_dupn) ctx_one (st0 iseq_dupn)) of
        None \<Rightarrow> Unsupported
      | Some s \<Rightarrow> exec (emitted CB (st0 iseq_dupn) s) m0)"







section \<open>Writing into the code arenas\<close>

text \<open>
Emitting an instruction changes only the arena it is written to; at the end of an arena
the instruction is appended. The exit to the interpreter is the code \<open>exit_code\<close>.
\<close>

lemma emit_other_fields [simp]:
  "global_inval_patches (emit sel i st) = global_inval_patches st"
  "yjit_codepage_frozen_bytes (emit sel i st) = yjit_codepage_frozen_bytes st"
  "branches (emit sel i st) = branches st"
  "blk (emit sel i st) = blk st"
  "iseq_versions (emit sel i st) = iseq_versions st"
  by (cases sel; simp add: emit_def put_cb_def)+

lemma emit_cb_ocb [simp]:
  "cb (emit OCB i st) = cb st"
  "ocb (emit CB i st) = ocb st"
  "cb (emit CB i st) = cb_write (cb st) i"
  "ocb (emit OCB i st) = cb_write (ocb st) i"
  by (simp_all add: emit_def put_cb_def get_cb_def)

lemma emits_Nil [simp]: "emits sel [] st = st"
  by (simp add: emits_def)

lemma emits_Cons [simp]: "emits sel (i # is) st = emits sel is (emit sel i st)"
  by (simp add: emits_def)

lemma cb_write_fields [simp]:
  "write_pos (cb_write c i) = Suc (write_pos c)"
  "mem_size (cb_write c i) = mem_size c"
  "label_addrs (cb_write c i) = label_addrs c"
  "label_refs (cb_write c i) = label_refs c"
  by (simp_all add: cb_write_def)

lemma cb_write_insns_at_end [simp]:
  "at_end c \<Longrightarrow> insns (cb_write c i) = insns c @ [i]"
  by (simp add: cb_write_def at_end_def)

lemma cb_write_at_end_pres [simp]:
  "at_end c \<Longrightarrow> at_end (cb_write c i)"
  by (simp add: cb_write_def at_end_def)

lemma emits_append: "emits sel (xs @ ys) st = emits sel ys (emits sel xs st)"
  by (simp add: emits_def)


lemma emits_ocb_at_end:
  "at_end (ocb st) \<Longrightarrow> insns (ocb (emits OCB xs st)) = insns (ocb st) @ xs \<and> at_end (ocb (emits OCB xs st))
     \<and> cb (emits OCB xs st) = cb st"
  by (induction xs arbitrary: st) simp_all

lemma yjit_gen_exit_CB:
  assumes "at_end (cb st)"
  shows "fst (yjit_gen_exit h exit_pc ctx CB st) = write_pos (cb st)"
    and "insns (cb (snd (yjit_gen_exit h exit_pc ctx CB st))) = insns (cb st) @ exit_code h exit_pc ctx"
    and "at_end (cb (snd (yjit_gen_exit h exit_pc ctx CB st)))"
    and "ocb (snd (yjit_gen_exit h exit_pc ctx CB st)) = ocb st"
  using assms
  by (simp_all add: yjit_gen_exit_def Let_def get_cb_def exit_code_def)

lemma yjit_gen_exit_OCB:
  assumes "at_end (ocb st)"
  shows "fst (yjit_gen_exit h exit_pc ctx OCB st) = write_pos (ocb st)"
    and "insns (ocb (snd (yjit_gen_exit h exit_pc ctx OCB st))) = insns (ocb st) @ exit_code h exit_pc ctx"
    and "at_end (ocb (snd (yjit_gen_exit h exit_pc ctx OCB st)))"
    and "cb (snd (yjit_gen_exit h exit_pc ctx OCB st)) = cb st"
  using assms
  by (simp_all add: yjit_gen_exit_def Let_def get_cb_def exit_code_def)

lemma yjit_gen_exit_fields [simp]:
  "global_inval_patches (snd (yjit_gen_exit h exit_pc ctx sel st)) = global_inval_patches st"
  "yjit_codepage_frozen_bytes (snd (yjit_gen_exit h exit_pc ctx sel st)) = yjit_codepage_frozen_bytes st"
  "branches (snd (yjit_gen_exit h exit_pc ctx sel st)) = branches st"
  "blk (snd (yjit_gen_exit h exit_pc ctx sel st)) = blk st"
  by (simp_all add: yjit_gen_exit_def Let_def)

section \<open>One turn of the compilation loop\<close>

text \<open>
A turn whose generator cannot compile writes the exit and breaks; a turn that keeps
compiling moves to the next instruction.
\<close>

lemma gen_block_step_cant_compile:
  assumes nocut: "\<not> (yjit_opcode_at_pc h (iseq (ls_jit ls)) (unat (ls_insn_idx ls)) = BIN_opt_getinlinecache
                    \<and> starting_insn_idx < ls_insn_idx ls)"
    and enter: "loop_enter_insn h ls = (jit2, st1)"
    and verify: "\<not> (RUBY_DEBUG h \<and> jit_at_current_insn jit2 \<and> \<not> verify_ctx_ok h (pc jit2) (ls_ctx ls))"
    and fn: "fns (yjit_opcode_at_pc h (iseq (ls_jit ls)) (unat (ls_insn_idx ls))) = Some gen_fn"
    and cant: "gen_fn jit2 (ls_ctx ls) (GEN_COUNTER_INC h CB ''exec_instruction'' st1)
                 = Inr (YJIT_CANT_COMPILE, jit3, ctx3, st3)"
  shows "gen_block_step h fns starting_insn_idx ls =
           Inr (True, \<lparr>ls_insn_idx = ls_insn_idx ls, ls_jit = jit3, ls_ctx = ctx3\<lparr>chain_depth := 0\<rparr>,
                      ls_st = snd (yjit_gen_exit h (pc jit3) (ctx3\<lparr>chain_depth := 0\<rparr>) CB st3)\<rparr>)"
  using assms
  by (auto simp add: gen_block_step_def Let_def bind_res_def split_def)

lemma loop_enter_insn_pc: "pc (fst (loop_enter_insn h ls)) = unat (ls_insn_idx ls)"
  by (simp add: loop_enter_insn_def Let_def split_def)

lemma gen_block_loop_break:
  "gen_block_step h fns s ls = Inr (True, ls1) \<Longrightarrow> gen_block_loop h fns s ls = Some (Inr ls1)"
  by (subst gen_block_loop.simps) simp

lemma gen_direct_jump_fields [simp]:
  "ocb (gen_direct_jump c b st) = ocb st"
  "cb (gen_direct_jump c b st) = cb_write (cb st) (I_direct_jump c b)"
  by (simp_all add: gen_direct_jump_def)

lemma record_patch_fields [simp]:
  "cb (record_global_inval_patch p st) = cb st"
  "ocb (record_global_inval_patch p st) = ocb st"
  by (simp_all add: record_global_inval_patch_def)

lemma yjit_gen_exit_OCB_cb [simp]:
  "cb (snd (yjit_gen_exit h exit_pc ctx OCB st)) = cb st"
  by (simp add: yjit_gen_exit_def Let_def)

lemma jit_jump_to_next_insn_code:
  assumes "at_end (cb st)"
  shows "emitted CB st (snd (jit_jump_to_next_insn h jit ctx st))
           = [I_direct_jump (ctx\<lparr>chain_depth := 0\<rparr>)
                \<lparr>bid_iseq = iseq jit, bid_idx = jit_next_insn_idx h jit\<rparr>]"
  using assms
  by (simp add: jit_jump_to_next_insn_def Let_def split_def emitted_def get_cb_def)

lemma gen_block_step_continue_idx:
  assumes "gen_block_step h fns s lsp = Inr (False, ls)"
  shows "ls_insn_idx ls = ls_insn_idx lsp
           + of_nat (insn_len h (yjit_opcode_at_pc h (iseq (ls_jit lsp)) (unat (ls_insn_idx lsp))))"
  using assms
  by (auto simp add: gen_block_step_def Let_def split_def bind_res_def
           split: if_splits option.splits sum.splits)

lemma GEN_COUNTER_INC_CB:
  assumes "at_end (cb st)"
  shows "insns (cb (GEN_COUNTER_INC h CB c st)) = insns (cb st) @
           (if YJIT_STATS h \<and> gen_stats h
            then [I_mov (reg_opnd REG1) (const_ptr_opnd (PtrCounter c)), I_lock_prefix,
                  I_add (mem_opnd 64 REG1 0) (imm_opnd 1)]
            else [])"
    and "at_end (cb (GEN_COUNTER_INC h CB c st))"
    and "ocb (GEN_COUNTER_INC h CB c st) = ocb st"
  using assms by (simp_all add: GEN_COUNTER_INC_def gen_counter_inc_def)

section \<open>Patches and chained guards\<close>

text \<open>
Applying a patch leaves the frozen prefix alone; the default shape of a branch is the jump
to its first target; the caps fit the 8-bit depth.
\<close>

lemma apply_patch_frozen [simp]:
  "yjit_codepage_frozen_bytes (apply_patch p st) = yjit_codepage_frozen_bytes st"
  by (simp add: apply_patch_def Let_def)

lemma fold_apply_patch_frozen [simp]:
  "yjit_codepage_frozen_bytes (fold apply_patch ps st) = yjit_codepage_frozen_bytes st"
  by (induction ps arbitrary: st) simp_all

lemma emit_write_pos_cb: "write_pos (cb st) \<le> write_pos (cb (emit sel i st))"
  by (cases sel) simp_all



section \<open>Contexts and the type check\<close>

text \<open>
Popping and pushing one stack entry, and the code of \<open>gen_checktype\<close> for a type it
supports.
\<close>

lemma ctx_stack_pop_1:
  "ctx_stack_pop ctx (Suc 0) =
     (mem_opnd 64 REG_SP ((sp_offset ctx - 1) * SIZEOF_VALUE),
      (forget_slot ctx (stack_size ctx - 1))\<lparr>stack_size := stack_size ctx - 1,
                                               sp_offset := sp_offset ctx - 1\<rparr>)"
  by (simp add: ctx_stack_pop_def Let_def)

lemma forget_slot_fields [simp]:
  "stack_size (forget_slot ctx i) = stack_size ctx"
  "sp_offset (forget_slot ctx i) = sp_offset ctx"
  "chain_depth (forget_slot ctx i) = chain_depth ctx"
  by (simp_all add: forget_slot_def)

lemma ctx_stack_push_opnd:
  "fst (ctx_stack_push ctx ty) = mem_opnd 64 REG_SP (sp_offset ctx * SIZEOF_VALUE)"
  "stack_size (snd (ctx_stack_push ctx ty)) = stack_size ctx + 1"
  "sp_offset (snd (ctx_stack_push ctx ty)) = sp_offset ctx + 1"
  by (simp_all add: ctx_stack_push_def ctx_stack_push_mapping_def Let_def)

lemma at_end_label_upd [simp]:
  "at_end (c\<lparr>label_addrs := x\<rparr>) = at_end c"
  "at_end (c\<lparr>label_refs := y\<rparr>) = at_end c"
  by (simp_all add: at_end_def)

lemma at_end_length: "at_end c \<Longrightarrow> write_pos c = length (insns c)"
  by (simp add: at_end_def)

lemma gen_checktype_supported:
  assumes arg: "jit_get_arg h jit 0 = Inr arg"
    and three: "ucast arg = T_STRING \<or> ucast arg = T_ARRAY \<or> (ucast arg :: 32 word) = T_HASH"
  shows "gen_checktype h jit ctx st =
     (let type_val = (ucast arg :: 32 word);
          val_type = ctx_get_opnd_type ctx (OPND_STACK 0);
          val = fst (ctx_stack_pop ctx 1);
          ctx1 = snd (ctx_stack_pop ctx 1)
      in if (type_val = T_STRING \<and> vtype val_type = ETYPE_STRING) \<or>
                (type_val = T_ARRAY \<and> vtype val_type = ETYPE_ARRAY) \<or>
                (type_val = T_HASH \<and> vtype val_type = ETYPE_HASH) then
               Inr (YJIT_KEEP_COMPILING, jit, snd (ctx_stack_push ctx1 TYPE_TRUE),
                        emit CB (I_mov (fst (ctx_stack_push ctx1 TYPE_TRUE)) (imm_opnd Qtrue)) st)
             else if is_imm val_type \<or> vtype val_type \<noteq> ETYPE_UNKNOWN then
               Inr (YJIT_KEEP_COMPILING, jit, snd (ctx_stack_push ctx1 TYPE_FALSE),
                        emit CB (I_mov (fst (ctx_stack_push ctx1 TYPE_FALSE)) (imm_opnd Qfalse)) st)
             else
               (let st1 = emits CB [I_mov (reg_opnd REG0) val,
                                    I_mov (reg_opnd REG1) (imm_opnd Qfalse)] st;
                    ret = fst (cb_new_label (cb st1));
                    st2 = st1\<lparr>cb := snd (cb_new_label (cb st1))\<rparr>;
                    st3 = (if \<not> is_heap val_type
                           then jbe_label ret
                                  (emit CB (I_cmp (reg_opnd REG0) (imm_opnd Qnil))
                                     (jnz_label ret
                                        (emit CB (I_test (reg_opnd REG0) (imm_opnd RUBY_IMMEDIATE_MASK))
                                           st2)))
                           else st2);
                    st4 = emits CB [I_mov (reg_opnd REG0) (mem_opnd 64 REG0 offsetof_RBasic_flags),
                                    I_and (reg_opnd REG0) (imm_opnd RUBY_T_MASK),
                                    I_cmp (reg_opnd REG0) (imm_opnd (ucast type_val)),
                                    I_mov (reg_opnd REG0) (imm_opnd Qtrue),
                                    I_cmov CC_E (reg_opnd REG1) (reg_opnd REG0)] st3;
                    st5 = st4\<lparr>cb := cb_write_label (cb st4) ret\<rparr>;
                    st6 = emit CB (I_mov (fst (ctx_stack_push ctx1 TYPE_IMM)) (reg_opnd REG1)) st5;
                    st7 = st6\<lparr>cb := cb_link_labels CB (cb st6)\<rparr>
                in Inr (YJIT_KEEP_COMPILING, jit, snd (ctx_stack_push ctx1 TYPE_IMM), st7)))"
  using assms
  by (simp add: gen_checktype_def bind_res_def Let_def split_def del: emits_Cons emits_Nil)

lemma runtime_check_code:
  assumes cbe: "at_end (cb st)"
    and norefs: "label_refs (cb st) = []" "label_addrs (cb st) = []"
  shows "emitted CB st
      (let st1 = emits CB [I_mov (reg_opnd REG0) val,
                                    I_mov (reg_opnd REG1) (imm_opnd Qfalse)] st;
                    ret = fst (cb_new_label (cb st1));
                    st2 = st1\<lparr>cb := snd (cb_new_label (cb st1))\<rparr>;
                    st3 = (if \<not> hp
                           then jbe_label ret
                                  (emit CB (I_cmp (reg_opnd REG0) (imm_opnd Qnil))
                                     (jnz_label ret
                                        (emit CB (I_test (reg_opnd REG0) (imm_opnd RUBY_IMMEDIATE_MASK))
                                           st2)))
                           else st2);
                    st4 = emits CB [I_mov (reg_opnd REG0) (mem_opnd 64 REG0 offsetof_RBasic_flags),
                                    I_and (reg_opnd REG0) (imm_opnd RUBY_T_MASK),
                                    I_cmp (reg_opnd REG0) (imm_opnd tvv),
                                    I_mov (reg_opnd REG0) (imm_opnd Qtrue),
                                    I_cmov CC_E (reg_opnd REG1) (reg_opnd REG0)] st3;
                    st5 = st4\<lparr>cb := cb_write_label (cb st4) ret\<rparr>;
                    st6 = emit CB (I_mov dst (reg_opnd REG1)) st5
                in st6\<lparr>cb := cb_link_labels CB (cb st6)\<rparr>)
     = [I_mov (reg_opnd REG0) val, I_mov (reg_opnd REG1) (imm_opnd Qfalse)] @
                         (if \<not> hp
                          then [I_test (reg_opnd REG0) (imm_opnd RUBY_IMMEDIATE_MASK),
                                I_jnz_ptr (CodePtr CB (length (insns (cb st)) + 11)),
                                I_cmp (reg_opnd REG0) (imm_opnd Qnil),
                                I_jbe_ptr (CodePtr CB (length (insns (cb st)) + 11))]
                          else []) @
                         [I_mov (reg_opnd REG0) (mem_opnd 64 REG0 offsetof_RBasic_flags),
                          I_and (reg_opnd REG0) (imm_opnd RUBY_T_MASK),
                          I_cmp (reg_opnd REG0) (imm_opnd tvv),
                          I_mov (reg_opnd REG0) (imm_opnd Qtrue),
                          I_cmov CC_E (reg_opnd REG1) (reg_opnd REG0),
                          I_mov dst (reg_opnd REG1)]"
proof (cases hp)
  case True
  then show ?thesis
    using cbe norefs
    by (simp add: Let_def emitted_def get_cb_def cb_new_label_def cb_write_label_def
                 cb_link_labels_def)
next
  case False
  then show ?thesis
    using cbe norefs
    by (simp add: Let_def emitted_def get_cb_def cb_new_label_def cb_write_label_def
                 cb_link_labels_def jnz_label_def jbe_label_def cb_label_ref_def link_ref_def
                 link_insn_def at_end_length nth_append list_update_append)
qed

section \<open>Method dispatch up to the method entry\<close>

text \<open>
The code of the guard for protected callees, and the path of \<open>gen_send_general\<close> from
the call site to the visibility check.
\<close>

lemma jit_mov_gc_ptr_CB:
  assumes "at_end (cb st)"
  shows "insns (cb (jit_mov_gc_ptr CB r p st)) = insns (cb st) @ [I_mov r (const_ptr_opnd (PtrObject p))]"
    and "at_end (cb (jit_mov_gc_ptr CB r p st))"
    and "ocb (jit_mov_gc_ptr CB r p st) = ocb st"
  using assms by (simp_all add: jit_mov_gc_ptr_def Let_def)

lemma COUNTED_EXIT_cases:
  assumes "at_end (ocb st)"
  shows "cb (snd (COUNTED_EXIT h e c st)) = cb st"
    and "YJIT_STATS h \<and> gen_stats h \<Longrightarrow>
           fst (COUNTED_EXIT h e c st) = CodePtr OCB (write_pos (ocb st))
         \<and> insns (ocb (snd (COUNTED_EXIT h e c st))) = insns (ocb st) @
              [I_mov (reg_opnd REG1) (const_ptr_opnd (PtrCounter c)), I_lock_prefix,
               I_add (mem_opnd 64 REG1 0) (imm_opnd 1), I_jmp_ptr e]"
    and "\<not> (YJIT_STATS h \<and> gen_stats h) \<Longrightarrow>
           fst (COUNTED_EXIT h e c st) = e \<and> ocb (snd (COUNTED_EXIT h e c st)) = ocb st"
  using assms
  by (auto simp add: COUNTED_EXIT_def counted_side_exit_def gen_counter_inc_def Let_def
        cb_get_ptr_def)

lemma protected_guard_code:
  assumes cbe: "at_end (cb st)" and ocbe: "at_end (ocb st)"
  shows "\<exists>target.
           emitted CB st (jit_protected_callee_ancestry_guard h CB cme side_exit st) =
             [I_mov (reg_opnd RDI) (cfp_member_opnd CFP_self),
              I_mov (reg_opnd RSI) (const_ptr_opnd (PtrObject (cme_defined_class cme))),
              I_call_ptr REG0 ''rb_obj_is_kind_of'',
              I_test (reg_opnd RAX) (reg_opnd RAX),
              I_jz_ptr target]
         \<and> (if YJIT_STATS h \<and> gen_stats h
             then target = CodePtr OCB (write_pos (ocb st))
                \<and> emitted OCB st (jit_protected_callee_ancestry_guard h CB cme side_exit st) =
                    [I_mov (reg_opnd REG1) (const_ptr_opnd (PtrCounter ''send_se_protected_check_failed'')),
                     I_lock_prefix, I_add (mem_opnd 64 REG1 0) (imm_opnd 1), I_jmp_ptr side_exit]
             else target = side_exit
                \<and> ocb (jit_protected_callee_ancestry_guard h CB cme side_exit st) = ocb st)"
proof -
  let ?st1 = "emit CB (I_mov (reg_opnd (C_ARG_REGS ! 0)) (cfp_member_opnd CFP_self)) st"
  let ?st2 = "jit_mov_gc_ptr CB (reg_opnd (C_ARG_REGS ! 1)) (cme_defined_class cme) ?st1"
  let ?st3 = "emits CB [I_call_ptr REG0 ''rb_obj_is_kind_of'', I_test (reg_opnd RAX) (reg_opnd RAX)] ?st2"
  let ?c = "COUNTED_EXIT h side_exit ''send_se_protected_check_failed'' ?st3"
  have e1: "at_end (cb ?st1)" "insns (cb ?st1) = insns (cb st) @ [I_mov (reg_opnd RDI) (cfp_member_opnd CFP_self)]"
           "ocb ?st1 = ocb st"
    using cbe by (simp_all add: C_ARG_REGS_def)
  have e2: "at_end (cb ?st2)"
     "insns (cb ?st2) = insns (cb st) @ [I_mov (reg_opnd RDI) (cfp_member_opnd CFP_self),
              I_mov (reg_opnd RSI) (const_ptr_opnd (PtrObject (cme_defined_class cme)))]"
     "ocb ?st2 = ocb st"
    using jit_mov_gc_ptr_CB [OF e1(1), of "reg_opnd (C_ARG_REGS ! 1)" "cme_defined_class cme"] e1
    by (simp_all add: C_ARG_REGS_def)
  have e3: "at_end (cb ?st3)"
     "insns (cb ?st3) = insns (cb st) @ [I_mov (reg_opnd RDI) (cfp_member_opnd CFP_self),
              I_mov (reg_opnd RSI) (const_ptr_opnd (PtrObject (cme_defined_class cme))),
              I_call_ptr REG0 ''rb_obj_is_kind_of'', I_test (reg_opnd RAX) (reg_opnd RAX)]"
     "ocb ?st3 = ocb st"
    using e2 by simp_all
  have o3: "at_end (ocb ?st3)" using e3(3) ocbe by simp
  have res: "jit_protected_callee_ancestry_guard h CB cme side_exit st = emit CB (I_jz_ptr (fst ?c)) (snd ?c)"
    by (simp add: jit_protected_callee_ancestry_guard_def Let_def split_def del: emits_Cons emits_Nil)
  have c4: "cb (snd ?c) = cb ?st3"
    by (rule COUNTED_EXIT_cases(1) [OF o3])
  have code: "emitted CB st (jit_protected_callee_ancestry_guard h CB cme side_exit st) =
             [I_mov (reg_opnd RDI) (cfp_member_opnd CFP_self),
              I_mov (reg_opnd RSI) (const_ptr_opnd (PtrObject (cme_defined_class cme))),
              I_call_ptr REG0 ''rb_obj_is_kind_of'',
              I_test (reg_opnd RAX) (reg_opnd RAX),
              I_jz_ptr (fst ?c)]"
    using c4 e3 unfolding res by (simp add: emitted_def get_cb_def del: emits_Cons emits_Nil)
  show ?thesis
  proof (cases "YJIT_STATS h \<and> gen_stats h")
    case True
    have "fst ?c = CodePtr OCB (write_pos (ocb st))"
      and "emitted OCB st (jit_protected_callee_ancestry_guard h CB cme side_exit st) =
                    [I_mov (reg_opnd REG1) (const_ptr_opnd (PtrCounter ''send_se_protected_check_failed'')),
                     I_lock_prefix, I_add (mem_opnd 64 REG1 0) (imm_opnd 1), I_jmp_ptr side_exit]"
      using COUNTED_EXIT_cases(2) [OF o3 True, of side_exit "''send_se_protected_check_failed''"] e3(3) unfolding res
      by (simp_all add: emitted_def get_cb_def del: emits_Cons emits_Nil)
    then show ?thesis using code True by auto
  next
    case False
    have "fst ?c = side_exit"
      and "ocb (jit_protected_callee_ancestry_guard h CB cme side_exit st) = ocb st"
      using COUNTED_EXIT_cases(3) [OF o3 False, of side_exit "''send_se_protected_check_failed''"] e3(3) unfolding res
      by (simp_all del: emits_Cons emits_Nil)
    then show ?thesis using code False by auto
  qed
qed

lemma gen_send_general_reaches_cme:
  assumes simple: "vm_ci_flag ci \<inter> {VM_CALL_KW_SPLAT, VM_CALL_KWARG, VM_CALL_ARGS_SPLAT,
                                       VM_CALL_ARGS_BLOCKARG} = {}"
    and cur: "jit_at_current_insn jit"
    and recv: "comptime_recv = jit_peek_at_stack env (vm_ci_argc ci)"
    and klass: "klass = CLASS_OF env comptime_recv"
    and exit: "yjit_side_exit h jit ctx st = (side_exit, st1)"
    and guard: "jit_guard_known_klass h env jit ctx klass (OPND_STACK (vm_ci_argc ci)) comptime_recv
                  SEND_MAX_DEPTH side_exit
                  (emit CB (I_mov (reg_opnd REG0) (ctx_stack_opnd ctx (vm_ci_argc ci))) st1)
                = Inr (True, ctx1, st3)"
    and lookup: "rb_callable_method_entry env klass (vm_ci_mid ci) = Some cme"
  shows "gen_send_general h env ci block jit ctx st =
           send_with_cme h env ci block (vm_ci_argc ci) (ctx_stack_opnd ctx (vm_ci_argc ci))
             (OPND_STACK (vm_ci_argc ci)) comptime_recv klass side_exit cme jit ctx1 st3"
proof -
  have nokw: "VM_CALL_KW_SPLAT \<notin> vm_ci_flag ci"
    using simple by auto
  show ?thesis
    using nokw simple cur recv klass exit guard lookup
    by (simp add: gen_send_general_def Let_def bind_res_def)
qed

section \<open>Tagged fixnums\<close>

text \<open>
The arithmetic of the tag: a fixnum is odd, clearing the tag and adding another fixnum
gives the tagged sum unless the signed addition overflows.
\<close>

lemma sint_in_range:
  assumes "- (2 ^ 63) \<le> k" "k < 2 ^ 63"
  shows "sint (word_of_int k :: 64 word) = k"
  using assms by (simp add: sint_sbintrunc' signed_take_bit_int_eq_self)

lemma sint_out_of_range:
  assumes "\<not> (- (2 ^ 63) \<le> k \<and> k < 2 ^ 63)"
  shows "sint (word_of_int k :: 64 word) \<noteq> k"
  using assms sint_ge [of "word_of_int k :: 64 word"] sint_lt [of "word_of_int k :: 64 word"]
  by auto

lemma fixnum_odd:
  assumes "FIXNUM_P a"
  shows "sint a = 2 * FIX2LONG a + 1"
proof -
  have "a AND 1 \<noteq> 0" using assms by (simp add: FIXNUM_P_def RUBY_FIXNUM_FLAG_def)
  then have "odd a" by (simp add: and_one_eq odd_iff_mod_2_eq_one)
  then have "bit a 0" by (simp add: bit_0)
  then have "bit (sint a) 0" by (simp add: bit_sint_iff)
  then have "odd (sint a)" by (simp add: bit_0)
  then show ?thesis by (simp add: FIX2LONG_def)
qed

lemma fixnum_pred:
  assumes "FIXNUM_P a"
  shows "sint (a - 1) = 2 * FIX2LONG a"
proof -
  have s: "sint a = 2 * FIX2LONG a + 1" by (rule fixnum_odd [OF assms])
  have lo: "- (2 ^ 63) \<le> sint a" using sint_ge [of a] by simp
  have hi: "sint a < 2 ^ 63" using sint_lt [of a] by simp
  have "a - 1 = word_of_int (sint a - 1)" by simp
  moreover have "sint (word_of_int (sint a - 1) :: 64 word) = sint a - 1"
  proof (rule sint_in_range)
    show "- (2 ^ 63) \<le> sint a - 1" using s lo by simp
    show "sint a - 1 < 2 ^ 63" using hi by simp
  qed
  ultimately have "sint (a - 1) = sint a - 1" by (simp only:)
  then show ?thesis using s by simp
qed

lemma fixnum_add_value:
  assumes "FIXNUM_P a" "FIXNUM_P b"
  shows "a - 1 + b = LONG2FIX (FIX2LONG a + FIX2LONG b)"
proof -
  have "a - 1 + b = word_of_int (sint (a - 1) + sint b)" by simp
  then show ?thesis
    using fixnum_pred [OF assms(1)] fixnum_odd [OF assms(2)]
    by (simp add: LONG2FIX_def algebra_simps)
qed

lemma fixnum_add_overflow:
  assumes "FIXNUM_P a" "FIXNUM_P b"
  shows "(sint (a - 1) + sint b \<noteq> sint (a - 1 + b)) = (\<not> FIXABLE (FIX2LONG a + FIX2LONG b))"
proof -
  let ?s = "2 * (FIX2LONG a + FIX2LONG b) + 1"
  have sum: "sint (a - 1) + sint b = ?s"
    using fixnum_pred [OF assms(1)] fixnum_odd [OF assms(2)] by simp
  have val: "a - 1 + b = word_of_int ?s"
    using fixnum_add_value [OF assms] by (simp add: LONG2FIX_def)
  have rng: "(- (2 ^ 63) \<le> ?s \<and> ?s < 2 ^ 63) = FIXABLE (FIX2LONG a + FIX2LONG b)"
    by (simp add: FIXABLE_def) presburger
  show ?thesis
  proof (cases "FIXABLE (FIX2LONG a + FIX2LONG b)")
    case True
    then have "sint (word_of_int ?s :: 64 word) = ?s"
      using rng by (intro sint_in_range) simp_all
    then have "sint (a - 1 + b) = ?s" by (simp only: val)
    then show ?thesis using True sum by (simp only: simp_thms)
  next
    case False
    then have "\<not> (- (2 ^ 63) \<le> ?s \<and> ?s < 2 ^ 63)"
      using rng by simp
    then have "sint (word_of_int ?s :: 64 word) \<noteq> ?s"
      by (rule sint_out_of_range)
    then have "sint (a - 1 + b) \<noteq> ?s" by (simp only: val simp_thms)
    then show ?thesis using False sum by simp
  qed
qed

lemma tb64 [simp]: "take_bit 64 (w :: 64 word) = w"
  by (simp add: take_bit_word_eq_self)

section \<open>The code of the fixnum addition\<close>

text \<open>
The code that \<open>guard_two_fixnums\<close> and \<open>gen_opt_plus\<close> write, and its runs.
\<close>

lemma exec_append:
  "exec (xs @ ys) m = (case exec xs m of Fallthrough m1 \<Rightarrow> exec ys m1 | JumpTo p m1 \<Rightarrow> JumpTo p m1
                        | JumpInd t m1 \<Rightarrow> JumpInd t m1 | Unsupported \<Rightarrow> Unsupported)"
  by (induction xs arbitrary: m) (simp_all split: outcome.splits)

lemma ctx_upgrade_fields [simp]:
  "stack_size (ctx_upgrade_opnd_type ctx opnd ty) = stack_size ctx"
  "sp_offset (ctx_upgrade_opnd_type ctx opnd ty) = sp_offset ctx"
  "chain_depth (ctx_upgrade_opnd_type ctx opnd ty) = chain_depth ctx"
  by (simp_all add: ctx_upgrade_opnd_type_def Let_def split: insn_opnd_t.splits temp_mapping_t.splits)

lemma guard_two_fixnums_code:
  assumes cbe: "at_end (cb st)"
  shows "insns (cb (snd (guard_two_fixnums ctx se st))) = insns (cb st) @
           two_fixnums_code (ctx_get_opnd_type ctx (OPND_STACK 1)) (ctx_get_opnd_type ctx (OPND_STACK 0))
             (ctx_stack_opnd ctx 1) (ctx_stack_opnd ctx 0) se"
    and "at_end (cb (snd (guard_two_fixnums ctx se st)))"
    and "ocb (snd (guard_two_fixnums ctx se st)) = ocb st"
    and "sp_offset (fst (guard_two_fixnums ctx se st)) = sp_offset ctx"
    and "stack_size (fst (guard_two_fixnums ctx se st)) = stack_size ctx"
  using cbe
  by (auto simp add: guard_two_fixnums_def Let_def two_fixnums_code_def)

lemma opt_plus_code:
  assumes cbe: "at_end (cb st)" and ocbe: "at_end (ocb st)"
    and nored: "\<not> bop_redefined h INTEGER_REDEFINED_OP_FLAG BOP_PLUS"
    and se: "se = CodePtr OCB (write_pos (ocb st))"
    and arg0: "arg0 = mem_opnd 64 REG_SP ((sp_offset ctx - 2) * SIZEOF_VALUE)"
    and arg1: "arg1 = mem_opnd 64 REG_SP ((sp_offset ctx - 1) * SIZEOF_VALUE)"
  shows "\<exists>ctx1 st1. gen_opt_plus h jit ctx st = Inr (YJIT_KEEP_COMPILING, jit, ctx1, st1)
          \<and> emitted CB st st1 =
              two_fixnums_code (ctx_get_opnd_type ctx (OPND_STACK 1)) (ctx_get_opnd_type ctx (OPND_STACK 0))
                arg0 arg1 se @
              [I_mov (reg_opnd REG0) arg0, I_sub (reg_opnd REG0) (imm_opnd 1),
               I_add (reg_opnd REG0) arg1, I_jo_ptr se, I_mov arg0 (reg_opnd REG0)]
          \<and> emitted OCB st st1 = exit_code h (pc jit) ctx
          \<and> stack_size ctx1 = stack_size ctx - 1"
proof -
  let ?x = "yjit_gen_exit h (pc jit) ctx OCB st"
  let ?st1 = "snd ?x"
  have x1: "fst ?x = write_pos (ocb st)" "insns (ocb ?st1) = insns (ocb st) @ exit_code h (pc jit) ctx"
     "cb ?st1 = cb st"
    using yjit_gen_exit_OCB [OF ocbe] by simp_all
  let ?st2 = "?st1\<lparr>blk := (blk ?st1)\<lparr>assumptions :=
                        assumptions (blk ?st1) @ [BasicOpNotRedefined INTEGER_REDEFINED_OP_FLAG BOP_PLUS]\<rparr>\<rparr>"
  have cb2: "at_end (cb ?st2)" "insns (cb ?st2) = insns (cb st)" "ocb ?st2 = ocb ?st1"
    using x1 cbe by simp_all
  let ?g = "guard_two_fixnums ctx se ?st2"
  note g = guard_two_fixnums_code [OF cb2(1), of ctx se]
  have opnds: "ctx_stack_opnd ctx 1 = arg0" "ctx_stack_opnd ctx 0 = arg1"
    using arg0 arg1 by (simp_all add: ctx_stack_opnd_def)
  have pops: "fst (ctx_stack_pop (fst ?g) (Suc 0)) = arg1"
     "fst (ctx_stack_pop (snd (ctx_stack_pop (fst ?g) (Suc 0))) (Suc 0)) = arg0"
     "fst (ctx_stack_push (snd (ctx_stack_pop (snd (ctx_stack_pop (fst ?g) (Suc 0))) (Suc 0))) TYPE_FIXNUM) = arg0"
     "stack_size (snd (ctx_stack_push (snd (ctx_stack_pop (snd (ctx_stack_pop (fst ?g) (Suc 0))) (Suc 0))) TYPE_FIXNUM))
        = stack_size ctx - 1"
    using arg0 arg1 g(4,5) by (simp_all add: ctx_stack_pop_1 ctx_stack_push_opnd algebra_simps)
  show ?thesis
    using nored se x1 g opnds pops cb2
    by (simp add: gen_opt_plus_def yjit_side_exit_def assume_bop_not_redefined_def split_def Let_def
          cb_get_ptr_def emitted_def get_cb_def)
qed

lemma fixnum_test:
  "(a AND RUBY_FIXNUM_FLAG = 0) = (\<not> FIXNUM_P a)"
  by (simp add: FIXNUM_P_def)

lemma exec_fixnum_test:
  assumes "a = memory m (regs m r + of_int d)"
  shows "exec (I_test (mem_opnd 64 r d) (imm_opnd RUBY_FIXNUM_FLAG) # I_jz_ptr se # rest) m =
           (if FIXNUM_P a then exec rest (m\<lparr>ZF := False, OF := False\<rparr>)
            else JumpTo se (m\<lparr>ZF := True, OF := False\<rparr>))"
  using assms by (simp add: mem_opnd_def imm_opnd_def fixnum_test)

lemma exec_two_fixnums:
  assumes a: "a = memory m (regs m REG_SP + of_int d0)"
    and b: "b = memory m (regs m REG_SP + of_int d1)"
    and s0: "fixnum_sound t0 a" and s1: "fixnum_sound t1 b"
  shows "\<exists>m1. memory m1 = memory m \<and> regs m1 = regs m \<and>
           exec (two_fixnums_code t0 t1 (mem_opnd 64 REG_SP d0) (mem_opnd 64 REG_SP d1) se @ rest) m =
             (if FIXNUM_P a \<and> FIXNUM_P b then exec rest m1 else JumpTo se m1)"
proof (cases "is_heap t0 \<or> is_heap t1
         \<or> (vtype t0 \<noteq> ETYPE_FIXNUM \<and> vtype t0 \<noteq> ETYPE_UNKNOWN)
         \<or> (vtype t1 \<noteq> ETYPE_FIXNUM \<and> vtype t1 \<noteq> ETYPE_UNKNOWN)")
  case True
  then have "\<not> (FIXNUM_P a \<and> FIXNUM_P b)"
    using s0 s1 by (auto simp add: fixnum_sound_def)
  then show ?thesis using True by (auto simp add: two_fixnums_code_def)
next
  case False
  note stat = False
  have k0: "vtype t0 = ETYPE_FIXNUM \<Longrightarrow> FIXNUM_P a" using s0 by (simp add: fixnum_sound_def)
  have k1: "vtype t1 = ETYPE_FIXNUM \<Longrightarrow> FIXNUM_P b" using s1 by (simp add: fixnum_sound_def)
  let ?m = "m\<lparr>ZF := False, OF := False\<rparr>"
  have b': "b = memory ?m (regs ?m REG_SP + of_int d1)" using b by simp
  note t0 = exec_fixnum_test [OF a, of se]
  note t1 = exec_fixnum_test [OF b, of se]
  note t1' = exec_fixnum_test [OF b', of se]
  have m_id: "\<exists>m1. memory m1 = memory m \<and> regs m1 = regs m \<and> exec rest m = exec rest m1"
    by blast
  have m_ok: "\<exists>m1. memory m1 = memory m \<and> regs m1 = regs m \<and> exec rest ?m = exec rest m1"
    by (rule exI [of _ ?m]) simp
  have m_no: "\<exists>m1. memory m1 = memory m \<and> regs m1 = regs m
                 \<and> JumpTo se (m\<lparr>ZF := True, OF := False\<rparr>) = JumpTo se m1"
    by (rule exI [of _ "m\<lparr>ZF := True, OF := False\<rparr>"]) simp
  have m_no': "\<exists>m1. memory m1 = memory m \<and> regs m1 = regs m
                 \<and> JumpTo se (m\<lparr>ZF := True, OF := False\<rparr>) = JumpTo se m1"
    by (rule exI [of _ "m\<lparr>ZF := True, OF := False\<rparr>"]) simp
  show ?thesis
  proof (cases "vtype t0 = ETYPE_FIXNUM")
    case True
    note f0 = True
    show ?thesis
    proof (cases "vtype t1 = ETYPE_FIXNUM")
      case True
      then show ?thesis using f0 stat k0 k1 m_id by (auto simp add: two_fixnums_code_def simp del: exec.simps)
    next
      case False
      then show ?thesis
        using f0 stat k0 t1 m_ok m_no
        by (cases "FIXNUM_P b") (auto simp add: two_fixnums_code_def simp del: exec.simps)
    qed
  next
    case False
    note n0 = False
    show ?thesis
    proof (cases "FIXNUM_P a")
      case False
      then show ?thesis
        using n0 stat t0 m_no
        by (auto simp add: two_fixnums_code_def simp del: exec.simps)
    next
      case True
      note fa = True
      show ?thesis
      proof (cases "vtype t1 = ETYPE_FIXNUM")
        case True
        then show ?thesis
          using n0 fa stat k1 t0 m_ok
          by (auto simp add: two_fixnums_code_def simp del: exec.simps)
      next
        case False
        then show ?thesis
          using n0 fa stat t0 t1' m_ok m_no
          by (cases "FIXNUM_P b") (auto simp add: two_fixnums_code_def simp del: exec.simps)
      qed
    qed
  qed
qed

lemma exec_add_body:
  assumes a: "a = memory m (regs m REG_SP + of_int d0)"
    and b: "b = memory m (regs m REG_SP + of_int d1)"
    and fa: "FIXNUM_P a" and fb: "FIXNUM_P b"
  shows "\<exists>m1. exec [I_mov (reg_opnd REG0) (mem_opnd 64 REG_SP d0), I_sub (reg_opnd REG0) (imm_opnd 1),
                    I_add (reg_opnd REG0) (mem_opnd 64 REG_SP d1), I_jo_ptr se,
                    I_mov (mem_opnd 64 REG_SP d0) (reg_opnd REG0)] m =
               (if FIXABLE (FIX2LONG a + FIX2LONG b) then Fallthrough m1 else JumpTo se m1)
          \<and> regs m1 REG_SP = regs m REG_SP
          \<and> memory m1 = (if FIXABLE (FIX2LONG a + FIX2LONG b)
                          then (memory m)(regs m REG_SP + of_int d0 := LONG2FIX (FIX2LONG a + FIX2LONG b))
                          else memory m)"
  using a b fixnum_add_value [OF fa fb] fixnum_add_overflow [OF fa fb]
  by (simp add: reg_opnd_def mem_opnd_def imm_opnd_def binop_def REG0_def REG_SP_def)

section \<open>The code of the return\<close>

text \<open>
The code that \<open>gen_leave\<close> writes, and its run.
\<close>

lemma gen_leave_code:
  assumes cbe: "at_end (cb st)" and ocbe: "at_end (ocb st)"
    and size: "stack_size ctx = 1"
  shows "\<exists>ctx1 st1 target.
           gen_leave h jit ctx st = Inr (YJIT_END_BLOCK, jit, ctx1, st1)
         \<and> stack_size ctx1 = 0
         \<and> emitted CB st st1 = leave_code h ctx target
         \<and> (if YJIT_STATS h \<and> gen_stats h
             then target = CodePtr OCB (write_pos (ocb st) + length (exit_code h (pc jit) ctx))
                \<and> emitted OCB st st1 = exit_code h (pc jit) ctx @
                    [I_mov (reg_opnd REG1) (const_ptr_opnd (PtrCounter ''leave_se_interrupt'')),
                     I_lock_prefix, I_add (mem_opnd 64 REG1 0) (imm_opnd 1),
                     I_jmp_ptr (CodePtr OCB (write_pos (ocb st)))]
             else target = CodePtr OCB (write_pos (ocb st))
                \<and> emitted OCB st st1 = exit_code h (pc jit) ctx)"
proof -
  let ?x = "yjit_gen_exit h (pc jit) ctx OCB st"
  let ?se = "CodePtr OCB (write_pos (ocb st))"
  let ?st1 = "snd ?x"
  have x1: "fst ?x = write_pos (ocb st)" "insns (ocb ?st1) = insns (ocb st) @ exit_code h (pc jit) ctx"
     "cb ?st1 = cb st" "at_end (ocb ?st1)"
    using yjit_gen_exit_OCB [OF ocbe] by simp_all
  let ?st2 = "emit CB (I_mov (reg_opnd REG1) (cfp_member_opnd CFP_ep)) ?st1"
  have o2: "at_end (ocb ?st2)" "ocb ?st2 = ocb ?st1" "at_end (cb ?st2)"
     "insns (cb ?st2) = insns (cb st) @ [I_mov (reg_opnd REG1) (cfp_member_opnd CFP_ep)]"
    using x1 cbe by simp_all
  let ?c = "COUNTED_EXIT h ?se ''leave_se_interrupt'' ?st2"
  have wp: "write_pos (ocb ?st2) = write_pos (ocb st) + length (exit_code h (pc jit) ctx)"
    using o2(1) ocbe x1(2) o2(2) by (simp add: at_end_def)
  have c1: "cb (snd ?c) = cb ?st2"
    by (rule COUNTED_EXIT_cases(1) [OF o2(1)])
  have res: "gen_leave h jit ctx st =
      Inr (YJIT_END_BLOCK, jit, snd (ctx_stack_pop ctx 1),
           emits CB [I_mov (reg_opnd REG0) (fst (ctx_stack_pop ctx 1)),
                             I_add (reg_opnd REG_CFP) (imm_opnd (of_int sizeof_rb_control_frame_t)),
                             I_mov (ec_member_opnd h EC_cfp) (reg_opnd REG_CFP),
                             I_mov (reg_opnd REG_SP) (cfp_member_opnd CFP_sp),
                             I_mov (mem_opnd 64 REG_SP 0) (reg_opnd REG0),
                             I_jmp_rm (mem_opnd 64 REG_CFP offset_to_jit_return)]
              (yjit_check_ints h CB (fst ?c) (snd ?c)))"
    using size x1(1)
    by (simp add: gen_leave_def yjit_side_exit_def split_def Let_def cb_get_ptr_def
             del: emits_Cons emits_Nil One_nat_def)
  have code: "emitted CB st (emits CB [I_mov (reg_opnd REG0) (fst (ctx_stack_pop ctx 1)),
                             I_add (reg_opnd REG_CFP) (imm_opnd (of_int sizeof_rb_control_frame_t)),
                             I_mov (ec_member_opnd h EC_cfp) (reg_opnd REG_CFP),
                             I_mov (reg_opnd REG_SP) (cfp_member_opnd CFP_sp),
                             I_mov (mem_opnd 64 REG_SP 0) (reg_opnd REG0),
                             I_jmp_rm (mem_opnd 64 REG_CFP offset_to_jit_return)]
              (yjit_check_ints h CB (fst ?c) (snd ?c))) = leave_code h ctx (fst ?c)"
    using c1 o2(3,4)
    by (simp add: emitted_def get_cb_def yjit_check_ints_def leave_code_def ctx_stack_pop_1
          sizeof_rb_control_frame_t_def offset_to_jit_return_def)
  have ocb_final: "ocb (emits CB [I_mov (reg_opnd REG0) (fst (ctx_stack_pop ctx 1)),
                             I_add (reg_opnd REG_CFP) (imm_opnd (of_int sizeof_rb_control_frame_t)),
                             I_mov (ec_member_opnd h EC_cfp) (reg_opnd REG_CFP),
                             I_mov (reg_opnd REG_SP) (cfp_member_opnd CFP_sp),
                             I_mov (mem_opnd 64 REG_SP 0) (reg_opnd REG0),
                             I_jmp_rm (mem_opnd 64 REG_CFP offset_to_jit_return)]
              (yjit_check_ints h CB (fst ?c) (snd ?c))) = ocb (snd ?c)"
    by (simp add: yjit_check_ints_def)
  have sz: "stack_size (snd (ctx_stack_pop ctx 1)) = 0"
    using size by (simp add: ctx_stack_pop_1)
  show ?thesis
  proof (cases "YJIT_STATS h \<and> gen_stats h")
    case True
    have t: "fst ?c = CodePtr OCB (write_pos (ocb st) + length (exit_code h (pc jit) ctx))"
      and oc: "insns (ocb (snd ?c)) = insns (ocb st) @ exit_code h (pc jit) ctx @
              [I_mov (reg_opnd REG1) (const_ptr_opnd (PtrCounter ''leave_se_interrupt'')), I_lock_prefix,
               I_add (mem_opnd 64 REG1 0) (imm_opnd 1), I_jmp_ptr ?se]"
      using COUNTED_EXIT_cases(2) [OF o2(1) True, of ?se "''leave_se_interrupt''"] wp o2(2) x1(2)
      by simp_all
    show ?thesis
      unfolding res
      using code sz t oc ocb_final True
      by (simp add: emitted_def get_cb_def del: emits_Cons emits_Nil One_nat_def)
  next
    case False
    have t: "fst ?c = ?se" and oc: "ocb (snd ?c) = ocb ?st2"
      using COUNTED_EXIT_cases(3) [OF o2(1) False, of ?se "''leave_se_interrupt''"] by simp_all
    show ?thesis
      unfolding res
      using code sz t oc ocb_final False o2(2) x1(2)
      by (simp add: emitted_def get_cb_def del: emits_Cons emits_Nil One_nat_def)
  qed
qed

lemma interrupt_bits:
  "take_bit 32 (NOT (take_bit 32 (k :: 64 word))) = take_bit 32 (NOT k)"
  by (rule bit_eqI) (auto simp add: bit_simps)

lemma regs_upd_apply:
  "((f :: x86reg \<Rightarrow> 64 word)(x := y)) z = (if z = x then y else f z)"
  by simp

lemma exec_leave_code:
  assumes cfp: "cfp = regs m REG_CFP" and ecp: "ecp = regs m REG_EC"
    and iflag: "iflag = memory m (ecp + of_int (offsetof_ec h EC_interrupt_flag))"
    and imask: "imask = memory m (ecp + of_int (offsetof_ec h EC_interrupt_mask))"
    and retval: "retval = memory m (regs m REG_SP + of_int ((sp_offset ctx - 1) * SIZEOF_VALUE))"
    and mem1: "mem1 = (memory m)(ecp + of_int (offsetof_ec h EC_cfp) := cfp + 64)"
    and sp1: "sp1 = mem1 (cfp + 64 + 8)"
    and mem2: "mem2 = mem1(sp1 := retval)"
  shows "\<exists>m1. exec (leave_code h ctx target) m =
              (if take_bit 32 (iflag AND NOT imask) \<noteq> 0 then JumpTo target m1
               else JumpInd (mem2 (cfp + 56)) m1)
         \<and> (take_bit 32 (iflag AND NOT imask) = 0 \<longrightarrow>
              regs m1 REG_CFP = cfp + 64 \<and> regs m1 REG_EC = ecp \<and> regs m1 REG_SP = sp1
            \<and> regs m1 REG0 = retval \<and> memory m1 = mem2)"
  using assms
  by (simp add: leave_code_def reg_opnd_def reg32_opnd_def mem_opnd_def imm_opnd_def binop_def
        cfp_member_opnd_def ec_member_opnd_def
        REG0_def REG1_def REG_SP_def REG_CFP_def REG_EC_def interrupt_bits regs_upd_apply
        del: fun_upd_apply,
      simp add: add.commute del: fun_upd_apply)

section \<open>Chained jumps\<close>

text \<open>
A chained guard writes one conditional jump: below the cap to a new stub, whose branch
leads one deeper into the chain at the same bytecode position, and from the cap on to the
side exit. Stubs stay where they are when more outlined code and more branches are added,
so the jumps of a sequence of chained guards are all chained.
\<close>

lemma jump_of_jcc_insn [simp]: "jump_of (jcc_insn jcc p) = Some p"
  by (cases jcc) (simp_all add: jcc_insn_def)

lemma cond_jump_targets_simps [simp]:
  "cond_jump_targets [] = []"
  "cond_jump_targets (i # is) =
     (case jump_of i of None \<Rightarrow> cond_jump_targets is | Some p \<Rightarrow> p # cond_jump_targets is)"
  by (simp_all add: cond_jump_targets_def List.map_filter_simps split: option.splits)

lemma cond_jump_targets_append [simp]:
  "cond_jump_targets (xs @ ys) = cond_jump_targets xs @ cond_jump_targets ys"
  by (induction xs) (simp_all split: option.splits)

lemma emitted_self [simp]: "emitted sel st st = []"
  by (simp add: emitted_def)












section \<open>The class guards\<close>



lemma bind_res_Inr [simp]: "bind_res (Inr x) f = f x"
  by (simp add: bind_res_def)

lemma jit_mov_gc_ptr_branches [simp]:
  "branches (jit_mov_gc_ptr sel r p st) = branches st"
  by (simp add: jit_mov_gc_ptr_def Let_def)

lemma emits_branches [simp]: "branches (emits sel xs st) = branches st"
  by (induction xs arbitrary: st) simp_all




section \<open>The guards of the three sites\<close>













section \<open>Facts about the sample inputs\<close>

lemmas sample_defs =
  host0_def decode0_def opcode_at0_def insn_len0_def offsetof_ec0_def empty_cb_def
  iseq_dupn_def iseq_cache_def iseq_checktype_def block0_def st0_def jit0_def ctx_two_def
  ctx_one_def ls0_def DEFAULT_CTX_def

lemma st0_at_end:
  "at_end (cb (st0 i))" "at_end (ocb (st0 i))"
  by (simp_all add: at_end_def st0_def empty_cb_def)

lemma leave_run0_outcome:
  "\<exists>m1. leave_run0 = JumpInd 111 m1 \<and> regs m1 REG_CFP = 1064"
proof -
  have sz: "stack_size ctx_one = 1"
    by (simp add: ctx_one_def)
  obtain ctx1 st1 target where
    gen: "gen_leave host0 (jit0 iseq_dupn) ctx_one (st0 iseq_dupn)
            = Inr (YJIT_END_BLOCK, jit0 iseq_dupn, ctx1, st1)"
    and code: "emitted CB (st0 iseq_dupn) st1 = leave_code host0 ctx_one target"
    using gen_leave_code [OF st0_at_end [of iseq_dupn] sz, of host0 "jit0 iseq_dupn"] by blast
  have run: "leave_run0 = exec (leave_code host0 ctx_one target) m0"
    using gen code by (simp add: leave_run0_def result_state_def)
  have cfp: "(1000 :: 64 word) = regs m0 REG_CFP" and ecp: "(5000 :: 64 word) = regs m0 REG_EC"
    by (simp_all add: m0_def REG_CFP_def REG_EC_def)
  have iflag: "(0 :: 64 word) = memory m0 (5000 + of_int (offsetof_ec host0 EC_interrupt_flag))"
    and imask: "(0 :: 64 word) = memory m0 (5000 + of_int (offsetof_ec host0 EC_interrupt_mask))"
    by (simp_all add: m0_def host0_def offsetof_ec0_def)
  have t: "((memory m0)(5000 + of_int (offsetof_ec host0 EC_cfp) := 1000 + 64,
             ((memory m0)(5000 + of_int (offsetof_ec host0 EC_cfp) := 1000 + 64)) (1000 + 64 + 8) :=
               memory m0 (regs m0 REG_SP + of_int ((sp_offset ctx_one - 1) * SIZEOF_VALUE))))
           (1000 + 56) = 111"
    by (simp add: m0_def host0_def offsetof_ec0_def)
  show ?thesis
    using exec_leave_code [OF cfp ecp iflag imask refl refl refl refl, of ctx_one target] run t
    by auto
qed



section \<open>The properties of the code generator\<close>

subsection \<open>Fixnum comparisons and the operator they assume\<close>

text \<open>
Claim C1. Each of \<open>opt_lt\<close>, \<open>opt_le\<close>, \<open>opt_ge\<close>, \<open>opt_gt\<close> is said to register
  a \<open>BasicOpNotRedefined\<close> assumption on the operator that it implements, and to refuse
  compilation when the registration fails. The shared body \<open>gen_fixnum_cmp\<close> registers the
  assumption on \<open>BOP_LT\<close> whatever the opcode. On the host \<open>host_le\<close>, where the operator
  \<open>BOP_LE\<close> of \<open>Integer\<close> is redefined and \<open>BOP_LT\<close> is not, \<open>gen_opt_le\<close> keeps compiling
  and the only assumption that the block records is the one on \<open>BOP_LT\<close>.
\<close>

theorem gen_opt_le_assumes_lt:
  "bop_redefined host_le INTEGER_REDEFINED_OP_FLAG BOP_LE
   \<and> result_status (gen_opt_le host_le (jit0 iseq_dupn) ctx_two (st0 iseq_dupn)) = Some YJIT_KEEP_COMPILING
   \<and> map_option (assumptions \<circ> blk)
        (result_state (gen_opt_le host_le (jit0 iseq_dupn) ctx_two (st0 iseq_dupn)))
       = Some [BasicOpNotRedefined INTEGER_REDEFINED_OP_FLAG BOP_LT]"
  by (simp add: host_le_def host0_def gen_opt_le_def gen_fixnum_cmp_def yjit_side_exit_def
        assume_bop_not_redefined_def split_def Let_def guard_two_fixnums_def result_status_def
        result_state_def st0_def block0_def)

subsection \<open>Return from a method\<close>

text \<open>
Claim C2. The code generator of \<open>leave\<close>: in a debug build it asserts that the stack
  height at compile time is 1. With that height it writes the side exit, an interrupt check
  that jumps to the side exit (through its counter when statistics are generated) when a
  pending interrupt is not masked, and then code that loads the return value, adds the size
  of a frame to the frame pointer so that it points to the caller's frame, stores the new
  frame pointer in the execution context, reloads the stack pointer from the caller's frame,
  writes the return value there, and jumps to the address in the \<open>jit_return\<close> word of the
  frame that was popped: the word at offset 56 from the old frame pointer.
\<close>

theorem gen_leave_returns:
  assumes cbe: "at_end (cb st)" and ocbe: "at_end (ocb st)"
    and cfp: "cfp = regs m REG_CFP" and ecp: "ecp = regs m REG_EC"
    and iflag: "iflag = memory m (ecp + of_int (offsetof_ec h EC_interrupt_flag))"
    and imask: "imask = memory m (ecp + of_int (offsetof_ec h EC_interrupt_mask))"
    and retval: "retval = memory m (regs m REG_SP + of_int ((sp_offset ctx - 1) * SIZEOF_VALUE))"
    and mem1: "mem1 = (memory m)(ecp + of_int (offsetof_ec h EC_cfp) := cfp + 64)"
    and sp1: "sp1 = mem1 (cfp + 64 + 8)"
    and mem2: "mem2 = mem1(sp1 := retval)"
  shows "(RUBY_DEBUG h \<and> stack_size ctx \<noteq> 1 \<longrightarrow> gen_leave h jit ctx st = Inl AssertionFailed)
       \<and> (stack_size ctx = 1 \<longrightarrow>
            (\<exists>ctx1 st1 target m1.
               gen_leave h jit ctx st = Inr (YJIT_END_BLOCK, jit, ctx1, st1)
             \<and> stack_size ctx1 = 0
             \<and> take (length (exit_code h (pc jit) ctx)) (emitted OCB st st1) = exit_code h (pc jit) ctx
             \<and> target = (if YJIT_STATS h \<and> gen_stats h
                         then CodePtr OCB (write_pos (ocb st) + length (exit_code h (pc jit) ctx))
                         else CodePtr OCB (write_pos (ocb st)))
             \<and> exec (emitted CB st st1) m =
                 (if take_bit 32 (iflag AND NOT imask) \<noteq> 0 then JumpTo target m1
                  else JumpInd (mem2 (cfp + 56)) m1)
             \<and> (take_bit 32 (iflag AND NOT imask) = 0 \<longrightarrow>
                  regs m1 REG_CFP = cfp + 64 \<and> regs m1 REG_EC = ecp \<and> regs m1 REG_SP = sp1
                \<and> regs m1 REG0 = retval \<and> memory m1 = mem2)))"
proof (intro conjI impI)
  assume "RUBY_DEBUG h \<and> stack_size ctx \<noteq> 1"
  then show "gen_leave h jit ctx st = Inl AssertionFailed"
    by (simp add: gen_leave_def)
next
  assume size: "stack_size ctx = 1"
  obtain ctx1 st1 target where
    gen: "gen_leave h jit ctx st = Inr (YJIT_END_BLOCK, jit, ctx1, st1)"
    and sz: "stack_size ctx1 = 0"
    and code: "emitted CB st st1 = leave_code h ctx target"
    and tgt: "if YJIT_STATS h \<and> gen_stats h
             then target = CodePtr OCB (write_pos (ocb st) + length (exit_code h (pc jit) ctx))
                \<and> emitted OCB st st1 = exit_code h (pc jit) ctx @
                    [I_mov (reg_opnd REG1) (const_ptr_opnd (PtrCounter ''leave_se_interrupt'')),
                     I_lock_prefix, I_add (mem_opnd 64 REG1 0) (imm_opnd 1),
                     I_jmp_ptr (CodePtr OCB (write_pos (ocb st)))]
             else target = CodePtr OCB (write_pos (ocb st))
                \<and> emitted OCB st st1 = exit_code h (pc jit) ctx"
    using gen_leave_code [OF cbe ocbe size, of h jit] by blast
  obtain m1 where
    run: "exec (leave_code h ctx target) m =
              (if take_bit 32 (iflag AND NOT imask) \<noteq> 0 then JumpTo target m1
               else JumpInd (mem2 (cfp + 56)) m1)"
    and fin: "take_bit 32 (iflag AND NOT imask) = 0 \<longrightarrow>
              regs m1 REG_CFP = cfp + 64 \<and> regs m1 REG_EC = ecp \<and> regs m1 REG_SP = sp1
            \<and> regs m1 REG0 = retval \<and> memory m1 = mem2"
    using exec_leave_code [OF cfp ecp iflag imask retval mem1 sp1 mem2, of target] by blast
  have pre: "take (length (exit_code h (pc jit) ctx)) (emitted OCB st st1) = exit_code h (pc jit) ctx"
    using tgt by (simp split: if_splits)
  have t: "target = (if YJIT_STATS h \<and> gen_stats h
                         then CodePtr OCB (write_pos (ocb st) + length (exit_code h (pc jit) ctx))
                         else CodePtr OCB (write_pos (ocb st)))"
    using tgt by (simp split: if_splits)
  show "\<exists>ctx1 st1 target m1.
               gen_leave h jit ctx st = Inr (YJIT_END_BLOCK, jit, ctx1, st1)
             \<and> stack_size ctx1 = 0
             \<and> take (length (exit_code h (pc jit) ctx)) (emitted OCB st st1) = exit_code h (pc jit) ctx
             \<and> target = (if YJIT_STATS h \<and> gen_stats h
                         then CodePtr OCB (write_pos (ocb st) + length (exit_code h (pc jit) ctx))
                         else CodePtr OCB (write_pos (ocb st)))
             \<and> exec (emitted CB st st1) m =
                 (if take_bit 32 (iflag AND NOT imask) \<noteq> 0 then JumpTo target m1
                  else JumpInd (mem2 (cfp + 56)) m1)
             \<and> (take_bit 32 (iflag AND NOT imask) = 0 \<longrightarrow>
                  regs m1 REG_CFP = cfp + 64 \<and> regs m1 REG_EC = ecp \<and> regs m1 REG_SP = sp1
                \<and> regs m1 REG0 = retval \<and> memory m1 = mem2)"
    using gen sz pre t run fin code
    by (intro exI [of _ ctx1] exI [of _ st1] exI [of _ target] exI [of _ m1]) simp
qed

text \<open>
The return on the machine \<open>m0\<close>, whose running frame is at 1000: the code jumps to
  111, the \<open>jit_return\<close> word of the running frame, with the frame pointer at 1064 and the
  return value 77 at the caller's stack pointer 3000.
\<close>

theorem gen_leave_returns_witness:
  "stack_size ctx_one = 1
   \<and> (\<exists>ctx1 st1 m1.
         gen_leave host0 (jit0 iseq_dupn) ctx_one (st0 iseq_dupn) = Inr (YJIT_END_BLOCK, jit0 iseq_dupn, ctx1, st1)
       \<and> stack_size ctx1 = 0
       \<and> exec (emitted CB (st0 iseq_dupn) st1) m0 = JumpInd 111 m1
       \<and> regs m1 REG_CFP = 1064 \<and> regs m1 REG_SP = 3000 \<and> regs m1 REG0 = 77
       \<and> memory m1 3000 = 77 \<and> memory m1 5016 = 1064)"
proof -
  have sz: "stack_size ctx_one = 1"
    by (simp add: ctx_one_def)
  have cfp: "(1000 :: 64 word) = regs m0 REG_CFP" and ecp: "(5000 :: 64 word) = regs m0 REG_EC"
    by (simp_all add: m0_def REG_CFP_def REG_EC_def)
  have iflag: "(0 :: 64 word) = memory m0 (5000 + of_int (offsetof_ec host0 EC_interrupt_flag))"
    and imask: "(0 :: 64 word) = memory m0 (5000 + of_int (offsetof_ec host0 EC_interrupt_mask))"
    by (simp_all add: m0_def host0_def offsetof_ec0_def)
  have retval: "(77 :: 64 word) = memory m0 (regs m0 REG_SP + of_int ((sp_offset ctx_one - 1) * SIZEOF_VALUE))"
    by (simp add: m0_def REG_SP_def ctx_one_def SIZEOF_VALUE_def)
  have mem1: "(memory m0)(5016 := 1064) =
              (memory m0)(5000 + of_int (offsetof_ec host0 EC_cfp) := 1000 + 64)"
    by (simp add: host0_def offsetof_ec0_def)
  have sp1: "(3000 :: 64 word) = ((memory m0)(5016 := 1064)) (1000 + 64 + 8)"
    by (simp add: m0_def)
  have mem2: "(memory m0)(5016 := 1064, 3000 := 77) = ((memory m0)(5016 := 1064))(3000 := 77)"
    by simp
  have t: "((memory m0)(5016 := 1064, 3000 := 77)) (1000 + 56) = 111"
    by (simp add: m0_def)
  show ?thesis
    using gen_leave_returns [OF st0_at_end [of iseq_dupn] cfp ecp iflag imask retval mem1 sp1 mem2,
            of "jit0 iseq_dupn"] sz t
    by auto
qed

text \<open>
On the machine \<open>m0\<close> the frame pointer is not decremented by the size of a frame but
  incremented, from 1000 to 1064, and the target of the jump is not the \<open>jit_return\<close> word
  of the caller's frame (222, at 1064 + 56) but that of the popped frame (111, at
  1000 + 56).
\<close>

theorem gen_leave_counterexample:
  "regs m0 REG_CFP = 1000
   \<and> final_reg leave_run0 REG_CFP = Some 1064
   \<and> final_reg leave_run0 REG_CFP \<noteq> Some (1000 - 64)
   \<and> jump_target leave_run0 = Some 111
   \<and> memory m0 (1000 + 56) = 111
   \<and> memory m0 (1064 + 56) = 222
   \<and> jump_target leave_run0 \<noteq> Some (memory m0 (1064 + 56))"
proof -
  obtain m1 where r: "leave_run0 = JumpInd 111 m1" and c: "regs m1 REG_CFP = 1064"
    using leave_run0_outcome by blast
  have m: "regs m0 REG_CFP = 1000" "memory m0 (1000 + 56) = 111" "memory m0 (1064 + 56) = 222"
    by (simp_all add: m0_def REG_CFP_def)
  show ?thesis
    unfolding r using c m by (simp add: final_reg_def)
qed

subsection \<open>The caps of the guard chains\<close>




subsection \<open>Addition of fixnums\<close>

text \<open>
Claim C4. The code of \<open>opt_plus\<close>, run on a machine whose two topmost stack entries are
  \<open>a\<close> and \<open>b\<close> and agree with the types of the context: when both are tagged fixnums and
  their sum is a fixnum, the run falls through and has written the tagged fixnum of the
  mathematical sum in the slot of \<open>a\<close>; in every other case (an operand that is not a fixnum,
  or a sum that overflows) the run jumps to the side exit and the memory is unchanged.
\<close>

theorem opt_plus_adds_fixnums:
  assumes cbe: "at_end (cb st)" and ocbe: "at_end (ocb st)"
    and nored: "\<not> bop_redefined h INTEGER_REDEFINED_OP_FLAG BOP_PLUS"
    and a: "a = memory m (regs m REG_SP + of_int ((sp_offset ctx - 2) * SIZEOF_VALUE))"
    and b: "b = memory m (regs m REG_SP + of_int ((sp_offset ctx - 1) * SIZEOF_VALUE))"
    and s0: "fixnum_sound (ctx_get_opnd_type ctx (OPND_STACK 1)) a"
    and s1: "fixnum_sound (ctx_get_opnd_type ctx (OPND_STACK 0)) b"
    and ok: "ok = (FIXNUM_P a \<and> FIXNUM_P b \<and> FIXABLE (FIX2LONG a + FIX2LONG b))"
  shows "\<exists>ctx1 st1 m1.
           gen_opt_plus h jit ctx st = Inr (YJIT_KEEP_COMPILING, jit, ctx1, st1)
         \<and> stack_size ctx1 = stack_size ctx - 1
         \<and> emitted OCB st st1 = exit_code h (pc jit) ctx
         \<and> exec (emitted CB st st1) m =
              (if ok then Fallthrough m1 else JumpTo (CodePtr OCB (write_pos (ocb st))) m1)
         \<and> regs m1 REG_SP = regs m REG_SP
         \<and> memory m1 =
              (if ok
               then (memory m)(regs m REG_SP + of_int ((sp_offset ctx - 2) * SIZEOF_VALUE)
                                 := LONG2FIX (FIX2LONG a + FIX2LONG b))
               else memory m)"
proof -
  let ?se = "CodePtr OCB (write_pos (ocb st))"
  let ?d0 = "(sp_offset ctx - 2) * SIZEOF_VALUE"
  let ?d1 = "(sp_offset ctx - 1) * SIZEOF_VALUE"
  let ?body = "[I_mov (reg_opnd REG0) (mem_opnd 64 REG_SP ?d0), I_sub (reg_opnd REG0) (imm_opnd 1),
               I_add (reg_opnd REG0) (mem_opnd 64 REG_SP ?d1), I_jo_ptr ?se,
               I_mov (mem_opnd 64 REG_SP ?d0) (reg_opnd REG0)]"
  let ?guard = "two_fixnums_code (ctx_get_opnd_type ctx (OPND_STACK 1)) (ctx_get_opnd_type ctx (OPND_STACK 0))
                (mem_opnd 64 REG_SP ?d0) (mem_opnd 64 REG_SP ?d1) ?se"
  obtain ctx1 st1 where gen: "gen_opt_plus h jit ctx st = Inr (YJIT_KEEP_COMPILING, jit, ctx1, st1)"
    and code: "emitted CB st st1 = ?guard @ ?body"
    and ocode: "emitted OCB st st1 = exit_code h (pc jit) ctx"
    and size: "stack_size ctx1 = stack_size ctx - 1"
    using opt_plus_code [OF cbe ocbe nored refl refl refl, of jit ctx] by blast
  obtain mg where mg: "memory mg = memory m" "regs mg = regs m"
    and eg: "exec (?guard @ ?body) m = (if FIXNUM_P a \<and> FIXNUM_P b then exec ?body mg else JumpTo ?se mg)"
    using exec_two_fixnums [OF a b s0 s1, of ?se ?body] by blast
  show ?thesis
  proof (cases "FIXNUM_P a \<and> FIXNUM_P b")
    case False
    have nok: "\<not> ok" using False ok by blast
    have "exec (emitted CB st st1) m = JumpTo ?se mg"
      by (simp only: code eg False if_False)
    then show ?thesis using gen ocode size mg nok by auto
  next
    case True
    then have fa: "FIXNUM_P a" and fb: "FIXNUM_P b" by simp_all
    have a': "a = memory mg (regs mg REG_SP + of_int ?d0)" using a mg by simp
    have b': "b = memory mg (regs mg REG_SP + of_int ?d1)" using b mg by simp
    obtain m1 where e1: "exec ?body mg =
               (if FIXABLE (FIX2LONG a + FIX2LONG b) then Fallthrough m1 else JumpTo ?se m1)"
      and r1: "regs m1 REG_SP = regs mg REG_SP"
      and mem1: "memory m1 = (if FIXABLE (FIX2LONG a + FIX2LONG b)
                          then (memory mg)(regs mg REG_SP + of_int ?d0 := LONG2FIX (FIX2LONG a + FIX2LONG b))
                          else memory mg)"
      using exec_add_body [OF a' b' fa fb, of ?se] by blast
    have okF: "ok = FIXABLE (FIX2LONG a + FIX2LONG b)" using ok fa fb by blast
    have "exec (emitted CB st st1) m = (if ok then Fallthrough m1 else JumpTo ?se m1)"
      by (simp only: code eg True if_True e1 okF simp_thms)
    then show ?thesis using gen ocode size r1 mem1 mg okF by auto
  qed
qed

text \<open>
The fixnums 3 and 4, tagged 7 and 9: the run falls through and leaves 15, the tagged 7.
\<close>

theorem opt_plus_adds_fixnums_witness:
  "FIXNUM_P 7 \<and> FIXNUM_P 9 \<and> FIX2LONG 7 = 3 \<and> FIX2LONG 9 = 4 \<and> LONG2FIX 7 = 15
   \<and> (\<exists>ctx1 st1 m1.
         gen_opt_plus host0 (jit0 iseq_dupn) ctx_two (st0 iseq_dupn)
           = Inr (YJIT_KEEP_COMPILING, jit0 iseq_dupn, ctx1, st1)
       \<and> stack_size ctx1 = 1
       \<and> exec (emitted CB (st0 iseq_dupn) st1) m_add = Fallthrough m1
       \<and> memory m1 2000 = 15)"
proof -
  have nored: "\<not> bop_redefined host0 INTEGER_REDEFINED_OP_FLAG BOP_PLUS"
    by (simp add: host0_def)
  have a: "(7 :: VALUE) = memory m_add (regs m_add REG_SP + of_int ((sp_offset ctx_two - 2) * SIZEOF_VALUE))"
    and b: "(9 :: VALUE) = memory m_add (regs m_add REG_SP + of_int ((sp_offset ctx_two - 1) * SIZEOF_VALUE))"
    by (simp_all add: m_add_def REG_SP_def ctx_two_def SIZEOF_VALUE_def)
  have fx: "FIXNUM_P 7" "FIXNUM_P 9"
    by (simp_all add: FIXNUM_P_def RUBY_FIXNUM_FLAG_def)
  have t: "ctx_get_opnd_type ctx_two (OPND_STACK 1) = TYPE_UNKNOWN"
    "ctx_get_opnd_type ctx_two (OPND_STACK 0) = TYPE_UNKNOWN"
    by (simp_all add: ctx_get_opnd_type_def ctx_two_def DEFAULT_CTX_def Let_def MAX_TEMP_TYPES_def
          tracked_def)
  have s0: "fixnum_sound (ctx_get_opnd_type ctx_two (OPND_STACK 1)) 7"
    and s1: "fixnum_sound (ctx_get_opnd_type ctx_two (OPND_STACK 0)) 9"
    using fx by (simp_all add: fixnum_sound_def t TYPE_UNKNOWN_def)
  have v: "FIX2LONG 7 = 3" "FIX2LONG 9 = 4" "LONG2FIX 7 = 15"
    by (simp_all add: FIX2LONG_def LONG2FIX_def)
  have ok: "True = (FIXNUM_P 7 \<and> FIXNUM_P 9 \<and> FIXABLE (FIX2LONG 7 + FIX2LONG 9))"
    using fx v by (simp add: FIXABLE_def)
  have d: "regs m_add REG_SP + of_int ((sp_offset ctx_two - 2) * SIZEOF_VALUE) = 2000"
    by (simp add: m_add_def REG_SP_def ctx_two_def)
  have sz: "stack_size ctx_two = 2"
    by (simp add: ctx_two_def)
  show ?thesis
    using opt_plus_adds_fixnums [OF st0_at_end [of iseq_dupn] nored a b s0 s1 ok, of "jit0 iseq_dupn"]
      fx v d sz
    by auto
qed

subsection \<open>The exit of an instruction that cannot be compiled\<close>

text \<open>
Claim C5. When the code generator of the instruction at hand returns
  \<open>YJIT_CANT_COMPILE\<close>, the loop of \<open>yjit_gen_block\<close> ends at this instruction, after writing
  into the inline arena an exit to the interpreter whose PC is that of this instruction, not
  of the next one.
\<close>

theorem cant_compile_exits_at_failing_pc:
  assumes nocut: "\<not> (yjit_opcode_at_pc h (iseq (ls_jit ls)) (unat (ls_insn_idx ls)) = BIN_opt_getinlinecache
                    \<and> starting_insn_idx < ls_insn_idx ls)"
    and enter: "loop_enter_insn h ls = (jit2, st1)"
    and verify: "\<not> (RUBY_DEBUG h \<and> jit_at_current_insn jit2 \<and> \<not> verify_ctx_ok h (pc jit2) (ls_ctx ls))"
    and fn: "fns (yjit_opcode_at_pc h (iseq (ls_jit ls)) (unat (ls_insn_idx ls))) = Some gen_fn"
    and cant: "gen_fn jit2 (ls_ctx ls) (GEN_COUNTER_INC h CB ''exec_instruction'' st1)
                 = Inr (YJIT_CANT_COMPILE, jit3, ctx3, st3)"
    and keeps_pc: "pc jit3 = pc jit2"
    and at_end: "at_end (cb st3)"
  shows "\<exists>st4. gen_block_loop h fns starting_insn_idx ls =
                 Some (Inr \<lparr>ls_insn_idx = ls_insn_idx ls, ls_jit = jit3,
                            ls_ctx = ctx3\<lparr>chain_depth := 0\<rparr>, ls_st = st4\<rparr>)
           \<and> emitted CB st3 st4 = exit_code h (unat (ls_insn_idx ls)) (ctx3\<lparr>chain_depth := 0\<rparr>)
           \<and> ocb st4 = ocb st3"
proof -
  have pc2: "pc jit2 = unat (ls_insn_idx ls)"
    using loop_enter_insn_pc [of h ls] enter by simp
  let ?st4 = "snd (yjit_gen_exit h (pc jit3) (ctx3\<lparr>chain_depth := 0\<rparr>) CB st3)"
  have step: "gen_block_step h fns starting_insn_idx ls =
           Inr (True, \<lparr>ls_insn_idx = ls_insn_idx ls, ls_jit = jit3, ls_ctx = ctx3\<lparr>chain_depth := 0\<rparr>,
                      ls_st = ?st4\<rparr>)"
    using nocut enter verify fn cant by (rule gen_block_step_cant_compile)
  have code: "emitted CB st3 ?st4 = exit_code h (unat (ls_insn_idx ls)) (ctx3\<lparr>chain_depth := 0\<rparr>)"
    using yjit_gen_exit_CB(2) [OF at_end] keeps_pc pc2 by (simp add: emitted_def get_cb_def)
  show ?thesis
    using gen_block_loop_break [OF step] code yjit_gen_exit_CB(4) [OF at_end] by blast
qed

text \<open>
The bytecode \<open>dupn 3\<close>, which \<open>gen_dupn\<close> cannot compile: the loop ends at index 0 with
  the exit to PC 0.
\<close>

theorem cant_compile_exits_at_failing_pc_witness:
  "gen_fns host0 Map.empty BIN_dupn = Some (gen_dupn host0)
   \<and> gen_dupn host0 ((jit0 iseq_dupn)\<lparr>insn_idx := 0, pc := 0, opcode := BIN_dupn\<rparr>) DEFAULT_CTX
         (st0 iseq_dupn)
       = Inr (YJIT_CANT_COMPILE, (jit0 iseq_dupn)\<lparr>insn_idx := 0, pc := 0, opcode := BIN_dupn\<rparr>,
              DEFAULT_CTX, st0 iseq_dupn)
   \<and> (\<exists>st4. gen_block_loop host0 (gen_fns host0 Map.empty) 0 (ls0 iseq_dupn) =
                 Some (Inr \<lparr>ls_insn_idx = 0,
                            ls_jit = (jit0 iseq_dupn)\<lparr>insn_idx := 0, pc := 0, opcode := BIN_dupn\<rparr>,
                            ls_ctx = DEFAULT_CTX\<lparr>chain_depth := 0\<rparr>, ls_st = st4\<rparr>)
           \<and> emitted CB (st0 iseq_dupn) st4 = exit_code host0 0 (DEFAULT_CTX\<lparr>chain_depth := 0\<rparr>))"
proof -
  let ?jit = "(jit0 iseq_dupn)\<lparr>insn_idx := 0, pc := 0, opcode := BIN_dupn\<rparr>"
  have op: "yjit_opcode_at_pc host0 (iseq (ls_jit (ls0 iseq_dupn))) (unat (ls_insn_idx (ls0 iseq_dupn)))
              = BIN_dupn"
    by (simp add: sample_defs)
  have nocut: "\<not> (yjit_opcode_at_pc host0 (iseq (ls_jit (ls0 iseq_dupn)))
                      (unat (ls_insn_idx (ls0 iseq_dupn))) = BIN_opt_getinlinecache
                    \<and> 0 < ls_insn_idx (ls0 iseq_dupn))"
    using op by simp
  have enter: "loop_enter_insn host0 (ls0 iseq_dupn) = (?jit, st0 iseq_dupn)"
    by (simp add: loop_enter_insn_def Let_def sample_defs)
  have verify: "\<not> (RUBY_DEBUG host0 \<and> jit_at_current_insn ?jit
                    \<and> \<not> verify_ctx_ok host0 (pc ?jit) (ls_ctx (ls0 iseq_dupn)))"
    by (simp add: host0_def)
  have fn: "gen_fns host0 Map.empty
              (yjit_opcode_at_pc host0 (iseq (ls_jit (ls0 iseq_dupn))) (unat (ls_insn_idx (ls0 iseq_dupn))))
            = Some (gen_dupn host0)"
    using op by (simp add: gen_fns_def)
  have cnt: "GEN_COUNTER_INC host0 CB ''exec_instruction'' (st0 iseq_dupn) = st0 iseq_dupn"
    by (simp add: GEN_COUNTER_INC_def YJIT_STATS_def host0_def)
  have cant0: "gen_dupn host0 ?jit DEFAULT_CTX (st0 iseq_dupn)
                 = Inr (YJIT_CANT_COMPILE, ?jit, DEFAULT_CTX, st0 iseq_dupn)"
    by (simp add: gen_dupn_def bind_res_def jit_get_arg_def jit0_def iseq_dupn_def host0_def)
  have cant: "gen_dupn host0 ?jit (ls_ctx (ls0 iseq_dupn))
                (GEN_COUNTER_INC host0 CB ''exec_instruction'' (st0 iseq_dupn))
              = Inr (YJIT_CANT_COMPILE, ?jit, DEFAULT_CTX, st0 iseq_dupn)"
    using cant0 cnt by (simp add: ls0_def)
  have e: "at_end (cb (st0 iseq_dupn))"
    by (simp add: at_end_def st0_def empty_cb_def)
  show ?thesis
    using cant_compile_exits_at_failing_pc
      [where h = host0 and fns = "gen_fns host0 Map.empty" and gen_fn = "gen_dupn host0"
         and ls = "ls0 iseq_dupn" and starting_insn_idx = 0 and ?jit2.0 = ?jit and ?jit3.0 = ?jit
         and ?st1.0 = "st0 iseq_dupn" and ?st3.0 = "st0 iseq_dupn" and ?ctx3.0 = DEFAULT_CTX,
       OF nocut enter verify fn cant refl e]
      cant0
    by (auto simp add: gen_fns_def ls0_def)
qed

subsection \<open>Visibility of the callee\<close>

text \<open>
Claim C6. Once \<open>gen_send_general\<close> has found the method entry: a public method goes on
  to the dispatch on the method type; a private method goes on when the call site has the
  flag \<open>VM_CALL_FCALL\<close> and cannot be compiled otherwise; a protected method goes on after
  code that calls \<open>rb_obj_is_kind_of\<close> on self and the defining class of the method and
  jumps to the side exit (through its counter when statistics are generated) when the
  answer is false.
\<close>

theorem send_visibility:
  assumes simple: "vm_ci_flag ci \<inter> {VM_CALL_KW_SPLAT, VM_CALL_KWARG, VM_CALL_ARGS_SPLAT,
                                       VM_CALL_ARGS_BLOCKARG} = {}"
    and cur: "jit_at_current_insn jit"
    and recv: "comptime_recv = jit_peek_at_stack env (vm_ci_argc ci)"
    and klass: "klass = CLASS_OF env comptime_recv"
    and exit: "yjit_side_exit h jit ctx st = (side_exit, st1)"
    and guard: "jit_guard_known_klass h env jit ctx klass (OPND_STACK (vm_ci_argc ci)) comptime_recv
                  SEND_MAX_DEPTH side_exit
                  (emit CB (I_mov (reg_opnd REG0) (ctx_stack_opnd ctx (vm_ci_argc ci))) st1)
                = Inr (True, ctx1, st3)"
    and lookup: "rb_callable_method_entry env klass (vm_ci_mid ci) = Some cme"
    and cid: "cme_called_id cme = vm_ci_mid ci"
    and ends: "at_end (cb st3)" "at_end (ocb st3)"
    and disp: "dispatch = (\<lambda>s. send_dispatch h env ci block (vm_ci_argc ci)
                 (ctx_stack_opnd ctx (vm_ci_argc ci)) (OPND_STACK (vm_ci_argc ci)) comptime_recv
                 side_exit cme jit ctx1 (assume_method_lookup_stable klass cme s))"
  shows "(METHOD_ENTRY_VISI cme = METHOD_VISI_PUBLIC \<longrightarrow>
            gen_send_general h env ci block jit ctx st = dispatch st3)
       \<and> (METHOD_ENTRY_VISI cme = METHOD_VISI_PRIVATE \<and> VM_CALL_FCALL \<in> vm_ci_flag ci \<longrightarrow>
            gen_send_general h env ci block jit ctx st = dispatch st3)
       \<and> (METHOD_ENTRY_VISI cme = METHOD_VISI_PRIVATE \<and> VM_CALL_FCALL \<notin> vm_ci_flag ci \<longrightarrow>
            gen_send_general h env ci block jit ctx st = Inr (YJIT_CANT_COMPILE, jit, ctx1, st3))
       \<and> (METHOD_ENTRY_VISI cme = METHOD_VISI_PROTECTED \<longrightarrow>
            (\<exists>st4 target.
               gen_send_general h env ci block jit ctx st = dispatch st4
             \<and> emitted CB st3 st4 =
                 [I_mov (reg_opnd RDI) (cfp_member_opnd CFP_self),
                  I_mov (reg_opnd RSI) (const_ptr_opnd (PtrObject (cme_defined_class cme))),
                  I_call_ptr REG0 ''rb_obj_is_kind_of'',
                  I_test (reg_opnd RAX) (reg_opnd RAX),
                  I_jz_ptr target]
             \<and> (if YJIT_STATS h \<and> gen_stats h
                 then target = CodePtr OCB (write_pos (ocb st3))
                    \<and> emitted OCB st3 st4 =
                        [I_mov (reg_opnd REG1)
                           (const_ptr_opnd (PtrCounter ''send_se_protected_check_failed'')),
                         I_lock_prefix, I_add (mem_opnd 64 REG1 0) (imm_opnd 1),
                         I_jmp_ptr side_exit]
                 else target = side_exit \<and> ocb st4 = ocb st3)))"
proof -
  note reach = gen_send_general_reaches_cme [OF simple cur recv klass exit guard lookup, of block]
  show ?thesis
  proof (intro conjI impI)
    assume "METHOD_ENTRY_VISI cme = METHOD_VISI_PUBLIC"
    then show "gen_send_general h env ci block jit ctx st = dispatch st3"
      using reach cid disp by (simp add: send_with_cme_def Let_def RUBY_ASSERT_def)
  next
    assume "METHOD_ENTRY_VISI cme = METHOD_VISI_PRIVATE \<and> VM_CALL_FCALL \<in> vm_ci_flag ci"
    then show "gen_send_general h env ci block jit ctx st = dispatch st3"
      using reach cid disp by (simp add: send_with_cme_def Let_def RUBY_ASSERT_def)
  next
    assume "METHOD_ENTRY_VISI cme = METHOD_VISI_PRIVATE \<and> VM_CALL_FCALL \<notin> vm_ci_flag ci"
    then show "gen_send_general h env ci block jit ctx st = Inr (YJIT_CANT_COMPILE, jit, ctx1, st3)"
      using reach by (simp add: send_with_cme_def Let_def)
  next
    assume p: "METHOD_ENTRY_VISI cme = METHOD_VISI_PROTECTED"
    have "gen_send_general h env ci block jit ctx st
            = dispatch (jit_protected_callee_ancestry_guard h CB cme side_exit st3)"
      using p reach cid disp by (simp add: send_with_cme_def Let_def RUBY_ASSERT_def)
    then show "\<exists>st4 target.
               gen_send_general h env ci block jit ctx st = dispatch st4
             \<and> emitted CB st3 st4 =
                 [I_mov (reg_opnd RDI) (cfp_member_opnd CFP_self),
                  I_mov (reg_opnd RSI) (const_ptr_opnd (PtrObject (cme_defined_class cme))),
                  I_call_ptr REG0 ''rb_obj_is_kind_of'',
                  I_test (reg_opnd RAX) (reg_opnd RAX),
                  I_jz_ptr target]
             \<and> (if YJIT_STATS h \<and> gen_stats h
                 then target = CodePtr OCB (write_pos (ocb st3))
                    \<and> emitted OCB st3 st4 =
                        [I_mov (reg_opnd REG1)
                           (const_ptr_opnd (PtrCounter ''send_se_protected_check_failed'')),
                         I_lock_prefix, I_add (mem_opnd 64 REG1 0) (imm_opnd 1),
                         I_jmp_ptr side_exit]
                 else target = side_exit \<and> ocb st4 = ocb st3)"
      using protected_guard_code [OF ends, of h cme side_exit] by blast
  qed
qed

text \<open>
A private method called on \<open>nil\<close> without \<open>VM_CALL_FCALL\<close> cannot be compiled.
\<close>

theorem send_visibility_witness:
  "METHOD_ENTRY_VISI cme_private = METHOD_VISI_PRIVATE
   \<and> VM_CALL_FCALL \<notin> vm_ci_flag ci0
   \<and> result_status (gen_send_general host0 (env0 cme_private) ci0 None (jit_cur iseq_dupn) ctx_nil
                      (st0 iseq_dupn)) = Some YJIT_CANT_COMPILE"
proof -
  let ?x = "yjit_side_exit host0 (jit_cur iseq_dupn) ctx_nil (st0 iseq_dupn)"
  let ?st2 = "emit CB (I_mov (reg_opnd REG0) (ctx_stack_opnd ctx_nil (vm_ci_argc ci0))) (snd ?x)"
  have simple: "vm_ci_flag ci0 \<inter> {VM_CALL_KW_SPLAT, VM_CALL_KWARG, VM_CALL_ARGS_SPLAT,
                                       VM_CALL_ARGS_BLOCKARG} = {}"
    by (simp add: ci0_def)
  have cur: "jit_at_current_insn (jit_cur iseq_dupn)"
    by (simp add: jit_at_current_insn_def jit_cur_def jit0_def)
  have recv: "Qnil = jit_peek_at_stack (env0 cme_private) (vm_ci_argc ci0)"
    by (simp add: env0_def)
  have klass: "(100 :: VALUE) = CLASS_OF (env0 cme_private) Qnil"
    by (simp add: env0_def)
  have exit: "yjit_side_exit host0 (jit_cur iseq_dupn) ctx_nil (st0 iseq_dupn) = (fst ?x, snd ?x)"
    by simp
  have ty: "ctx_get_opnd_type ctx_nil (OPND_STACK (vm_ci_argc ci0)) = TYPE_NIL"
    by (simp add: ctx_get_opnd_type_def ctx_nil_def ctx_one_def DEFAULT_CTX_def TYPE_NIL_def
          Let_def MAX_TEMP_TYPES_def tracked_def ci0_def)
  have nil_class: "rb_cNilClass (env0 cme_private) = 100"
    by (simp add: env0_def)
  have guard: "jit_guard_known_klass host0 (env0 cme_private) (jit_cur iseq_dupn) ctx_nil 100
                  (OPND_STACK (vm_ci_argc ci0)) Qnil SEND_MAX_DEPTH (fst ?x) ?st2
                = Inr (True, ctx_nil, ?st2)"
    using nil_class
    by (simp add: jit_guard_known_klass_def guard_immediate_def RUBY_ASSERT_def ty TYPE_NIL_def)
  have lookup: "rb_callable_method_entry (env0 cme_private) 100 (vm_ci_mid ci0) = Some cme_private"
    by (simp add: env0_def ci0_def)
  have cid: "cme_called_id cme_private = vm_ci_mid ci0"
    by (simp add: cme_private_def ci0_def)
  have ends: "at_end (cb ?st2)" "at_end (ocb ?st2)"
    using yjit_gen_exit_OCB [OF st0_at_end(2) [of iseq_dupn], of host0 "pc (jit_cur iseq_dupn)" ctx_nil]
      st0_at_end(1) [of iseq_dupn]
    by (simp_all add: yjit_side_exit_def split_def)
  have visi: "METHOD_ENTRY_VISI cme_private = METHOD_VISI_PRIVATE" "VM_CALL_FCALL \<notin> vm_ci_flag ci0"
    by (simp_all add: cme_private_def ci0_def)
  show ?thesis
    using send_visibility [OF simple cur recv klass exit guard lookup cid ends refl, of None,
            THEN conjunct2, THEN conjunct2, THEN conjunct1] visi
    by (simp add: result_status_def)
qed

subsection \<open>The frozen prefix of the inline arena\<close>

text \<open>
Claim C7. In a state where the frozen prefix is within the written part of the inline
  arena, the invalidation for tracing, the only operation that sets
  \<open>yjit_codepage_frozen_bytes\<close>, does not decrease it and leaves it within the written
  part; emitting an instruction leaves it unchanged and within the written part.
\<close>

theorem frozen_bytes_monotone:
  assumes inv: "arena_inv st"
  shows "(yjit_tracing_invalidate_all h st = Inr st1 \<longrightarrow>
            yjit_codepage_frozen_bytes st \<le> yjit_codepage_frozen_bytes st1 \<and> arena_inv st1)
       \<and> yjit_codepage_frozen_bytes (emit sel i st) = yjit_codepage_frozen_bytes st
       \<and> arena_inv (emit sel i st)"
proof (intro conjI impI)
  assume r: "yjit_tracing_invalidate_all h st = Inr st1"
  show "yjit_codepage_frozen_bytes st \<le> yjit_codepage_frozen_bytes st1"
    using r inv
    by (auto simp add: yjit_tracing_invalidate_all_def Let_def arena_inv_def cb_set_pos_def
             split: if_splits)
  show "arena_inv st1"
    using r inv
    by (auto simp add: yjit_tracing_invalidate_all_def Let_def arena_inv_def cb_set_pos_def
             split: if_splits)
next
  show "yjit_codepage_frozen_bytes (emit sel i st) = yjit_codepage_frozen_bytes st"
    by simp
  show "arena_inv (emit sel i st)"
    using inv emit_write_pos_cb [of st sel i] by (simp add: arena_inv_def)
qed

text \<open>
Invalidating a state with three instructions and one patch point freezes all three.
\<close>

theorem frozen_bytes_monotone_witness:
  "arena_inv st_patch
   \<and> yjit_tracing_invalidate_all host0 st_patch = Inr st_patched
   \<and> yjit_codepage_frozen_bytes st_patch = 0
   \<and> yjit_codepage_frozen_bytes st_patched = 3
   \<and> yjit_codepage_frozen_bytes st_patch \<le> yjit_codepage_frozen_bytes st_patched
   \<and> arena_inv st_patched"
proof -
  have inv: "arena_inv st_patch"
    by (simp add: arena_inv_def st_patch_def st0_def empty_cb_def)
  have run: "yjit_tracing_invalidate_all host0 st_patch = Inr st_patched"
    by (simp add: yjit_tracing_invalidate_all_def Let_def apply_patch_def cb_set_pos_def
          cb_get_ptr_def emit_def get_cb_def put_cb_def cb_write_def
          st_patched_def st_patch_def st0_def empty_cb_def host0_def)
  have f: "yjit_codepage_frozen_bytes st_patch = 0" "yjit_codepage_frozen_bytes st_patched = 3"
    by (simp_all add: st_patched_def st_patch_def st0_def)
  show ?thesis
    using frozen_bytes_monotone [OF inv, of host0 st_patched] inv run f
    by simp
qed

subsection \<open>Inline caches start a block\<close>

text \<open>
Claim C8. An \<open>opt_getinlinecache\<close> that is not the first instruction of the block is not
  compiled into it: the loop ends before it, with a jump to a block that starts at the
  instruction.
\<close>

theorem getinlinecache_cuts_block:
  assumes prev: "gen_block_step h fns starting_insn_idx lsp = Inr (False, ls)"
    and kept: "insn_idx (ls_jit ls) = ls_insn_idx lsp"
              "opcode (ls_jit ls) = yjit_opcode_at_pc h (iseq (ls_jit lsp)) (unat (ls_insn_idx lsp))"
    and op: "yjit_opcode_at_pc h (iseq (ls_jit ls)) (unat (ls_insn_idx ls)) = BIN_opt_getinlinecache"
    and later: "starting_insn_idx < ls_insn_idx ls"
    and at_end: "at_end (cb (ls_st ls))"
  shows "\<exists>jit1 st1.
           gen_block_loop h fns starting_insn_idx ls = Some (Inr (ls\<lparr>ls_jit := jit1, ls_st := st1\<rparr>))
         \<and> (jit1, st1) = jit_jump_to_next_insn h (ls_jit ls) (ls_ctx ls) (ls_st ls)
         \<and> emitted CB (ls_st ls) st1 =
             [I_direct_jump ((ls_ctx ls)\<lparr>chain_depth := 0\<rparr>)
                \<lparr>bid_iseq = iseq (ls_jit ls), bid_idx = ls_insn_idx ls\<rparr>]"
proof -
  have next_idx: "jit_next_insn_idx h (ls_jit ls) = ls_insn_idx ls"
    using gen_block_step_continue_idx [OF prev] kept
    by (simp add: jit_next_insn_idx_def jit_get_opcode_def)
  obtain jit1 st1 where j: "jit_jump_to_next_insn h (ls_jit ls) (ls_ctx ls) (ls_st ls) = (jit1, st1)"
    by (cases "jit_jump_to_next_insn h (ls_jit ls) (ls_ctx ls) (ls_st ls)")
  have step: "gen_block_step h fns starting_insn_idx ls = Inr (True, ls\<lparr>ls_jit := jit1, ls_st := st1\<rparr>)"
    using op later j by (simp add: gen_block_step_def Let_def)
  have code: "emitted CB (ls_st ls) st1 =
             [I_direct_jump ((ls_ctx ls)\<lparr>chain_depth := 0\<rparr>)
                \<lparr>bid_iseq = iseq (ls_jit ls), bid_idx = ls_insn_idx ls\<rparr>]"
    using jit_jump_to_next_insn_code [OF at_end, of h "ls_jit ls" "ls_ctx ls"] j next_idx by simp
  show ?thesis
    using gen_block_loop_break [OF step] j code by auto
qed

text \<open>
The bytecode \<open>nop; opt_getinlinecache\<close>: after the \<open>nop\<close> the loop ends with a jump to
  the block at index 1.
\<close>

theorem getinlinecache_cuts_block_witness:
  "gen_block_step host0 (gen_fns host0 Map.empty) 0 (ls0 iseq_cache) =
     Inr (False, \<lparr>ls_insn_idx = 1,
                  ls_jit = (jit0 iseq_cache)\<lparr>insn_idx := 0, pc := 0, opcode := BIN_nop\<rparr>,
                  ls_ctx = DEFAULT_CTX\<lparr>chain_depth := 0\<rparr>, ls_st = st0 iseq_cache\<rparr>)
   \<and> yjit_opcode_at_pc host0 iseq_cache 1 = BIN_opt_getinlinecache
   \<and> (\<exists>jit1 st1.
         gen_block_loop host0 (gen_fns host0 Map.empty) 0
           \<lparr>ls_insn_idx = 1,
            ls_jit = (jit0 iseq_cache)\<lparr>insn_idx := 0, pc := 0, opcode := BIN_nop\<rparr>,
            ls_ctx = DEFAULT_CTX\<lparr>chain_depth := 0\<rparr>, ls_st = st0 iseq_cache\<rparr>
         = Some (Inr \<lparr>ls_insn_idx = 1, ls_jit = jit1,
                      ls_ctx = DEFAULT_CTX\<lparr>chain_depth := 0\<rparr>, ls_st = st1\<rparr>)
       \<and> emitted CB (st0 iseq_cache) st1 =
           [I_direct_jump (DEFAULT_CTX\<lparr>chain_depth := 0\<rparr>) \<lparr>bid_iseq = iseq_cache, bid_idx = 1\<rparr>])"
proof -
  let ?ls = "\<lparr>ls_insn_idx = 1,
                  ls_jit = (jit0 iseq_cache)\<lparr>insn_idx := 0, pc := 0, opcode := BIN_nop\<rparr>,
                  ls_ctx = DEFAULT_CTX\<lparr>chain_depth := 0\<rparr>, ls_st = st0 iseq_cache\<rparr>"
  have prev: "gen_block_step host0 (gen_fns host0 Map.empty) 0 (ls0 iseq_cache) = Inr (False, ?ls)"
    by (simp add: gen_block_step_def loop_enter_insn_def Let_def gen_fns_def gen_nop_def bind_res_def
          GEN_COUNTER_INC_def YJIT_STATS_def sample_defs)
  have k1: "insn_idx (ls_jit ?ls) = ls_insn_idx (ls0 iseq_cache)"
    by (simp add: ls0_def)
  have k2: "opcode (ls_jit ?ls) = yjit_opcode_at_pc host0 (iseq (ls_jit (ls0 iseq_cache)))
                                     (unat (ls_insn_idx (ls0 iseq_cache)))"
    by (simp add: sample_defs)
  have op: "yjit_opcode_at_pc host0 (iseq (ls_jit ?ls)) (unat (ls_insn_idx ?ls)) = BIN_opt_getinlinecache"
    by (simp add: sample_defs)
  have later: "(0 :: 32 word) < ls_insn_idx ?ls"
    by simp
  have e: "at_end (cb (ls_st ?ls))"
    by (simp add: at_end_def st0_def empty_cb_def)
  have op1: "yjit_opcode_at_pc host0 iseq_cache 1 = BIN_opt_getinlinecache"
    by (simp add: sample_defs)
  show ?thesis
    using getinlinecache_cuts_block [OF prev k1 k2 op later e] prev op1
    by (auto simp add: jit0_def)
qed

subsection \<open>Type checks known at compile time\<close>

text \<open>
Claim C9. \<open>gen_checktype\<close> compiles the types \<open>T_STRING\<close>, \<open>T_ARRAY\<close> and \<open>T_HASH\<close> only.
  For these, when the context knows the operand to be of the asked type the code is the
  store of \<open>Qtrue\<close>; when it knows the operand to be an immediate or of another type, the
  store of \<open>Qfalse\<close>; otherwise the code tests the value at run time.
\<close>

theorem gen_checktype_folds:
  assumes arg: "jit_get_arg h jit 0 = Inr arg"
    and tv: "tv = (ucast arg :: 32 word)"
    and ty: "t = ctx_get_opnd_type ctx (OPND_STACK 0)"
    and known: "known = ((tv = T_STRING \<and> vtype t = ETYPE_STRING) \<or>
                         (tv = T_ARRAY \<and> vtype t = ETYPE_ARRAY) \<or>
                         (tv = T_HASH \<and> vtype t = ETYPE_HASH))"
    and dst: "dst = mem_opnd 64 REG_SP ((sp_offset ctx - 1) * SIZEOF_VALUE)"
    and cbe: "at_end (cb st)"
    and norefs: "label_refs (cb st) = []" "label_addrs (cb st) = []"
  shows "(tv \<noteq> T_STRING \<and> tv \<noteq> T_ARRAY \<and> tv \<noteq> T_HASH \<longrightarrow>
            gen_checktype h jit ctx st = Inr (YJIT_CANT_COMPILE, jit, ctx, st))
       \<and> ((tv = T_STRING \<or> tv = T_ARRAY \<or> tv = T_HASH) \<longrightarrow>
            (\<exists>ctx1 st1. gen_checktype h jit ctx st = Inr (YJIT_KEEP_COMPILING, jit, ctx1, st1)
               \<and> stack_size ctx1 = stack_size ctx
               \<and> emitted CB st st1 =
                   (if known then [I_mov dst (imm_opnd Qtrue)]
                    else if is_imm t \<or> vtype t \<noteq> ETYPE_UNKNOWN then [I_mov dst (imm_opnd Qfalse)]
                    else [I_mov (reg_opnd REG0) dst, I_mov (reg_opnd REG1) (imm_opnd Qfalse)] @
                         (if \<not> is_heap t
                          then [I_test (reg_opnd REG0) (imm_opnd RUBY_IMMEDIATE_MASK),
                                I_jnz_ptr (CodePtr CB (length (insns (cb st)) + 11)),
                                I_cmp (reg_opnd REG0) (imm_opnd Qnil),
                                I_jbe_ptr (CodePtr CB (length (insns (cb st)) + 11))]
                          else []) @
                         [I_mov (reg_opnd REG0) (mem_opnd 64 REG0 offsetof_RBasic_flags),
                          I_and (reg_opnd REG0) (imm_opnd RUBY_T_MASK),
                          I_cmp (reg_opnd REG0) (imm_opnd (ucast tv)),
                          I_mov (reg_opnd REG0) (imm_opnd Qtrue),
                          I_cmov CC_E (reg_opnd REG1) (reg_opnd REG0),
                          I_mov dst (reg_opnd REG1)])))"
proof (intro conjI impI)
  assume "tv \<noteq> T_STRING \<and> tv \<noteq> T_ARRAY \<and> tv \<noteq> T_HASH"
  then show "gen_checktype h jit ctx st = Inr (YJIT_CANT_COMPILE, jit, ctx, st)"
    using arg tv by (simp add: gen_checktype_def bind_res_def Let_def)
next
  assume three: "tv = T_STRING \<or> tv = T_ARRAY \<or> tv = T_HASH"
  then have three': "ucast arg = T_STRING \<or> ucast arg = T_ARRAY \<or> (ucast arg :: 32 word) = T_HASH"
    using tv by simp
  have pop: "fst (ctx_stack_pop ctx 1) = dst"
    using dst by (simp add: ctx_stack_pop_1)
  have push: "fst (ctx_stack_push (snd (ctx_stack_pop ctx 1)) ty0) = dst" for ty0
    using dst by (simp add: ctx_stack_pop_1 ctx_stack_push_opnd)
  have size: "stack_size (snd (ctx_stack_push (snd (ctx_stack_pop ctx 1)) ty0)) = stack_size ctx" for ty0
    by (simp add: ctx_stack_pop_1 ctx_stack_push_opnd)
  have T: "ctx_get_opnd_type ctx (OPND_STACK 0) = t"
    using ty by simp
  have K: "((ucast arg = T_STRING \<and> vtype t = ETYPE_STRING) \<or>
            (ucast arg = T_ARRAY \<and> vtype t = ETYPE_ARRAY) \<or>
            ((ucast arg :: 32 word) = T_HASH \<and> vtype t = ETYPE_HASH)) = known"
    using known tv by simp
  note body = gen_checktype_supported [OF arg three', where ctx=ctx and st=st,
                unfolded Let_def, unfolded T, unfolded K, unfolded pop push]
  let ?code = "\<lambda>st1. emitted CB st st1"
  show "\<exists>ctx1 st1. gen_checktype h jit ctx st = Inr (YJIT_KEEP_COMPILING, jit, ctx1, st1)
               \<and> stack_size ctx1 = stack_size ctx
               \<and> emitted CB st st1 =
                   (if known then [I_mov dst (imm_opnd Qtrue)]
                    else if is_imm t \<or> vtype t \<noteq> ETYPE_UNKNOWN then [I_mov dst (imm_opnd Qfalse)]
                    else [I_mov (reg_opnd REG0) dst, I_mov (reg_opnd REG1) (imm_opnd Qfalse)] @
                         (if \<not> is_heap t
                          then [I_test (reg_opnd REG0) (imm_opnd RUBY_IMMEDIATE_MASK),
                                I_jnz_ptr (CodePtr CB (length (insns (cb st)) + 11)),
                                I_cmp (reg_opnd REG0) (imm_opnd Qnil),
                                I_jbe_ptr (CodePtr CB (length (insns (cb st)) + 11))]
                          else []) @
                         [I_mov (reg_opnd REG0) (mem_opnd 64 REG0 offsetof_RBasic_flags),
                          I_and (reg_opnd REG0) (imm_opnd RUBY_T_MASK),
                          I_cmp (reg_opnd REG0) (imm_opnd (ucast tv)),
                          I_mov (reg_opnd REG0) (imm_opnd Qtrue),
                          I_cmov CC_E (reg_opnd REG1) (reg_opnd REG0),
                          I_mov dst (reg_opnd REG1)])"
  proof (cases known)
    case True
    have "gen_checktype h jit ctx st =
            Inr (YJIT_KEEP_COMPILING, jit, snd (ctx_stack_push (snd (ctx_stack_pop ctx 1)) TYPE_TRUE),
                 emit CB (I_mov dst (imm_opnd Qtrue)) st)"
      using body True by (simp del: One_nat_def)
    moreover have "emitted CB st (emit CB (I_mov dst (imm_opnd Qtrue)) st) = [I_mov dst (imm_opnd Qtrue)]"
      using cbe by (simp add: emitted_def get_cb_def)
    ultimately show ?thesis using True size by (simp del: One_nat_def)
  next
    case False
    note nk = False
    show ?thesis
    proof (cases "is_imm t \<or> vtype t \<noteq> ETYPE_UNKNOWN")
      case True
      have "gen_checktype h jit ctx st =
            Inr (YJIT_KEEP_COMPILING, jit, snd (ctx_stack_push (snd (ctx_stack_pop ctx 1)) TYPE_FALSE),
                 emit CB (I_mov dst (imm_opnd Qfalse)) st)"
        using body nk True by (simp del: One_nat_def)
      moreover have "emitted CB st (emit CB (I_mov dst (imm_opnd Qfalse)) st) = [I_mov dst (imm_opnd Qfalse)]"
        using cbe by (simp add: emitted_def get_cb_def)
      ultimately show ?thesis using nk True size by (simp del: One_nat_def)
    next
      case False
      have "\<exists>st1. gen_checktype h jit ctx st =
            Inr (YJIT_KEEP_COMPILING, jit, snd (ctx_stack_push (snd (ctx_stack_pop ctx 1)) TYPE_IMM), st1)
          \<and> emitted CB st st1 =
              [I_mov (reg_opnd REG0) dst, I_mov (reg_opnd REG1) (imm_opnd Qfalse)] @
                         (if \<not> is_heap t
                          then [I_test (reg_opnd REG0) (imm_opnd RUBY_IMMEDIATE_MASK),
                                I_jnz_ptr (CodePtr CB (length (insns (cb st)) + 11)),
                                I_cmp (reg_opnd REG0) (imm_opnd Qnil),
                                I_jbe_ptr (CodePtr CB (length (insns (cb st)) + 11))]
                          else []) @
                         [I_mov (reg_opnd REG0) (mem_opnd 64 REG0 offsetof_RBasic_flags),
                          I_and (reg_opnd REG0) (imm_opnd RUBY_T_MASK),
                          I_cmp (reg_opnd REG0) (imm_opnd (ucast tv)),
                          I_mov (reg_opnd REG0) (imm_opnd Qtrue),
                          I_cmov CC_E (reg_opnd REG1) (reg_opnd REG0),
                          I_mov dst (reg_opnd REG1)]"
        using body nk False tv
          runtime_check_code [OF cbe norefs, of dst "is_heap t" "ucast tv" dst, unfolded Let_def]
        by (simp del: emits_Cons emits_Nil One_nat_def)
      then show ?thesis using nk False size by auto
    qed
  qed
qed

text \<open>
A check for \<open>T_STRING\<close> of an entry known to be a string is the store of \<open>Qtrue\<close>.
\<close>

theorem gen_checktype_folds_witness:
  "jit_get_arg host0 (jit0 iseq_checktype) 0 = Inr 5
   \<and> ctx_get_opnd_type ctx_str (OPND_STACK 0) = TYPE_STRING
   \<and> (\<exists>ctx1 st1. gen_checktype host0 (jit0 iseq_checktype) ctx_str (st0 iseq_checktype)
                    = Inr (YJIT_KEEP_COMPILING, jit0 iseq_checktype, ctx1, st1)
         \<and> stack_size ctx1 = 1
         \<and> emitted CB (st0 iseq_checktype) st1 = [I_mov (mem_opnd 64 REG_SP 0) (imm_opnd Qtrue)])"
proof -
  have arg: "jit_get_arg host0 (jit0 iseq_checktype) 0 = Inr 5"
    by (simp add: jit_get_arg_def jit0_def iseq_checktype_def host0_def)
  have tv: "T_STRING = (ucast (5 :: 64 word) :: 32 word)"
    by (simp add: T_STRING_def)
  have ty: "TYPE_STRING = ctx_get_opnd_type ctx_str (OPND_STACK 0)"
    by (simp add: ctx_get_opnd_type_def ctx_str_def ctx_one_def DEFAULT_CTX_def TYPE_STRING_def
          Let_def MAX_TEMP_TYPES_def tracked_def)
  have known: "True = ((T_STRING = T_STRING \<and> vtype TYPE_STRING = ETYPE_STRING) \<or>
                         (T_STRING = T_ARRAY \<and> vtype TYPE_STRING = ETYPE_ARRAY) \<or>
                         (T_STRING = T_HASH \<and> vtype TYPE_STRING = ETYPE_HASH))"
    by (simp add: TYPE_STRING_def)
  have dst: "mem_opnd 64 REG_SP 0 = mem_opnd 64 REG_SP ((sp_offset ctx_str - 1) * SIZEOF_VALUE)"
    by (simp add: ctx_str_def ctx_one_def)
  have nr: "label_refs (cb (st0 iseq_checktype)) = []" "label_addrs (cb (st0 iseq_checktype)) = []"
    by (simp_all add: st0_def empty_cb_def)
  have sz: "stack_size ctx_str = 1"
    by (simp add: ctx_str_def ctx_one_def)
  show ?thesis
    using gen_checktype_folds [OF arg tv ty known dst st0_at_end(1) [of iseq_checktype] nr] arg ty sz
    by auto
qed

subsection \<open>Duplication of the two topmost entries\<close>

text \<open>
Claim C10. \<open>gen_dupn\<close> compiles \<open>dupn n\<close> for \<open>n = 2\<close> only: for any other \<open>n\<close> it
  returns \<open>YJIT_CANT_COMPILE\<close> without writing anything, and the loop ends at the instruction
  with an exit to the interpreter.
\<close>

theorem gen_dupn_only_two:
  assumes op: "yjit_opcode_at_pc h (iseq (ls_jit ls)) (unat (ls_insn_idx ls)) = BIN_dupn"
    and enter: "loop_enter_insn h ls = (jit2, st1)"
    and verify: "\<not> (RUBY_DEBUG h \<and> jit_at_current_insn jit2 \<and> \<not> verify_ctx_ok h (pc jit2) (ls_ctx ls))"
    and arg: "jit_get_arg h jit2 0 = Inr n"
    and at_end: "at_end (cb st1)"
  shows "(n = 2 \<longrightarrow> (\<exists>ctx1 st2. gen_dupn h jit2 ctx st = Inr (YJIT_KEEP_COMPILING, jit2, ctx1, st2)))
       \<and> (n \<noteq> 2 \<longrightarrow> gen_dupn h jit2 ctx st = Inr (YJIT_CANT_COMPILE, jit2, ctx, st)
            \<and> (\<exists>st4. gen_block_loop h (gen_fns h rest) starting_insn_idx ls =
                        Some (Inr \<lparr>ls_insn_idx = ls_insn_idx ls, ls_jit = jit2,
                         ls_ctx = (ls_ctx ls)\<lparr>chain_depth := 0\<rparr>, ls_st = st4\<rparr>)
                  \<and> emitted CB (GEN_COUNTER_INC h CB ''exec_instruction'' st1) st4 =
                      exit_code h (unat (ls_insn_idx ls)) ((ls_ctx ls)\<lparr>chain_depth := 0\<rparr>)))"
proof (intro conjI impI)
  assume "n = 2"
  then show "\<exists>ctx1 st2. gen_dupn h jit2 ctx st = Inr (YJIT_KEEP_COMPILING, jit2, ctx1, st2)"
    using arg by (simp add: gen_dupn_def bind_res_def Let_def split_def)
next
  assume n: "n \<noteq> 2"
  then show "gen_dupn h jit2 ctx st = Inr (YJIT_CANT_COMPILE, jit2, ctx, st)"
    using arg by (simp add: gen_dupn_def bind_res_def)
next
  assume n: "n \<noteq> 2"
  let ?st2 = "GEN_COUNTER_INC h CB ''exec_instruction'' st1"
  let ?ctx4 = "(ls_ctx ls)\<lparr>chain_depth := 0\<rparr>"
  let ?st4 = "snd (yjit_gen_exit h (pc jit2) ?ctx4 CB ?st2)"
  have pc2: "pc jit2 = unat (ls_insn_idx ls)"
    using loop_enter_insn_pc [of h ls] enter by simp
  have nocut: "\<not> (yjit_opcode_at_pc h (iseq (ls_jit ls)) (unat (ls_insn_idx ls)) = BIN_opt_getinlinecache
                    \<and> starting_insn_idx < ls_insn_idx ls)"
    using op by simp
  have fn: "gen_fns h rest (yjit_opcode_at_pc h (iseq (ls_jit ls)) (unat (ls_insn_idx ls))) = Some (gen_dupn h)"
    using op by (simp add: gen_fns_def)
  have cant: "gen_dupn h jit2 (ls_ctx ls) ?st2 = Inr (YJIT_CANT_COMPILE, jit2, ls_ctx ls, ?st2)"
    using arg n by (simp add: gen_dupn_def bind_res_def)
  have step: "gen_block_step h (gen_fns h rest) starting_insn_idx ls =
           Inr (True, \<lparr>ls_insn_idx = ls_insn_idx ls, ls_jit = jit2, ls_ctx = ?ctx4, ls_st = ?st4\<rparr>)"
    using nocut enter verify fn cant by (rule gen_block_step_cant_compile)
  have e2: "at_end (cb ?st2)"
    by (rule GEN_COUNTER_INC_CB(2) [OF at_end])
  have code: "emitted CB ?st2 ?st4 = exit_code h (unat (ls_insn_idx ls)) ?ctx4"
    using yjit_gen_exit_CB(2) [OF e2] pc2 by (simp add: emitted_def get_cb_def)
  show "\<exists>st4. gen_block_loop h (gen_fns h rest) starting_insn_idx ls =
                        Some (Inr \<lparr>ls_insn_idx = ls_insn_idx ls, ls_jit = jit2,
                         ls_ctx = ?ctx4, ls_st = st4\<rparr>)
                  \<and> emitted CB ?st2 st4 = exit_code h (unat (ls_insn_idx ls)) ?ctx4"
    using gen_block_loop_break [OF step] code by blast
qed

text \<open>
The bytecode \<open>dupn 3\<close> is not compiled.
\<close>

theorem gen_dupn_only_two_witness:
  "jit_get_arg host0 ((jit0 iseq_dupn)\<lparr>insn_idx := 0, pc := 0, opcode := BIN_dupn\<rparr>) 0 = Inr 3
   \<and> gen_dupn host0 ((jit0 iseq_dupn)\<lparr>insn_idx := 0, pc := 0, opcode := BIN_dupn\<rparr>) ctx_two
        (st0 iseq_dupn)
       = Inr (YJIT_CANT_COMPILE, (jit0 iseq_dupn)\<lparr>insn_idx := 0, pc := 0, opcode := BIN_dupn\<rparr>,
              ctx_two, st0 iseq_dupn)
   \<and> map_option ls_insn_idx
        (case gen_block_loop host0 (gen_fns host0 Map.empty) 0 (ls0 iseq_dupn) of
           Some (Inr l) \<Rightarrow> Some l | _ \<Rightarrow> None) = Some 0"
proof -
  let ?jit = "(jit0 iseq_dupn)\<lparr>insn_idx := 0, pc := 0, opcode := BIN_dupn\<rparr>"
  have op: "yjit_opcode_at_pc host0 (iseq (ls_jit (ls0 iseq_dupn))) (unat (ls_insn_idx (ls0 iseq_dupn)))
              = BIN_dupn"
    by (simp add: sample_defs)
  have enter: "loop_enter_insn host0 (ls0 iseq_dupn) = (?jit, st0 iseq_dupn)"
    by (simp add: loop_enter_insn_def Let_def sample_defs)
  have verify: "\<not> (RUBY_DEBUG host0 \<and> jit_at_current_insn ?jit
                    \<and> \<not> verify_ctx_ok host0 (pc ?jit) (ls_ctx (ls0 iseq_dupn)))"
    by (simp add: host0_def)
  have arg: "jit_get_arg host0 ?jit 0 = Inr 3"
    by (simp add: jit_get_arg_def jit0_def iseq_dupn_def host0_def)
  show ?thesis
    using gen_dupn_only_two [OF op enter verify arg st0_at_end(1) [of iseq_dupn],
            of ctx_two "st0 iseq_dupn" Map.empty 0] arg
    by (auto simp add: ls0_def)
qed

end
